theory Spec2Isabelle
  imports Main "HOL-Library.Word" "HOL-Library.Monad_Syntax"
begin

unbundle bit_operations_syntax

section \<open>JavaScript values and operators\<close>

text \<open>
  The emulator is JavaScript. Its registers and counters are JavaScript numbers that
  hold integers as long as every value read from memory is a number; nothing wraps
  unless the source masks it. A cell of an array that was never written reads as
  \<open>undefined\<close>, and arithmetic on \<open>undefined\<close> gives \<open>NaN\<close>; the values that
  the emulator stores are therefore of type \<open>jsval\<close>.

  The bitwise operators of JavaScript convert their operands to 32-bit signed
  integers first (\<open>toInt32\<close>, which sends \<open>undefined\<close> and \<open>NaN\<close> to 0), take
  a shift count modulo 32, and return a 32-bit signed integer.
\<close>

datatype jsval = Num int | Undefined | NaN

definition toInt32 :: "int \<Rightarrow> int" where
  "toInt32 x = signed_take_bit 31 x"

fun valToInt32 :: "jsval \<Rightarrow> int" where
  "valToInt32 (Num n) = toInt32 n"
| "valToInt32 Undefined = 0"
| "valToInt32 NaN = 0"

definition js_and :: "int \<Rightarrow> int \<Rightarrow> int" where
  "js_and a b = toInt32 a AND toInt32 b"

definition js_or :: "int \<Rightarrow> int \<Rightarrow> int" where
  "js_or a b = toInt32 a OR toInt32 b"

definition js_xor :: "int \<Rightarrow> int \<Rightarrow> int" where
  "js_xor a b = toInt32 a XOR toInt32 b"

definition js_not :: "int \<Rightarrow> int" where
  "js_not a = NOT (toInt32 a)"

definition js_shl :: "int \<Rightarrow> int \<Rightarrow> int" where
  "js_shl a n = toInt32 (push_bit (nat (n mod 32)) (toInt32 a))"

definition js_shr :: "int \<Rightarrow> int \<Rightarrow> int" where
  "js_shr a n = drop_bit (nat (n mod 32)) (toInt32 a)"

section \<open>The memory management unit\<close>

text \<open>
  \<open>JOYPAD\<close> is created as an array of eight cells and filled with 1 by
  \<open>initialize\<close>; the key handlers later overwrite it with a number. Under a bitwise
  operator an array of two or more cells converts to NaN and so to 0.
\<close>

datatype joypad = Joypad_array "jsval list" | Joypad_number int

fun joypadToInt32 :: "joypad \<Rightarrow> int" where
  "joypadToInt32 (Joypad_array xs) = (case xs of [x] \<Rightarrow> valToInt32 x | _ \<Rightarrow> 0)"
| "joypadToInt32 (Joypad_number n) = toInt32 n"

text \<open>
  The fields of \<open>MMU\<close>. \<open>memory\<close> and \<open>ramBanks\<close> are JavaScript arrays, indexed
  by whatever number the caller passes; \<open>cartridgeData\<close> is the byte array handed to
  \<open>setCartridgeData\<close> (the record describes an MMU whose cartridge has been set: the
  field is \<open>null\<close> before that). An index that is not a number selects a property of
  the array by its name: \<open>memory_undefined\<close> and \<open>memory_NaN\<close> are the properties
  \<open>memory["undefined"]\<close> and \<open>memory["NaN"]\<close>. Calls of \<open>console.log\<close> and
  \<open>console.trace\<close> change no state and are left out throughout.
\<close>

record mmu =
  memory :: "int \<Rightarrow> jsval"
  memory_undefined :: jsval
  memory_NaN :: jsval
  cartridgeData :: "int list"
  JOYPAD :: joypad
  mbc1 :: bool
  mbc2 :: bool
  romBanking :: bool
  currentRomBank :: int
  currentRamBank :: int
  ramBanks :: "int \<Rightarrow> jsval"
  enableRam :: bool

text \<open>Indexing the cartridge bytes: outside the array the result is \<open>undefined\<close>.\<close>

definition cartridgeByte :: "int list \<Rightarrow> int \<Rightarrow> jsval" where
  "cartridgeByte cart i =
     (if 0 \<le> i \<and> i < int (length cart) then Num (cart ! nat i) else Undefined)"

text \<open>
  Every method takes the MMU and returns it, with its result if it has one, so that
  what a method leaves untouched is a theorem and not a convention.
\<close>

definition determineRomBankingType :: "mmu \<Rightarrow> mmu" where
  "determineRomBankingType m =
     (if memory m 0x147 = Num 1 then m\<lparr>mbc1 := True\<rparr>
      else if memory m 0x147 = Num 2 then m\<lparr>mbc1 := True\<rparr>
      else if memory m 0x147 = Num 3 then m\<lparr>mbc1 := True\<rparr>
      else if memory m 0x147 = Num 5 then m\<lparr>mbc2 := True\<rparr>
      else if memory m 0x147 = Num 6 then m\<lparr>mbc2 := True\<rparr>
      else m)"

text \<open>The field values that the constructor \<open>MMU()\<close> assigns: both arrays are
  created without contents, and the empty list stands for the \<open>null\<close> cartridge.\<close>

definition new_MMU :: mmu where
  "new_MMU =
     \<lparr>memory = (\<lambda>i. Undefined), memory_undefined = Undefined, memory_NaN = Undefined,
      cartridgeData = [],
      JOYPAD = Joypad_array (replicate 8 Undefined),
      mbc1 = False, mbc2 = False, romBanking = True, currentRomBank = 1,
      currentRamBank = 0, ramBanks = (\<lambda>i. Undefined), enableRam = False\<rparr>"

definition initialize_mmu :: "mmu \<Rightarrow> mmu" where
  "initialize_mmu m =
     m\<lparr>memory := (\<lambda>i. if 0 \<le> i \<and> i < 0x10000 then Num 0 else memory m i)
          (0xFF00 := Num 0xFF, 0xFF05 := Num 0x00, 0xFF06 := Num 0x00, 0xFF07 := Num 0x00,
           0xFF10 := Num 0x80, 0xFF11 := Num 0xBF, 0xFF12 := Num 0xF3, 0xFF14 := Num 0xBF,
           0xFF16 := Num 0x3F, 0xFF17 := Num 0x00, 0xFF19 := Num 0xBF, 0xFF1A := Num 0x7F,
           0xFF1B := Num 0xFF, 0xFF1C := Num 0x9F, 0xFF1E := Num 0xBF, 0xFF20 := Num 0xFF,
           0xFF21 := Num 0x00, 0xFF22 := Num 0x00, 0xFF23 := Num 0xBF, 0xFF24 := Num 0x77,
           0xFF25 := Num 0xF3, 0xFF26 := Num 0xF1, 0xFF40 := Num 0x91, 0xFF42 := Num 0x00,
           0xFF43 := Num 0x00, 0xFF45 := Num 0x00, 0xFF47 := Num 0xFC, 0xFF48 := Num 0xFF,
           0xFF49 := Num 0xFF, 0xFF4A := Num 0x00, 0xFF4B := Num 0x00, 0xFFFF := Num 0x00),
       JOYPAD := (case JOYPAD m of
                    Joypad_array xs \<Rightarrow> Joypad_array (replicate 8 (Num 1))
                  | Joypad_number n \<Rightarrow> Joypad_number n)\<rparr>"

definition setCartridgeData :: "int list \<Rightarrow> mmu \<Rightarrow> mmu" where
  "setCartridgeData data m =
     m\<lparr>cartridgeData := data,
       memory := (\<lambda>i. if 0 \<le> i \<and> i < 0x8000 then cartridgeByte data i else memory m i)\<rparr>"

definition getJoypadState :: "mmu \<Rightarrow> jsval \<times> mmu" where
  "getJoypadState m =
     (let result = js_xor (valToInt32 (memory m 0xFF00)) 0xFF in
      if js_and result 0x20 \<noteq> 0 then
        (let topNibble = js_or (js_shr (joypadToInt32 (JOYPAD m)) 4) 0xF0
         in (Num (js_and result topNibble), m))
      else if js_and result 0x10 \<noteq> 0 then
        (let bottomNibble = js_or (js_and (joypadToInt32 (JOYPAD m)) 0xF) 0xF0
         in (Num (js_and result bottomNibble), m))
      else (Num result, m))"

definition read :: "int \<Rightarrow> mmu \<Rightarrow> jsval \<times> mmu" where
  "read address m =
     (if address = 0xFF00 then getJoypadState m
      else if address \<ge> 0x4000 \<and> address \<le> 0x7FFF then
        (cartridgeByte (cartridgeData m) (address - 0x4000 + currentRomBank m * 0x4000), m)
      else if address \<ge> 0xA000 \<and> address \<le> 0xBFFF then
        (ramBanks m (address - 0xA000 + currentRamBank m * 0x2000), m)
      else (memory m address, m))"

definition doEnableRamBanking :: "int \<Rightarrow> jsval \<Rightarrow> mmu \<Rightarrow> mmu" where
  "doEnableRamBanking address data m =
     (if mbc2 m then
        (if js_and address 8 \<noteq> 0 then m
         else
           (let lowerNibble = js_and (valToInt32 data) 0xF in
            if lowerNibble = 0xA then m\<lparr>enableRam := True\<rparr>
            else if lowerNibble = 0 then m\<lparr>enableRam := False\<rparr>
            else m))
      else m)"

definition doRomLoBankChange :: "jsval \<Rightarrow> mmu \<Rightarrow> mmu" where
  "doRomLoBankChange data m =
     (if mbc2 m then
        (let bank = js_and (valToInt32 data) 0xF in
         m\<lparr>currentRomBank := (if bank = 0 then bank + 1 else bank)\<rparr>)
      else
        (let lowerFiveBits = js_and (valToInt32 data) 0x1F;
             bank = js_or (js_and (currentRomBank m) 0xE0) lowerFiveBits in
         m\<lparr>currentRomBank := (if bank = 0 then bank + 1 else bank)\<rparr>))"

definition doRomHiBankChange :: "jsval \<Rightarrow> mmu \<Rightarrow> mmu" where
  "doRomHiBankChange data m =
     (let newData = js_and (valToInt32 data) 0xE0;
          bank = js_or (js_and (currentRomBank m) 0x1F) newData in
      m\<lparr>currentRomBank := (if bank = 0 then bank + 1 else bank)\<rparr>)"

definition doRamBankChange :: "jsval \<Rightarrow> mmu \<Rightarrow> mmu" where
  "doRamBankChange data m = m\<lparr>currentRamBank := js_and (valToInt32 data) 0x2\<rparr>"

definition doChangeRomRamMode :: "jsval \<Rightarrow> mmu \<Rightarrow> mmu" where
  "doChangeRomRamMode data m =
     (let leastSignificantBit = js_and (valToInt32 data) 0x1 in
      if leastSignificantBit = 0 then m\<lparr>romBanking := True, currentRamBank := 0\<rparr>
      else if leastSignificantBit = 1 then m\<lparr>romBanking := False\<rparr>
      else m)"

definition handleBanking :: "int \<Rightarrow> jsval \<Rightarrow> mmu \<Rightarrow> mmu" where
  "handleBanking address data m =
     (if address < 0x2000 then
        (if mbc1 m \<or> mbc2 m then doEnableRamBanking address data m else m)
      else if address \<ge> 0x2000 \<and> address < 0x4000 then
        (if mbc1 m \<or> mbc2 m then doRomLoBankChange data m else m)
      else if address \<ge> 0x4000 \<and> address < 0x6000 then
        (if mbc1 m then
           (if romBanking m then doRomHiBankChange data m else doRamBankChange data m)
         else m)
      else if address \<ge> 0x6000 \<and> address < 0x8000 then
        (if mbc1 m then doChangeRomRamMode data m else m)
      else m)"

text \<open>
  \<open>write\<close> (here \<open>write_mmu\<close>) calls itself for the echo region and, through the loop of
  \<open>doDmaTransfer\<close>, for each of the 160 bytes of a DMA transfer. The loop
  \<open>for (i = 0xFE00; i <= 0xFE9F; i++)\<close> is \<open>dmaLoop\<close>, with the loop variable
  and the running source address as arguments.
\<close>

function write_mmu :: "int \<Rightarrow> jsval \<Rightarrow> mmu \<Rightarrow> mmu"
  and dmaLoop :: "int \<Rightarrow> int \<Rightarrow> mmu \<Rightarrow> mmu" where
  "write_mmu address data m =
     (if address < 0x8000 then handleBanking address data m
      else if address \<ge> 0xA000 \<and> address < 0xC000 then
        (if enableRam m then
           m\<lparr>ramBanks := (ramBanks m)(address - 0xA000 + currentRamBank m * 0x2000 := data)\<rparr>
         else m)
      else if address = 0xFF04 then m\<lparr>memory := (memory m)(address := Num 0)\<rparr>
      else if address = 0xFF44 then m\<lparr>memory := (memory m)(address := Num 0)\<rparr>
      else if address = 0xFF46 then dmaLoop 0xFE00 (js_shl (valToInt32 data) 8) m
      else if address \<ge> 0xFEA0 \<and> address < 0xFEFF then m
      else if address \<ge> 0xE000 \<and> address \<le> 0xFDFF then
        (let m' = write_mmu (address - 0x2000) data m
         in m'\<lparr>memory := (memory m')(address := data)\<rparr>)
      else m\<lparr>memory := (memory m)(address := data)\<rparr>)"
| "dmaLoop i sourceAddress m =
     (if i \<le> 0xFE9F then
        (let (v, m1) = read sourceAddress m;
             m2 = write_mmu i v m1
         in dmaLoop (i + 1) (sourceAddress + 1) m2)
      else m)"
  by pat_completeness auto
termination
  by (relation "measure (\<lambda>x. case x of
         Inl (address, data, m) \<Rightarrow>
           (if address = 0xFF46 then 200
            else if address \<ge> 0xE000 \<and> address \<le> 0xFDFF then 1 else 0)
       | Inr (i, sourceAddress, m) \<Rightarrow> 2 + nat (0xFEA0 - i))") auto

definition doDmaTransfer :: "jsval \<Rightarrow> mmu \<Rightarrow> mmu" where
  "doDmaTransfer data m = dmaLoop 0xFE00 (js_shl (valToInt32 data) 8) m"

declare write_mmu.simps [simp del] dmaLoop.simps [simp del]

text \<open>
  \<open>read\<close> and \<open>write\<close> called with any value as the address. Every comparison of
  \<open>undefined\<close> or \<open>NaN\<close> with a number is false, so such an address reaches the
  last branch of either method, which indexes \<open>memory\<close> with it.
\<close>

definition read_val :: "jsval \<Rightarrow> mmu \<Rightarrow> jsval \<times> mmu" where
  "read_val address m =
     (case address of
        Num a \<Rightarrow> read a m
      | Undefined \<Rightarrow> (memory_undefined m, m)
      | NaN \<Rightarrow> (memory_NaN m, m))"

definition write_val :: "jsval \<Rightarrow> jsval \<Rightarrow> mmu \<Rightarrow> mmu" where
  "write_val address data m =
     (case address of
        Num a \<Rightarrow> write_mmu a data m
      | Undefined \<Rightarrow> m\<lparr>memory_undefined := data\<rparr>
      | NaN \<Rightarrow> m\<lparr>memory_NaN := data\<rparr>)"

section \<open>The CPU, the timer and the interrupt controller\<close>

record registers =
  A :: int
  B :: int
  C :: int
  D :: int
  E :: int
  F :: int
  H :: int
  L :: int
  PC :: int
  SP :: int

text \<open>
  The fields of \<open>Gameboy\<close> that the CPU, the timer and the interrupt controller use
  (the screen buffer and the scanline counter belong to the renderer, which is not
  part of this development).
\<close>

record gameboy =
  cpuStopped :: bool
  halted :: bool
  timerCounter :: int
  dividerCounter :: int
  interruptsEnabled :: bool
  toDisableInterrupts :: int
  toEnableInterrupts :: int
  debug :: int
  mmu :: mmu
  registers :: registers

abbreviation ZERO_BIT :: int where "ZERO_BIT \<equiv> 7"
abbreviation SUBTRACT_BIT :: int where "SUBTRACT_BIT \<equiv> 6"
abbreviation HALF_CARRY_BIT :: int where "HALF_CARRY_BIT \<equiv> 5"
abbreviation CARRY_BIT :: int where "CARRY_BIT \<equiv> 4"

abbreviation DIVIDER_REGISTER_ADDR :: int where "DIVIDER_REGISTER_ADDR \<equiv> 0xFF04"
abbreviation TIMER_ADDR :: int where "TIMER_ADDR \<equiv> 0xFF05"
abbreviation TIMER_MODULATOR_ADDR :: int where "TIMER_MODULATOR_ADDR \<equiv> 0xFF06"
abbreviation TIMER_CONTROLLER_ADDR :: int where "TIMER_CONTROLLER_ADDR \<equiv> 0xFF07"
abbreviation INTERRUPT_ENABLED_ADDR :: int where "INTERRUPT_ENABLED_ADDR \<equiv> 0xFFFF"
abbreviation INTERRUPT_REQUEST_ADDR :: int where "INTERRUPT_REQUEST_ADDR \<equiv> 0xFF0F"

text \<open>
  \<open>ths.mmu.read\<close> and \<open>ths.mmu.write\<close> as the CPU calls them. The CPU model
  follows the source for as long as every value the CPU reads is a number: where the
  source would go on with \<open>undefined\<close>, the model stops with \<open>None\<close>.
\<close>

definition mmu_read :: "int \<Rightarrow> gameboy \<Rightarrow> (int \<times> gameboy) option" where
  "mmu_read address s =
     (case read address (mmu s) of
        (Num n, m') \<Rightarrow> Some (n, s\<lparr>mmu := m'\<rparr>)
      | (Undefined, m') \<Rightarrow> None
      | (NaN, m') \<Rightarrow> None)"

definition mmu_write :: "int \<Rightarrow> int \<Rightarrow> gameboy \<Rightarrow> gameboy" where
  "mmu_write address data s = s\<lparr>mmu := write_mmu address (Num data) (mmu s)\<rparr>"

text \<open>The field values that the constructor \<open>Gameboy()\<close> assigns.\<close>

definition new_Gameboy :: gameboy where
  "new_Gameboy =
     \<lparr>cpuStopped = False, halted = False, timerCounter = 1024, dividerCounter = 0,
      interruptsEnabled = True, toDisableInterrupts = - 1, toEnableInterrupts = - 1,
      debug = 0, mmu = new_MMU,
      registers = \<lparr>A = 0, B = 0, C = 0, D = 0, E = 0, F = 0, H = 0, L = 0, PC = 0, SP = 0\<rparr>\<rparr>"

definition initialize :: "gameboy \<Rightarrow> gameboy" where
  "initialize s =
     s\<lparr>halted := False,
       registers := (registers s)\<lparr>PC := 0x100, SP := 0xFFFE, A := 0x01, F := 0xB0,
                      B := 0x00, C := 0x13, D := 0x00, E := 0xD8, H := 0x01, L := 0x4D\<rparr>,
       mmu := initialize_mmu (mmu s)\<rparr>"

text \<open>
  How the page starts the emulator: construct, \<open>initialize\<close>, \<open>loadProgram\<close>.
  This is the reset state with a given cartridge.
\<close>

definition loadProgram :: "int list \<Rightarrow> gameboy \<Rightarrow> gameboy" where
  "loadProgram data s = s\<lparr>mmu := setCartridgeData data (mmu s)\<rparr>"

definition reset :: "int list \<Rightarrow> gameboy" where
  "reset data = loadProgram data (initialize new_Gameboy)"

definition pushToStack :: "int \<Rightarrow> gameboy \<Rightarrow> gameboy" where
  "pushToStack data s =
     (let s1 = s\<lparr>registers := (registers s)\<lparr>SP := SP (registers s) - 1\<rparr>\<rparr>
      in mmu_write (SP (registers s1)) data s1)"

definition popFromStack :: "gameboy \<Rightarrow> (int \<times> gameboy) option" where
  "popFromStack s =
     do {
       (data, s1) \<leftarrow> mmu_read (SP (registers s)) s;
       Some (data, s1\<lparr>registers := (registers s1)\<lparr>SP := SP (registers s1) + 1\<rparr>\<rparr>)
     }"

definition requestInterrupt :: "int \<Rightarrow> gameboy \<Rightarrow> gameboy option" where
  "requestInterrupt bitno s =
     do {
       (currentRegisterVal, s1) \<leftarrow> mmu_read INTERRUPT_REQUEST_ADDR s;
       let v = (if bitno = 0 then js_or currentRegisterVal 1
                else if bitno = 1 then js_or currentRegisterVal 2
                else if bitno = 2 then js_or currentRegisterVal 4
                else if bitno = 4 then js_or currentRegisterVal 16
                else currentRegisterVal);
       Some (mmu_write INTERRUPT_REQUEST_ADDR v s1)
     }"

text \<open>\<open>checkInterruptBitSet\<close> has no \<open>case 3\<close> and no default: for any other bit
  it returns \<open>undefined\<close>, which the caller's \<open>if\<close> takes as false.\<close>

definition checkInterruptBitSet :: "int \<Rightarrow> int \<Rightarrow> jsval" where
  "checkInterruptBitSet bitno val =
     (if bitno = 0 then Num (js_and 1 val)
      else if bitno = 1 then Num (js_and 2 val)
      else if bitno = 2 then Num (js_and 4 val)
      else if bitno = 4 then Num (js_and 16 val)
      else Undefined)"

fun truthy :: "jsval \<Rightarrow> bool" where
  "truthy (Num n) = (n \<noteq> 0)"
| "truthy Undefined = False"
| "truthy NaN = False"

definition runInterrupt :: "int \<Rightarrow> gameboy \<Rightarrow> gameboy option" where
  "runInterrupt interrupt s =
     do {
       let s1 = s\<lparr>halted := False, interruptsEnabled := False\<rparr>;
       (requestedValue, s2) \<leftarrow> mmu_read INTERRUPT_REQUEST_ADDR s1;
       let v = (if interrupt = 0 then js_xor requestedValue 1
                else if interrupt = 1 then js_xor requestedValue 2
                else if interrupt = 2 then js_xor requestedValue 4
                else if interrupt = 4 then js_xor requestedValue 16
                else requestedValue);
       let s3 = mmu_write INTERRUPT_REQUEST_ADDR v s2;
       let s4 = pushToStack (js_shr (PC (registers s3)) 8) s3;
       let s5 = pushToStack (js_and (PC (registers s4)) 0xFF) s4;
       Some (if interrupt = 0 then s5\<lparr>registers := (registers s5)\<lparr>PC := 0x40\<rparr>\<rparr>
             else if interrupt = 1 then s5\<lparr>registers := (registers s5)\<lparr>PC := 0x48\<rparr>\<rparr>
             else if interrupt = 2 then s5\<lparr>registers := (registers s5)\<lparr>PC := 0x50\<rparr>\<rparr>
             else if interrupt = 4 then s5\<lparr>registers := (registers s5)\<lparr>PC := 0x60\<rparr>\<rparr>
             else s5)
     }"

text \<open>The loop \<open>for (var i = 0; i < 5; i++)\<close> of \<open>doInterrupts\<close>; the two
  register values were read once, before the loop.\<close>

function doInterruptsLoop :: "int \<Rightarrow> int \<Rightarrow> int \<Rightarrow> gameboy \<Rightarrow> gameboy option" where
  "doInterruptsLoop i requestedInterrupts enabledInterrupts s =
     (if i < 5 then
        do {
          s1 \<leftarrow> (if truthy (checkInterruptBitSet i requestedInterrupts) then
                   (if truthy (checkInterruptBitSet i enabledInterrupts) then runInterrupt i s
                    else Some s)
                 else Some s);
          doInterruptsLoop (i + 1) requestedInterrupts enabledInterrupts s1
        }
      else Some s)"
  by pat_completeness auto
termination
  by (relation "measure (\<lambda>(i, requestedInterrupts, enabledInterrupts, s). nat (5 - i))") auto

declare doInterruptsLoop.simps [simp del]

definition doInterrupts :: "gameboy \<Rightarrow> gameboy option" where
  "doInterrupts s =
     (if interruptsEnabled s then
        do {
          (requestedInterrupts, s1) \<leftarrow> mmu_read INTERRUPT_REQUEST_ADDR s;
          (enabledInterrupts, s2) \<leftarrow> mmu_read INTERRUPT_ENABLED_ADDR s1;
          if requestedInterrupts > 0 then
            doInterruptsLoop 0 requestedInterrupts enabledInterrupts s2
          else Some s2
        }
      else Some s)"

definition getClockFrequency :: "gameboy \<Rightarrow> (int \<times> gameboy) option" where
  "getClockFrequency s =
     do {
       (v, s1) \<leftarrow> mmu_read TIMER_CONTROLLER_ADDR s;
       Some (js_and v 3, s1)
     }"

definition setClockFrequency :: "gameboy \<Rightarrow> gameboy option" where
  "setClockFrequency s =
     do {
       (frequency, s1) \<leftarrow> getClockFrequency s;
       Some (if frequency = 0 then s1\<lparr>timerCounter := 1024\<rparr>
             else if frequency = 1 then s1\<lparr>timerCounter := 16\<rparr>
             else if frequency = 2 then s1\<lparr>timerCounter := 64\<rparr>
             else if frequency = 3 then s1\<lparr>timerCounter := 256\<rparr>
             else s1)
     }"

definition isClockEnabled :: "gameboy \<Rightarrow> (int \<times> gameboy) option" where
  "isClockEnabled s =
     do {
       (timerController, s1) \<leftarrow> mmu_read TIMER_CONTROLLER_ADDR s;
       Some (js_and timerController 4, s1)
     }"

text \<open>The divider is written straight into \<open>mmu.memory\<close>, not through \<open>write\<close>.\<close>

definition incrementDividerRegister :: "int \<Rightarrow> gameboy \<Rightarrow> gameboy option" where
  "incrementDividerRegister cycles s =
     (let s1 = s\<lparr>dividerCounter := dividerCounter s + cycles\<rparr> in
      if dividerCounter s1 \<ge> 255 then
        do {
          let s2 = s1\<lparr>dividerCounter := 0\<rparr>;
          (currentDividerValue, s3) \<leftarrow> mmu_read DIVIDER_REGISTER_ADDR s2;
          Some (if currentDividerValue = 255 then
                  s3\<lparr>mmu := (mmu s3)\<lparr>memory := (memory (mmu s3))(DIVIDER_REGISTER_ADDR := Num 0)\<rparr>\<rparr>
                else
                  s3\<lparr>mmu := (mmu s3)\<lparr>memory := (memory (mmu s3))
                                   (DIVIDER_REGISTER_ADDR := Num (currentDividerValue + 1))\<rparr>\<rparr>)
        }
      else Some s1)"

definition updateTimers :: "int \<Rightarrow> gameboy \<Rightarrow> gameboy option" where
  "updateTimers cycles s =
     do {
       s1 \<leftarrow> setClockFrequency s;
       s2 \<leftarrow> incrementDividerRegister cycles s1;
       (enabled, s3) \<leftarrow> isClockEnabled s2;
       if enabled \<noteq> 0 then
         (let s4 = s3\<lparr>timerCounter := timerCounter s3 - cycles\<rparr> in
          if timerCounter s4 \<le> 0 then
            do {
              s5 \<leftarrow> setClockFrequency s4;
              (currentTimerValue, s6) \<leftarrow> mmu_read TIMER_ADDR s5;
              (timerValue, s7) \<leftarrow> mmu_read TIMER_ADDR s6;
              if timerValue = 255 then
                do {
                  (modulator, s8) \<leftarrow> mmu_read TIMER_MODULATOR_ADDR s7;
                  requestInterrupt 2 (mmu_write TIMER_ADDR modulator s8)
                }
              else Some (mmu_write TIMER_ADDR (currentTimerValue + 1) s7)
            }
          else Some s4)
       else Some s3
     }"

definition setFlagBit :: "int \<Rightarrow> bool \<Rightarrow> gameboy \<Rightarrow> gameboy" where
  "setFlagBit bitno isSet s =
     (if isSet then s\<lparr>registers := (registers s)\<lparr>F := js_or (F (registers s)) (js_shl 1 bitno)\<rparr>\<rparr>
      else s\<lparr>registers := (registers s)\<lparr>F := js_and (F (registers s)) (js_not (js_shl 1 bitno))\<rparr>\<rparr>)"

text \<open>The arithmetic helpers return the new value and, as the state, the flags they set.\<close>

definition inc8Bit :: "int \<Rightarrow> gameboy \<Rightarrow> int \<times> gameboy" where
  "inc8Bit register s =
     (let curVal = register;
          s1 = (if js_and curVal 0xF = 0xF then setFlagBit HALF_CARRY_BIT True s else s);
          curVal1 = curVal + 1;
          (curVal2, s2) = (if curVal1 > 0xFF then (0, setFlagBit ZERO_BIT True s1)
                           else (curVal1, s1))
      in (curVal2, setFlagBit SUBTRACT_BIT False s2))"

definition dec8Bit :: "int \<Rightarrow> gameboy \<Rightarrow> int \<times> gameboy" where
  "dec8Bit register s =
     (let curVal = register;
          s1 = (if js_and curVal 0xF = 0 then setFlagBit HALF_CARRY_BIT True s else s);
          curVal1 = curVal - 1;
          s2 = (if curVal1 = 0 then setFlagBit ZERO_BIT True s1 else s1);
          curVal2 = (if curVal1 < 0 then 0xFF else curVal1)
      in (curVal2, setFlagBit SUBTRACT_BIT True s2))"

definition add8Bit :: "int \<Rightarrow> int \<Rightarrow> bool \<Rightarrow> gameboy \<Rightarrow> int \<times> gameboy" where
  "add8Bit destination value withCarry s =
     (let value1 = (if withCarry then
                      (if js_and (js_shr (F (registers s)) CARRY_BIT) 1 \<noteq> 0 then value + 1
                       else value)
                    else value);
          result = destination + value1;
          isHalfCarry = js_and destination 0xF + js_and value1 0xF;
          s1 = (if isHalfCarry > 0xF then setFlagBit HALF_CARRY_BIT True s else s);
          (result1, s2) = (if result > 0xFF then (result - 0xFF, setFlagBit CARRY_BIT True s1)
                           else (result, s1));
          s3 = (if result1 = 0 then setFlagBit ZERO_BIT True s2 else s2)
      in (result1, setFlagBit SUBTRACT_BIT False s3))"

definition sub8Bit :: "int \<Rightarrow> int \<Rightarrow> bool \<Rightarrow> gameboy \<Rightarrow> int \<times> gameboy" where
  "sub8Bit destination value withCarry s =
     (let value1 = (if withCarry then
                      (if js_and (js_shr (F (registers s)) CARRY_BIT) 1 \<noteq> 0 then value + 1
                       else value)
                    else value);
          result = destination - value1;
          isHalfCarry = js_and destination 0xF - js_and value1 0xF;
          s1 = (if isHalfCarry < 0 then setFlagBit HALF_CARRY_BIT True s else s);
          (result1, s2) = (if result < 0 then (result + 0xFF, setFlagBit CARRY_BIT True s1)
                           else (result, s1));
          s3 = (if result1 = 0 then setFlagBit ZERO_BIT True s2 else s2)
      in (result1, setFlagBit SUBTRACT_BIT True s3))"

text \<open>
  The primary opcode table, for the instructions this development is about: NOP,
  LD BC,d16, the 8-bit INC and DEC, HALT, the 8-bit ADD and SUB, JP a16, PUSH and POP,
  DI and EI. Each branch is the \<open>case\<close> of the source's \<open>switch\<close> and returns the
  cycle count with the new state. Any other opcode is outside this model: \<open>None\<close>
  (the whole table is \<open>executeOperation_js\<close>, further down).
\<close>

definition executeOperation :: "int \<Rightarrow> gameboy \<Rightarrow> (int \<times> gameboy) option" where
  "executeOperation opcode s =
     (if opcode = 0x00 then \<comment> \<open>NOP\<close>
         Some (4, s)
      else if opcode = 0x01 then \<comment> \<open>LD BC, d16\<close>
         (let s1 = s\<lparr>registers := (registers s)\<lparr>PC := PC (registers s) + 1\<rparr>\<rparr> in
         do {
           (b, s2) \<leftarrow> mmu_read (PC (registers s1)) s1;
           let s3 = s2\<lparr>registers := (registers s2)\<lparr>B := b\<rparr>\<rparr>;
           let s4 = s3\<lparr>registers := (registers s3)\<lparr>PC := PC (registers s3) + 1\<rparr>\<rparr>;
           (c, s5) \<leftarrow> mmu_read (PC (registers s4)) s4;
           Some (12, s5\<lparr>registers := (registers s5)\<lparr>C := c\<rparr>\<rparr>)
         })
      else if opcode = 0x04 then \<comment> \<open>INC B\<close>
         (let (v, s1) = inc8Bit (B (registers s)) s
         in Some (4, s1\<lparr>registers := (registers s1)\<lparr>B := v\<rparr>\<rparr>))
      else if opcode = 0x05 then \<comment> \<open>DEC B\<close>
         (let (v, s1) = dec8Bit (B (registers s)) s
         in Some (4, s1\<lparr>registers := (registers s1)\<lparr>B := v\<rparr>\<rparr>))
      else if opcode = 0x0C then \<comment> \<open>INC C\<close>
         (let (v, s1) = inc8Bit (C (registers s)) s
         in Some (4, s1\<lparr>registers := (registers s1)\<lparr>C := v\<rparr>\<rparr>))
      else if opcode = 0x0D then \<comment> \<open>DEC C\<close>
         (let (v, s1) = dec8Bit (C (registers s)) s
         in Some (4, s1\<lparr>registers := (registers s1)\<lparr>C := v\<rparr>\<rparr>))
      else if opcode = 0x14 then \<comment> \<open>INC D\<close>
         (let (v, s1) = inc8Bit (D (registers s)) s
         in Some (4, s1\<lparr>registers := (registers s1)\<lparr>D := v\<rparr>\<rparr>))
      else if opcode = 0x15 then \<comment> \<open>DEC D\<close>
         (let (v, s1) = dec8Bit (D (registers s)) s
         in Some (4, s1\<lparr>registers := (registers s1)\<lparr>D := v\<rparr>\<rparr>))
      else if opcode = 0x1C then \<comment> \<open>INC E\<close>
         (let (v, s1) = inc8Bit (E (registers s)) s
         in Some (4, s1\<lparr>registers := (registers s1)\<lparr>E := v\<rparr>\<rparr>))
      else if opcode = 0x1D then \<comment> \<open>DEC E\<close>
         (let (v, s1) = dec8Bit (E (registers s)) s
         in Some (4, s1\<lparr>registers := (registers s1)\<lparr>E := v\<rparr>\<rparr>))
      else if opcode = 0x24 then \<comment> \<open>INC H\<close>
         (let (v, s1) = inc8Bit (H (registers s)) s
         in Some (4, s1\<lparr>registers := (registers s1)\<lparr>H := v\<rparr>\<rparr>))
      else if opcode = 0x25 then \<comment> \<open>DEC H\<close>
         (let (v, s1) = dec8Bit (H (registers s)) s
         in Some (4, s1\<lparr>registers := (registers s1)\<lparr>H := v\<rparr>\<rparr>))
      else if opcode = 0x2C then \<comment> \<open>INC L\<close>
         (let (v, s1) = inc8Bit (L (registers s)) s
         in Some (4, s1\<lparr>registers := (registers s1)\<lparr>L := v\<rparr>\<rparr>))
      else if opcode = 0x2D then \<comment> \<open>DEC L\<close>
         (let (v, s1) = dec8Bit (L (registers s)) s
         in Some (4, s1\<lparr>registers := (registers s1)\<lparr>L := v\<rparr>\<rparr>))
      else if opcode = 0x34 then \<comment> \<open>INC (HL)\<close>
         (let addr = js_xor (js_shl (H (registers s)) 8) (L (registers s)) in
         do {
           (value, s1) \<leftarrow> mmu_read addr s;
           let (value', s2) = inc8Bit value s1;
           Some (12, mmu_write addr value' s2)
         })
      else if opcode = 0x35 then \<comment> \<open>DEC (HL)\<close>
         (let addr = js_xor (js_shl (H (registers s)) 8) (L (registers s)) in
         do {
           (value, s1) \<leftarrow> mmu_read addr s;
           let (value', s2) = dec8Bit value s1;
           Some (12, mmu_write addr value' s2)
         })
      else if opcode = 0x3C then \<comment> \<open>INC A\<close>
         (let (v, s1) = inc8Bit (A (registers s)) s
         in Some (4, s1\<lparr>registers := (registers s1)\<lparr>A := v\<rparr>\<rparr>))
      else if opcode = 0x3D then \<comment> \<open>DEC A\<close>
         (let (v, s1) = dec8Bit (A (registers s)) s
         in Some (4, s1\<lparr>registers := (registers s1)\<lparr>A := v\<rparr>\<rparr>))
      else if opcode = 0x76 then \<comment> \<open>HALT\<close>
         Some (4, s\<lparr>halted := True\<rparr>)
      else if opcode = 0x80 then \<comment> \<open>ADD A, B\<close>
         (let (v, s1) = add8Bit (A (registers s)) (B (registers s)) False s
         in Some (4, s1\<lparr>registers := (registers s1)\<lparr>A := v\<rparr>\<rparr>))
      else if opcode = 0x81 then \<comment> \<open>ADD A, C\<close>
         (let (v, s1) = add8Bit (A (registers s)) (C (registers s)) False s
         in Some (4, s1\<lparr>registers := (registers s1)\<lparr>A := v\<rparr>\<rparr>))
      else if opcode = 0x82 then \<comment> \<open>ADD A, D\<close>
         (let (v, s1) = add8Bit (A (registers s)) (D (registers s)) False s
         in Some (4, s1\<lparr>registers := (registers s1)\<lparr>A := v\<rparr>\<rparr>))
      else if opcode = 0x83 then \<comment> \<open>ADD A, E\<close>
         (let (v, s1) = add8Bit (A (registers s)) (E (registers s)) False s
         in Some (4, s1\<lparr>registers := (registers s1)\<lparr>A := v\<rparr>\<rparr>))
      else if opcode = 0x84 then \<comment> \<open>ADD A, H\<close>
         (let (v, s1) = add8Bit (A (registers s)) (H (registers s)) False s
         in Some (4, s1\<lparr>registers := (registers s1)\<lparr>A := v\<rparr>\<rparr>))
      else if opcode = 0x85 then \<comment> \<open>ADD A, L\<close>
         (let (v, s1) = add8Bit (A (registers s)) (L (registers s)) False s
         in Some (4, s1\<lparr>registers := (registers s1)\<lparr>A := v\<rparr>\<rparr>))
      else if opcode = 0x86 then \<comment> \<open>ADD A, (HL)\<close>
         (let address = js_xor (js_shl (H (registers s)) 8) (L (registers s)) in
         do {
           (data, s1) \<leftarrow> mmu_read address s;
           let (v, s2) = add8Bit (A (registers s1)) data False s1;
           Some (8, s2\<lparr>registers := (registers s2)\<lparr>A := v\<rparr>\<rparr>)
         })
      else if opcode = 0x87 then \<comment> \<open>ADD A, A\<close>
         (let (v, s1) = add8Bit (A (registers s)) (A (registers s)) False s
         in Some (4, s1\<lparr>registers := (registers s1)\<lparr>A := v\<rparr>\<rparr>))
      else if opcode = 0x90 then \<comment> \<open>SUB A, B\<close>
         (let (v, s1) = sub8Bit (A (registers s)) (B (registers s)) False s
         in Some (4, s1\<lparr>registers := (registers s1)\<lparr>A := v\<rparr>\<rparr>))
      else if opcode = 0x91 then \<comment> \<open>SUB A, C\<close>
         (let (v, s1) = sub8Bit (A (registers s)) (C (registers s)) False s
         in Some (4, s1\<lparr>registers := (registers s1)\<lparr>A := v\<rparr>\<rparr>))
      else if opcode = 0x92 then \<comment> \<open>SUB A, D\<close>
         (let (v, s1) = sub8Bit (A (registers s)) (D (registers s)) False s
         in Some (4, s1\<lparr>registers := (registers s1)\<lparr>A := v\<rparr>\<rparr>))
      else if opcode = 0x93 then \<comment> \<open>SUB A, E\<close>
         (let (v, s1) = sub8Bit (A (registers s)) (E (registers s)) False s
         in Some (4, s1\<lparr>registers := (registers s1)\<lparr>A := v\<rparr>\<rparr>))
      else if opcode = 0x94 then \<comment> \<open>SUB A, H\<close>
         (let (v, s1) = sub8Bit (A (registers s)) (H (registers s)) False s
         in Some (4, s1\<lparr>registers := (registers s1)\<lparr>A := v\<rparr>\<rparr>))
      else if opcode = 0x95 then \<comment> \<open>SUB A, L\<close>
         (let (v, s1) = sub8Bit (A (registers s)) (L (registers s)) False s
         in Some (4, s1\<lparr>registers := (registers s1)\<lparr>A := v\<rparr>\<rparr>))
      else if opcode = 0x96 then \<comment> \<open>SUB A, (HL)\<close>
         (let address = js_xor (js_shl (H (registers s)) 8) (L (registers s)) in
         do {
           (data, s1) \<leftarrow> mmu_read address s;
           let (v, s2) = sub8Bit (A (registers s1)) data False s1;
           Some (8, s2\<lparr>registers := (registers s2)\<lparr>A := v\<rparr>\<rparr>)
         })
      else if opcode = 0x97 then \<comment> \<open>SUB A, A\<close>
         (let (v, s1) = sub8Bit (A (registers s)) (A (registers s)) False s
         in Some (4, s1\<lparr>registers := (registers s1)\<lparr>A := v\<rparr>\<rparr>))
      else if opcode = 0xC1 then \<comment> \<open>POP BC\<close>
         do {
           (lo, s1) \<leftarrow> popFromStack s;
           let s2 = s1\<lparr>registers := (registers s1)\<lparr>C := lo\<rparr>\<rparr>;
           (hi, s3) \<leftarrow> popFromStack s2;
           Some (12, s3\<lparr>registers := (registers s3)\<lparr>B := hi\<rparr>\<rparr>)
         }
      else if opcode = 0xC3 then \<comment> \<open>JP a16\<close>
         (let s1 = s\<lparr>registers := (registers s)\<lparr>PC := PC (registers s) + 1\<rparr>\<rparr> in
         do {
           (addressHi, s2) \<leftarrow> mmu_read (PC (registers s1)) s1;
           let s3 = s2\<lparr>registers := (registers s2)\<lparr>PC := PC (registers s2) + 1\<rparr>\<rparr>;
           (addressLo, s4) \<leftarrow> mmu_read (PC (registers s3)) s3;
           let address = js_xor (js_shl addressHi 8) addressLo;
           Some (12, s4\<lparr>registers := (registers s4)\<lparr>PC := address - 1\<rparr>\<rparr>)
         })
      else if opcode = 0xC5 then \<comment> \<open>PUSH BC\<close>
         (let s1 = pushToStack (B (registers s)) s;
             s2 = pushToStack (C (registers s1)) s1
         in Some (16, s2))
      else if opcode = 0xC6 then \<comment> \<open>ADD A, d8\<close>
         (let s1 = s\<lparr>registers := (registers s)\<lparr>PC := PC (registers s) + 1\<rparr>\<rparr> in
         do {
           (data, s2) \<leftarrow> mmu_read (PC (registers s1)) s1;
           let (v, s3) = add8Bit (A (registers s2)) data False s2;
           Some (8, s3\<lparr>registers := (registers s3)\<lparr>A := v\<rparr>\<rparr>)
         })
      else if opcode = 0xD1 then \<comment> \<open>POP DE\<close>
         do {
           (lo, s1) \<leftarrow> popFromStack s;
           let s2 = s1\<lparr>registers := (registers s1)\<lparr>E := lo\<rparr>\<rparr>;
           (hi, s3) \<leftarrow> popFromStack s2;
           Some (12, s3\<lparr>registers := (registers s3)\<lparr>D := hi\<rparr>\<rparr>)
         }
      else if opcode = 0xD5 then \<comment> \<open>PUSH DE\<close>
         (let s1 = pushToStack (D (registers s)) s;
             s2 = pushToStack (E (registers s1)) s1
         in Some (16, s2))
      else if opcode = 0xD6 then \<comment> \<open>SUB A, d8\<close>
         (let s1 = s\<lparr>registers := (registers s)\<lparr>PC := PC (registers s) + 1\<rparr>\<rparr> in
         do {
           (data, s2) \<leftarrow> mmu_read (PC (registers s1)) s1;
           let (v, s3) = sub8Bit (A (registers s2)) data False s2;
           Some (8, s3\<lparr>registers := (registers s3)\<lparr>A := v\<rparr>\<rparr>)
         })
      else if opcode = 0xE1 then \<comment> \<open>POP HL\<close>
         do {
           (lo, s1) \<leftarrow> popFromStack s;
           let s2 = s1\<lparr>registers := (registers s1)\<lparr>L := lo\<rparr>\<rparr>;
           (hi, s3) \<leftarrow> popFromStack s2;
           Some (12, s3\<lparr>registers := (registers s3)\<lparr>H := hi\<rparr>\<rparr>)
         }
      else if opcode = 0xE5 then \<comment> \<open>PUSH HL\<close>
         (let s1 = pushToStack (H (registers s)) s;
             s2 = pushToStack (L (registers s1)) s1
         in Some (16, s2))
      else if opcode = 0xF1 then \<comment> \<open>POP AF\<close>
         do {
           (lo, s1) \<leftarrow> popFromStack s;
           let s2 = s1\<lparr>registers := (registers s1)\<lparr>F := lo\<rparr>\<rparr>;
           (hi, s3) \<leftarrow> popFromStack s2;
           Some (12, s3\<lparr>registers := (registers s3)\<lparr>A := hi\<rparr>\<rparr>)
         }
      else if opcode = 0xF3 then \<comment> \<open>DI\<close>
         Some (4, s\<lparr>toDisableInterrupts := toDisableInterrupts s + 1\<rparr>)
      else if opcode = 0xF5 then \<comment> \<open>PUSH AF\<close>
         (let s1 = pushToStack (A (registers s)) s;
             s2 = pushToStack (F (registers s1)) s1
         in Some (16, s2))
      else if opcode = 0xFB then \<comment> \<open>EI\<close>
         Some (4, s\<lparr>toEnableInterrupts := toEnableInterrupts s + 1\<rparr>)
      else None)"

definition executeOpcode :: "gameboy \<Rightarrow> (int \<times> gameboy) option" where
  "executeOpcode s =
     do {
       (cycles, s1) \<leftarrow>
         (if \<not> halted s then
            do {
              (nextOp, s') \<leftarrow> mmu_read (PC (registers s)) s;
              (cycles, s'') \<leftarrow> executeOperation nextOp s';
              Some (cycles, s''\<lparr>registers := (registers s'')\<lparr>PC := PC (registers s'') + 1\<rparr>,
                                debug := debug s'' + 1\<rparr>)
            }
          else Some (4, s));
       let s2 = (if toDisableInterrupts s1 \<ge> 0 then
                   (let t = s1\<lparr>toDisableInterrupts := toDisableInterrupts s1 + 1\<rparr> in
                    if toDisableInterrupts t = 2 then
                      t\<lparr>interruptsEnabled := False, toDisableInterrupts := - 1\<rparr>
                    else t)
                 else s1);
       let s3 = (if toEnableInterrupts s2 \<ge> 0 then
                   (let t = s2\<lparr>toEnableInterrupts := toEnableInterrupts s2 + 1\<rparr> in
                    if toEnableInterrupts t = 2 then
                      t\<lparr>interruptsEnabled := True, toEnableInterrupts := - 1\<rparr>
                    else t)
                 else s2);
       Some (cycles, s3)
     }"

section \<open>The complete instruction set, over JavaScript values\<close>

text \<open>
  The model above stops where a value that is not a number turns up, and covers a part
  of the opcode table. This second model of the CPU step is total: the registers hold
  JavaScript values, every operator is the JavaScript one, and both opcode tables are
  there in full, case by case. Its names carry the suffix \<open>_js\<close>.

  The operators. \<open>+\<close>, \<open>-\<close> and the comparisons convert their operands to numbers,
  which turns \<open>undefined\<close> into \<open>NaN\<close>; arithmetic with \<open>NaN\<close> gives \<open>NaN\<close>, a
  comparison with \<open>NaN\<close> is false. The bitwise operators convert to 32-bit integers,
  with \<open>undefined\<close> and \<open>NaN\<close> becoming 0. \<open>===\<close> holds between equal numbers and
  between \<open>undefined\<close> and itself, never for \<open>NaN\<close>.
\<close>

fun toNumber :: "jsval \<Rightarrow> int option" where
  "toNumber (Num n) = Some n"
| "toNumber Undefined = None"
| "toNumber NaN = None"

definition val_plus :: "jsval \<Rightarrow> jsval \<Rightarrow> jsval" where
  "val_plus a b = (case (toNumber a, toNumber b) of (Some x, Some y) \<Rightarrow> Num (x + y) | _ \<Rightarrow> NaN)"

definition val_minus :: "jsval \<Rightarrow> jsval \<Rightarrow> jsval" where
  "val_minus a b = (case (toNumber a, toNumber b) of (Some x, Some y) \<Rightarrow> Num (x - y) | _ \<Rightarrow> NaN)"

definition val_neg :: "jsval \<Rightarrow> jsval" where
  "val_neg a = (case toNumber a of Some x \<Rightarrow> Num (- x) | None \<Rightarrow> NaN)"

definition val_and :: "jsval \<Rightarrow> jsval \<Rightarrow> jsval" where
  "val_and a b = Num (js_and (valToInt32 a) (valToInt32 b))"

definition val_or :: "jsval \<Rightarrow> jsval \<Rightarrow> jsval" where
  "val_or a b = Num (js_or (valToInt32 a) (valToInt32 b))"

definition val_xor :: "jsval \<Rightarrow> jsval \<Rightarrow> jsval" where
  "val_xor a b = Num (js_xor (valToInt32 a) (valToInt32 b))"

definition val_not :: "jsval \<Rightarrow> jsval" where
  "val_not a = Num (js_not (valToInt32 a))"

definition val_shl :: "jsval \<Rightarrow> jsval \<Rightarrow> jsval" where
  "val_shl a n = Num (js_shl (valToInt32 a) (valToInt32 n))"

definition val_shr :: "jsval \<Rightarrow> jsval \<Rightarrow> jsval" where
  "val_shr a n = Num (js_shr (valToInt32 a) (valToInt32 n))"

definition val_gt :: "jsval \<Rightarrow> jsval \<Rightarrow> bool" where
  "val_gt a b = (case (toNumber a, toNumber b) of (Some x, Some y) \<Rightarrow> x > y | _ \<Rightarrow> False)"

definition val_lt :: "jsval \<Rightarrow> jsval \<Rightarrow> bool" where
  "val_lt a b = (case (toNumber a, toNumber b) of (Some x, Some y) \<Rightarrow> x < y | _ \<Rightarrow> False)"

definition val_eq :: "jsval \<Rightarrow> jsval \<Rightarrow> bool" where
  "val_eq a b =
     (case (a, b) of (Num x, Num y) \<Rightarrow> x = y | (Undefined, Undefined) \<Rightarrow> True | _ \<Rightarrow> False)"

text \<open>A boolean under a bitwise operator counts as 1 or 0.\<close>

definition val_of_bool :: "bool \<Rightarrow> jsval" where
  "val_of_bool b = (if b then Num 1 else Num 0)"

text \<open>
  The state. The fields are those of \<open>gameboy\<close>, with the registers as values, and
  with \<open>valueHi\<close> and \<open>valueLo\<close>, two properties that the case \<open>0xF8\<close> of the opcode
  table creates on the emulator object.
\<close>

record registers_js =
  A_js :: jsval
  B_js :: jsval
  C_js :: jsval
  D_js :: jsval
  E_js :: jsval
  F_js :: jsval
  H_js :: jsval
  L_js :: jsval
  PC_js :: jsval
  SP_js :: jsval

record gameboy_js =
  cpuStopped_js :: bool
  halted_js :: bool
  timerCounter_js :: int
  dividerCounter_js :: int
  interruptsEnabled_js :: bool
  toDisableInterrupts_js :: int
  toEnableInterrupts_js :: int
  debug_js :: int
  valueHi_js :: jsval
  valueLo_js :: jsval
  mmu_js :: mmu
  registers_js :: registers_js

text \<open>
  A call either returns, or throws and leaves the state as it is at that moment. The
  opcode table throws in seven places: five cases read \<open>the.ZERO_BIT\<close> or
  \<open>the.CARRY_BIT\<close> and case \<open>0xF8\<close> reads \<open>valueHi\<close>, names that nothing declares
  (a \<open>ReferenceError\<close>), and case \<open>0x7D\<close> reads \<open>ths.regsiters.L\<close>, a property of
  \<open>undefined\<close> (a \<open>TypeError\<close>). The page's frame loop does not catch, so a throw ends
  the emulation.
\<close>

datatype outcome = Returns int gameboy_js | Throws gameboy_js

fun outcome_state :: "outcome \<Rightarrow> gameboy_js" where
  "outcome_state (Returns cycles s) = s"
| "outcome_state (Throws s) = s"

definition mmu_read_js :: "jsval \<Rightarrow> gameboy_js \<Rightarrow> jsval \<times> gameboy_js" where
  "mmu_read_js address s = (let (v, m) = read_val address (mmu_js s) in (v, s\<lparr>mmu_js := m\<rparr>))"

definition mmu_write_js :: "jsval \<Rightarrow> jsval \<Rightarrow> gameboy_js \<Rightarrow> gameboy_js" where
  "mmu_write_js address data s = s\<lparr>mmu_js := write_val address data (mmu_js s)\<rparr>"

text \<open>
  The methods of the CPU core, statement by statement: \<open>s\<close> is the emulator state at
  that point of the method, a \<open>var\<close> of the source is the variable of the same name,
  and \<open>t1\<close>, \<open>t2\<close> hold the result of a call inside an expression. A method that
  changes the state returns it, after its result if it has one. The second parameter
  of \<open>setFlagBit\<close> and the third of \<open>add8Bit\<close> and \<open>sub8Bit\<close> are only ever
  tested, so they are booleans here: the truth value of what the caller passes, false
  for an argument left out.
\<close>

definition setFlagBit_js :: "jsval \<Rightarrow> bool \<Rightarrow> gameboy_js \<Rightarrow> gameboy_js" where
  "setFlagBit_js bitno isSet s =
     (if isSet then
        s\<lparr>registers_js := (registers_js s)\<lparr>F_js := val_or (F_js (registers_js s)) (val_shl (Num 1) bitno)\<rparr>\<rparr>
      else
        s\<lparr>registers_js := (registers_js s)\<lparr>F_js := val_and (F_js (registers_js s)) (val_not (val_shl (Num 1) bitno))\<rparr>\<rparr>)"

definition inc8Bit_js :: "jsval \<Rightarrow> gameboy_js \<Rightarrow> jsval \<times> gameboy_js" where
  "inc8Bit_js register s =
     (let curVal = register;
          s = (if val_eq (val_and curVal (Num 0xF)) (Num 0xF) then
                 setFlagBit_js (Num HALF_CARRY_BIT) True s
               else
                 s);
          curVal = val_plus curVal (Num 1);
          (curVal, s) = (if val_gt curVal (Num 0xFF) then
                           (let curVal = Num 0;
                                s = setFlagBit_js (Num ZERO_BIT) True s
                            in (curVal, s))
                         else
                           (curVal, s));
          s = setFlagBit_js (Num SUBTRACT_BIT) False s
      in (curVal, s))"

definition inc16Bit_js :: "jsval \<Rightarrow> jsval \<Rightarrow> jsval \<times> jsval" where
  "inc16Bit_js registerHi registerLo =
     (let curVal = val_xor (val_shl registerHi (Num 8)) registerLo;
          curVal = val_plus curVal (Num 1);
          curVal = (if val_gt curVal (Num 0xFFFF) then
                      Num 0
                    else
                      curVal);
          registerHi = val_shr curVal (Num 8);
          registerLo = val_and curVal (Num 0xFF)
      in (registerHi, registerLo))"

definition dec8Bit_js :: "jsval \<Rightarrow> gameboy_js \<Rightarrow> jsval \<times> gameboy_js" where
  "dec8Bit_js register s =
     (let curVal = register;
          s = (if val_eq (val_and curVal (Num 0xF)) (Num 0) then
                 setFlagBit_js (Num HALF_CARRY_BIT) True s
               else
                 s);
          curVal = val_minus curVal (Num 1);
          s = (if val_eq curVal (Num 0) then
                 setFlagBit_js (Num ZERO_BIT) True s
               else
                 s);
          curVal = (if val_lt curVal (Num 0) then
                      Num 0xFF
                    else
                      curVal);
          s = setFlagBit_js (Num SUBTRACT_BIT) True s
      in (curVal, s))"

definition dec16Bit_js :: "jsval \<Rightarrow> jsval \<Rightarrow> jsval \<times> jsval" where
  "dec16Bit_js registerHi registerLo =
     (let curVal = val_xor (val_shl registerHi (Num 8)) registerLo;
          curVal = val_minus curVal (Num 1);
          curVal = (if val_lt curVal (Num 0) then
                      Num 0xFFFF
                    else
                      curVal);
          registerHi = val_shr curVal (Num 8);
          registerLo = val_and curVal (Num 0xFF)
      in (registerHi, registerLo))"

definition add8Bit_js :: "jsval \<Rightarrow> jsval \<Rightarrow> bool \<Rightarrow> gameboy_js \<Rightarrow> jsval \<times> gameboy_js" where
  "add8Bit_js destination value withCarry s =
     (let value = (if withCarry then
                     (if truthy (val_and (val_shr (F_js (registers_js s)) (Num CARRY_BIT)) (Num 1)) then
                        val_plus value (Num 1)
                      else
                        value)
                   else
                     value);
          result = val_plus destination value;
          isHalfCarry = val_and destination (Num 0xF);
          isHalfCarry = val_plus isHalfCarry (val_and value (Num 0xF));
          s = (if val_gt isHalfCarry (Num 0xF) then
                 setFlagBit_js (Num HALF_CARRY_BIT) True s
               else
                 s);
          (result, s) = (if val_gt result (Num 0xFF) then
                           (let s = setFlagBit_js (Num CARRY_BIT) True s;
                                result = val_minus result (Num 0xFF)
                            in (result, s))
                         else
                           (result, s));
          s = (if val_eq result (Num 0) then
                 setFlagBit_js (Num ZERO_BIT) True s
               else
                 s);
          s = setFlagBit_js (Num SUBTRACT_BIT) False s
      in (result, s))"

definition sub8Bit_js :: "jsval \<Rightarrow> jsval \<Rightarrow> bool \<Rightarrow> gameboy_js \<Rightarrow> jsval \<times> gameboy_js" where
  "sub8Bit_js destination value withCarry s =
     (let value = (if withCarry then
                     (if truthy (val_and (val_shr (F_js (registers_js s)) (Num CARRY_BIT)) (Num 1)) then
                        val_plus value (Num 1)
                      else
                        value)
                   else
                     value);
          result = val_minus destination value;
          isHalfCarry = val_and destination (Num 0xF);
          isHalfCarry = val_minus isHalfCarry (val_and value (Num 0xF));
          s = (if val_lt isHalfCarry (Num 0) then
                 setFlagBit_js (Num HALF_CARRY_BIT) True s
               else
                 s);
          (result, s) = (if val_lt result (Num 0) then
                           (let s = setFlagBit_js (Num CARRY_BIT) True s;
                                result = val_plus result (Num 0xFF)
                            in (result, s))
                         else
                           (result, s));
          s = (if val_eq result (Num 0) then
                 setFlagBit_js (Num ZERO_BIT) True s
               else
                 s);
          s = setFlagBit_js (Num SUBTRACT_BIT) True s
      in (result, s))"

definition andRegisters_js :: "jsval \<Rightarrow> jsval \<Rightarrow> gameboy_js \<Rightarrow> jsval \<times> gameboy_js" where
  "andRegisters_js registerOne registerTwo s =
     (let res = val_and registerOne registerTwo;
          s = (if \<not> (truthy res) then
                 setFlagBit_js (Num ZERO_BIT) True s
               else
                 s);
          s = setFlagBit_js (Num HALF_CARRY_BIT) True s;
          s = setFlagBit_js (Num CARRY_BIT) False s;
          s = setFlagBit_js (Num SUBTRACT_BIT) False s
      in (res, s))"

definition xorRegisters_js :: "jsval \<Rightarrow> jsval \<Rightarrow> gameboy_js \<Rightarrow> jsval \<times> gameboy_js" where
  "xorRegisters_js registerOne registerTwo s =
     (let res = val_xor registerOne registerTwo;
          s = (if \<not> (truthy res) then
                 setFlagBit_js (Num ZERO_BIT) True s
               else
                 s);
          s = setFlagBit_js (Num HALF_CARRY_BIT) False s;
          s = setFlagBit_js (Num CARRY_BIT) False s;
          s = setFlagBit_js (Num SUBTRACT_BIT) False s
      in (res, s))"

definition orRegisters_js :: "jsval \<Rightarrow> jsval \<Rightarrow> gameboy_js \<Rightarrow> jsval \<times> gameboy_js" where
  "orRegisters_js registerOne registerTwo s =
     (let res = val_or registerOne registerTwo;
          s = (if \<not> (truthy res) then
                 setFlagBit_js (Num ZERO_BIT) True s
               else
                 s);
          s = setFlagBit_js (Num HALF_CARRY_BIT) False s;
          s = setFlagBit_js (Num CARRY_BIT) False s;
          s = setFlagBit_js (Num SUBTRACT_BIT) False s
      in (res, s))"

definition pushToStack_js :: "jsval \<Rightarrow> gameboy_js \<Rightarrow> gameboy_js" where
  "pushToStack_js data s =
     (let s = s\<lparr>registers_js := (registers_js s)\<lparr>SP_js := val_minus (SP_js (registers_js s)) (Num 1)\<rparr>\<rparr>
      in mmu_write_js (SP_js (registers_js s)) data s)"

definition popFromStack_js :: "gameboy_js \<Rightarrow> jsval \<times> gameboy_js" where
  "popFromStack_js s =
     (let (data, s) = mmu_read_js (SP_js (registers_js s)) s;
          s = s\<lparr>registers_js := (registers_js s)\<lparr>SP_js := val_plus (SP_js (registers_js s)) (Num 1)\<rparr>\<rparr>
      in (data, s))"

definition doRlc_js :: "jsval \<Rightarrow> gameboy_js \<Rightarrow> jsval \<times> gameboy_js" where
  "doRlc_js value s =
     (let currentBitSeven = val_and (val_shr value (Num 7)) (Num 1);
          newVal = val_and (val_shl value (Num 1)) (Num 255);
          newVal = (if truthy currentBitSeven then
                      val_xor newVal (Num 1)
                    else
                      newVal);
          s = setFlagBit_js (Num CARRY_BIT) (truthy currentBitSeven) s;
          s = setFlagBit_js (Num SUBTRACT_BIT) False s;
          s = setFlagBit_js (Num HALF_CARRY_BIT) False s;
          s = setFlagBit_js (Num ZERO_BIT) (val_eq newVal (Num 0)) s
      in (newVal, s))"

definition doRrc_js :: "jsval \<Rightarrow> gameboy_js \<Rightarrow> jsval \<times> gameboy_js" where
  "doRrc_js value s =
     (let currentBitZero = val_and value (Num 1);
          newVal = val_and (val_shr value (Num 1)) (Num 255);
          newVal = (if truthy currentBitZero then
                      val_xor newVal (Num 128)
                    else
                      newVal);
          s = setFlagBit_js (Num CARRY_BIT) (truthy currentBitZero) s;
          s = setFlagBit_js (Num SUBTRACT_BIT) False s;
          s = setFlagBit_js (Num HALF_CARRY_BIT) False s;
          s = setFlagBit_js (Num ZERO_BIT) (val_eq newVal (Num 0)) s
      in (newVal, s))"

definition doRl_js :: "jsval \<Rightarrow> gameboy_js \<Rightarrow> jsval \<times> gameboy_js" where
  "doRl_js value s =
     (let currentBitSeven = val_and (val_shr value (Num 7)) (Num 1);
          currentCarryBit = val_and (val_shr (F_js (registers_js s)) (Num CARRY_BIT)) (Num 1);
          newVal = val_and (val_shl value (Num 1)) (Num 255);
          newVal = (if truthy currentCarryBit then
                      val_xor newVal (Num 1)
                    else
                      newVal);
          s = setFlagBit_js (Num CARRY_BIT) (truthy currentBitSeven) s;
          s = setFlagBit_js (Num SUBTRACT_BIT) False s;
          s = setFlagBit_js (Num HALF_CARRY_BIT) False s;
          s = setFlagBit_js (Num ZERO_BIT) (val_eq newVal (Num 0)) s
      in (newVal, s))"

definition doRr_js :: "jsval \<Rightarrow> gameboy_js \<Rightarrow> jsval \<times> gameboy_js" where
  "doRr_js value s =
     (let currentBitZero = val_and value (Num 1);
          currentCarryBit = val_and (val_shr (F_js (registers_js s)) (Num CARRY_BIT)) (Num 1);
          newVal = val_and (val_shr value (Num 1)) (Num 255);
          newVal = (if truthy currentCarryBit then
                      val_xor newVal (Num 128)
                    else
                      newVal);
          s = setFlagBit_js (Num CARRY_BIT) (truthy currentBitZero) s;
          s = setFlagBit_js (Num SUBTRACT_BIT) False s;
          s = setFlagBit_js (Num HALF_CARRY_BIT) False s;
          s = setFlagBit_js (Num ZERO_BIT) (val_eq newVal (Num 0)) s
      in (newVal, s))"

definition doSla_js :: "jsval \<Rightarrow> gameboy_js \<Rightarrow> jsval \<times> gameboy_js" where
  "doSla_js value s =
     (let currentBitSeven = val_and (val_shr value (Num 7)) (Num 1);
          newVal = val_and (val_shl value (Num 1)) (Num 255);
          s = setFlagBit_js (Num CARRY_BIT) (truthy currentBitSeven) s;
          s = setFlagBit_js (Num SUBTRACT_BIT) False s;
          s = setFlagBit_js (Num HALF_CARRY_BIT) False s;
          s = setFlagBit_js (Num ZERO_BIT) (val_eq newVal (Num 0)) s
      in (newVal, s))"

definition doSra_js :: "jsval \<Rightarrow> gameboy_js \<Rightarrow> jsval \<times> gameboy_js" where
  "doSra_js value s =
     (let currentBitSeven = val_and (val_shr value (Num 7)) (Num 1);
          currentBitZero = val_and value (Num 1);
          newVal = val_and (val_shr value (Num 1)) (Num 255);
          newVal = (if truthy currentBitSeven then
                      val_xor newVal (Num 128)
                    else
                      newVal);
          s = setFlagBit_js (Num CARRY_BIT) (truthy currentBitZero) s;
          s = setFlagBit_js (Num SUBTRACT_BIT) False s;
          s = setFlagBit_js (Num HALF_CARRY_BIT) False s;
          s = setFlagBit_js (Num ZERO_BIT) (val_eq newVal (Num 0)) s
      in (newVal, s))"

definition doSwap_js :: "jsval \<Rightarrow> gameboy_js \<Rightarrow> jsval \<times> gameboy_js" where
  "doSwap_js value s =
     (let upperNibble = val_shr value (Num 4);
          lowerNibble = val_and value (Num 0xF);
          newVal = val_xor (val_shl lowerNibble (Num 4)) upperNibble;
          s = setFlagBit_js (Num CARRY_BIT) False s;
          s = setFlagBit_js (Num SUBTRACT_BIT) False s;
          s = setFlagBit_js (Num HALF_CARRY_BIT) False s;
          s = setFlagBit_js (Num ZERO_BIT) (val_eq newVal (Num 0)) s
      in (newVal, s))"

definition doSrl_js :: "jsval \<Rightarrow> gameboy_js \<Rightarrow> jsval \<times> gameboy_js" where
  "doSrl_js value s =
     (let currentBitZero = val_and value (Num 1);
          newVal = val_and (val_shr value (Num 1)) (Num 255);
          s = setFlagBit_js (Num CARRY_BIT) (truthy currentBitZero) s;
          s = setFlagBit_js (Num SUBTRACT_BIT) False s;
          s = setFlagBit_js (Num HALF_CARRY_BIT) False s;
          s = setFlagBit_js (Num ZERO_BIT) (val_eq newVal (Num 0)) s
      in (newVal, s))"

definition testBit_js :: "jsval \<Rightarrow> jsval \<Rightarrow> gameboy_js \<Rightarrow> gameboy_js" where
  "testBit_js bitno value s =
     (let isBitSet = val_and (val_shr value bitno) (Num 1);
          s = setFlagBit_js (Num SUBTRACT_BIT) False s;
          s = setFlagBit_js (Num HALF_CARRY_BIT) True s
      in setFlagBit_js (Num ZERO_BIT) (val_eq isBitSet (Num 0)) s)"

definition resetBit_js :: "jsval \<Rightarrow> jsval \<Rightarrow> jsval" where
  "resetBit_js bitno value =
     val_and value (val_not (val_shl (Num 1) bitno))"

definition setBit_js :: "jsval \<Rightarrow> jsval \<Rightarrow> jsval" where
  "setBit_js bitno value =
     val_or value (val_shl (Num 1) bitno)"


text \<open>
  The prefix table (\<open>executePrefixOperation\<close>), all 256 cases and the default.
\<close>

definition executePrefixOperation_js :: "jsval \<Rightarrow> gameboy_js \<Rightarrow> int \<times> gameboy_js" where
  "executePrefixOperation_js opcode s =
     (if opcode = Num 0x00 then \<comment> \<open>RLC B\<close>
         (let (t1, s) = doRlc_js (B_js (registers_js s)) s;
              s = s\<lparr>registers_js := (registers_js s)\<lparr>B_js := t1\<rparr>\<rparr>
          in (8, s))
      else if opcode = Num 0x01 then \<comment> \<open>RLC C\<close>
         (let (t1, s) = doRlc_js (C_js (registers_js s)) s;
              s = s\<lparr>registers_js := (registers_js s)\<lparr>C_js := t1\<rparr>\<rparr>
          in (8, s))
      else if opcode = Num 0x02 then \<comment> \<open>RLC D\<close>
         (let (t1, s) = doRlc_js (D_js (registers_js s)) s;
              s = s\<lparr>registers_js := (registers_js s)\<lparr>D_js := t1\<rparr>\<rparr>
          in (8, s))
      else if opcode = Num 0x03 then \<comment> \<open>RLC E\<close>
         (let (t1, s) = doRlc_js (E_js (registers_js s)) s;
              s = s\<lparr>registers_js := (registers_js s)\<lparr>E_js := t1\<rparr>\<rparr>
          in (8, s))
      else if opcode = Num 0x04 then \<comment> \<open>RLC H\<close>
         (let (t1, s) = doRlc_js (H_js (registers_js s)) s;
              s = s\<lparr>registers_js := (registers_js s)\<lparr>H_js := t1\<rparr>\<rparr>
          in (8, s))
      else if opcode = Num 0x05 then \<comment> \<open>RLC L\<close>
         (let (t1, s) = doRlc_js (L_js (registers_js s)) s;
              s = s\<lparr>registers_js := (registers_js s)\<lparr>L_js := t1\<rparr>\<rparr>
          in (8, s))
      else if opcode = Num 0x06 then \<comment> \<open>RLC (HL)\<close>
         (let address = val_xor (val_shl (H_js (registers_js s)) (Num 8)) (L_js (registers_js s));
              (t1, s) = mmu_read_js address s;
              (t2, s) = doRlc_js t1 s;
              s = mmu_write_js address t2 s
          in (16, s))
      else if opcode = Num 0x07 then \<comment> \<open>RLC A\<close>
         (let (t1, s) = doRlc_js (A_js (registers_js s)) s;
              s = s\<lparr>registers_js := (registers_js s)\<lparr>A_js := t1\<rparr>\<rparr>
          in (8, s))
      else if opcode = Num 0x08 then \<comment> \<open>RRC B\<close>
         (let (t1, s) = doRrc_js (B_js (registers_js s)) s;
              s = s\<lparr>registers_js := (registers_js s)\<lparr>B_js := t1\<rparr>\<rparr>
          in (8, s))
      else if opcode = Num 0x09 then \<comment> \<open>RRC C\<close>
         (let (t1, s) = doRrc_js (C_js (registers_js s)) s;
              s = s\<lparr>registers_js := (registers_js s)\<lparr>C_js := t1\<rparr>\<rparr>
          in (8, s))
      else if opcode = Num 0x0A then \<comment> \<open>RRC D\<close>
         (let (t1, s) = doRrc_js (D_js (registers_js s)) s;
              s = s\<lparr>registers_js := (registers_js s)\<lparr>D_js := t1\<rparr>\<rparr>
          in (8, s))
      else if opcode = Num 0x0B then \<comment> \<open>RRC E\<close>
         (let (t1, s) = doRrc_js (E_js (registers_js s)) s;
              s = s\<lparr>registers_js := (registers_js s)\<lparr>E_js := t1\<rparr>\<rparr>
          in (8, s))
      else if opcode = Num 0x0C then \<comment> \<open>RRC H\<close>
         (let (t1, s) = doRrc_js (H_js (registers_js s)) s;
              s = s\<lparr>registers_js := (registers_js s)\<lparr>H_js := t1\<rparr>\<rparr>
          in (8, s))
      else if opcode = Num 0x0D then \<comment> \<open>RRC L\<close>
         (let (t1, s) = doRrc_js (L_js (registers_js s)) s;
              s = s\<lparr>registers_js := (registers_js s)\<lparr>L_js := t1\<rparr>\<rparr>
          in (8, s))
      else if opcode = Num 0x0E then \<comment> \<open>RRC (HL)\<close>
         (let address = val_xor (val_shl (H_js (registers_js s)) (Num 8)) (L_js (registers_js s));
              (t1, s) = mmu_read_js address s;
              (t2, s) = doRrc_js t1 s;
              s = mmu_write_js address t2 s
          in (16, s))
      else if opcode = Num 0x0F then \<comment> \<open>RRC A\<close>
         (let (t1, s) = doRrc_js (A_js (registers_js s)) s;
              s = s\<lparr>registers_js := (registers_js s)\<lparr>A_js := t1\<rparr>\<rparr>
          in (8, s))
      else if opcode = Num 0x10 then \<comment> \<open>RL B\<close>
         (let (t1, s) = doRl_js (B_js (registers_js s)) s;
              s = s\<lparr>registers_js := (registers_js s)\<lparr>B_js := t1\<rparr>\<rparr>
          in (8, s))
      else if opcode = Num 0x11 then \<comment> \<open>RL C\<close>
         (let (t1, s) = doRl_js (C_js (registers_js s)) s;
              s = s\<lparr>registers_js := (registers_js s)\<lparr>C_js := t1\<rparr>\<rparr>
          in (8, s))
      else if opcode = Num 0x12 then \<comment> \<open>RL D\<close>
         (let (t1, s) = doRl_js (D_js (registers_js s)) s;
              s = s\<lparr>registers_js := (registers_js s)\<lparr>D_js := t1\<rparr>\<rparr>
          in (8, s))
      else if opcode = Num 0x13 then \<comment> \<open>RL E\<close>
         (let (t1, s) = doRl_js (E_js (registers_js s)) s;
              s = s\<lparr>registers_js := (registers_js s)\<lparr>E_js := t1\<rparr>\<rparr>
          in (8, s))
      else if opcode = Num 0x14 then \<comment> \<open>RL H\<close>
         (let (t1, s) = doRl_js (H_js (registers_js s)) s;
              s = s\<lparr>registers_js := (registers_js s)\<lparr>H_js := t1\<rparr>\<rparr>
          in (8, s))
      else if opcode = Num 0x15 then \<comment> \<open>RL L\<close>
         (let (t1, s) = doRl_js (L_js (registers_js s)) s;
              s = s\<lparr>registers_js := (registers_js s)\<lparr>L_js := t1\<rparr>\<rparr>
          in (8, s))
      else if opcode = Num 0x16 then \<comment> \<open>RL (HL)\<close>
         (let address = val_xor (val_shl (H_js (registers_js s)) (Num 8)) (L_js (registers_js s));
              (t1, s) = mmu_read_js address s;
              (t2, s) = doRl_js t1 s;
              s = mmu_write_js address t2 s
          in (16, s))
      else if opcode = Num 0x17 then \<comment> \<open>RL A\<close>
         (let (t1, s) = doRl_js (A_js (registers_js s)) s;
              s = s\<lparr>registers_js := (registers_js s)\<lparr>A_js := t1\<rparr>\<rparr>
          in (8, s))
      else if opcode = Num 0x18 then \<comment> \<open>RR B\<close>
         (let (t1, s) = doRr_js (B_js (registers_js s)) s;
              s = s\<lparr>registers_js := (registers_js s)\<lparr>B_js := t1\<rparr>\<rparr>
          in (8, s))
      else if opcode = Num 0x19 then \<comment> \<open>RR C\<close>
         (let (t1, s) = doRr_js (C_js (registers_js s)) s;
              s = s\<lparr>registers_js := (registers_js s)\<lparr>C_js := t1\<rparr>\<rparr>
          in (8, s))
      else if opcode = Num 0x1A then \<comment> \<open>RR D\<close>
         (let (t1, s) = doRr_js (D_js (registers_js s)) s;
              s = s\<lparr>registers_js := (registers_js s)\<lparr>D_js := t1\<rparr>\<rparr>
          in (8, s))
      else if opcode = Num 0x1B then \<comment> \<open>RR E\<close>
         (let (t1, s) = doRr_js (E_js (registers_js s)) s;
              s = s\<lparr>registers_js := (registers_js s)\<lparr>E_js := t1\<rparr>\<rparr>
          in (8, s))
      else if opcode = Num 0x1C then \<comment> \<open>RR H\<close>
         (let (t1, s) = doRr_js (H_js (registers_js s)) s;
              s = s\<lparr>registers_js := (registers_js s)\<lparr>H_js := t1\<rparr>\<rparr>
          in (8, s))
      else if opcode = Num 0x1D then \<comment> \<open>RR L\<close>
         (let (t1, s) = doRr_js (L_js (registers_js s)) s;
              s = s\<lparr>registers_js := (registers_js s)\<lparr>L_js := t1\<rparr>\<rparr>
          in (8, s))
      else if opcode = Num 0x1E then \<comment> \<open>RR (HL)\<close>
         (let address = val_xor (val_shl (H_js (registers_js s)) (Num 8)) (L_js (registers_js s));
              (t1, s) = mmu_read_js address s;
              (t2, s) = doRr_js t1 s;
              s = mmu_write_js address t2 s
          in (16, s))
      else if opcode = Num 0x1F then \<comment> \<open>RR A\<close>
         (let (t1, s) = doRr_js (A_js (registers_js s)) s;
              s = s\<lparr>registers_js := (registers_js s)\<lparr>A_js := t1\<rparr>\<rparr>
          in (8, s))
      else if opcode = Num 0x20 then \<comment> \<open>SLA B\<close>
         (let (t1, s) = doSla_js (B_js (registers_js s)) s;
              s = s\<lparr>registers_js := (registers_js s)\<lparr>B_js := t1\<rparr>\<rparr>
          in (8, s))
      else if opcode = Num 0x21 then \<comment> \<open>SLA C\<close>
         (let (t1, s) = doSla_js (C_js (registers_js s)) s;
              s = s\<lparr>registers_js := (registers_js s)\<lparr>C_js := t1\<rparr>\<rparr>
          in (8, s))
      else if opcode = Num 0x22 then \<comment> \<open>SLA D\<close>
         (let (t1, s) = doSla_js (D_js (registers_js s)) s;
              s = s\<lparr>registers_js := (registers_js s)\<lparr>D_js := t1\<rparr>\<rparr>
          in (8, s))
      else if opcode = Num 0x23 then \<comment> \<open>SLA E\<close>
         (let (t1, s) = doSla_js (E_js (registers_js s)) s;
              s = s\<lparr>registers_js := (registers_js s)\<lparr>E_js := t1\<rparr>\<rparr>
          in (8, s))
      else if opcode = Num 0x24 then \<comment> \<open>SLA H\<close>
         (let (t1, s) = doSla_js (H_js (registers_js s)) s;
              s = s\<lparr>registers_js := (registers_js s)\<lparr>H_js := t1\<rparr>\<rparr>
          in (8, s))
      else if opcode = Num 0x25 then \<comment> \<open>SLA L\<close>
         (let (t1, s) = doSla_js (L_js (registers_js s)) s;
              s = s\<lparr>registers_js := (registers_js s)\<lparr>L_js := t1\<rparr>\<rparr>
          in (8, s))
      else if opcode = Num 0x26 then \<comment> \<open>SLA (HL)\<close>
         (let address = val_xor (val_shl (H_js (registers_js s)) (Num 8)) (L_js (registers_js s));
              (t1, s) = mmu_read_js address s;
              (t2, s) = doSla_js t1 s;
              s = mmu_write_js address t2 s
          in (16, s))
      else if opcode = Num 0x27 then \<comment> \<open>SLA A\<close>
         (let (t1, s) = doSla_js (A_js (registers_js s)) s;
              s = s\<lparr>registers_js := (registers_js s)\<lparr>A_js := t1\<rparr>\<rparr>
          in (8, s))
      else if opcode = Num 0x28 then \<comment> \<open>SRA B\<close>
         (let (t1, s) = doSra_js (B_js (registers_js s)) s;
              s = s\<lparr>registers_js := (registers_js s)\<lparr>B_js := t1\<rparr>\<rparr>
          in (8, s))
      else if opcode = Num 0x29 then \<comment> \<open>SRA C\<close>
         (let (t1, s) = doSra_js (C_js (registers_js s)) s;
              s = s\<lparr>registers_js := (registers_js s)\<lparr>C_js := t1\<rparr>\<rparr>
          in (8, s))
      else if opcode = Num 0x2A then \<comment> \<open>SRA D\<close>
         (let (t1, s) = doSra_js (D_js (registers_js s)) s;
              s = s\<lparr>registers_js := (registers_js s)\<lparr>D_js := t1\<rparr>\<rparr>
          in (8, s))
      else if opcode = Num 0x2B then \<comment> \<open>SRA E\<close>
         (let (t1, s) = doSra_js (E_js (registers_js s)) s;
              s = s\<lparr>registers_js := (registers_js s)\<lparr>E_js := t1\<rparr>\<rparr>
          in (8, s))
      else if opcode = Num 0x2C then \<comment> \<open>SRA H\<close>
         (let (t1, s) = doSra_js (H_js (registers_js s)) s;
              s = s\<lparr>registers_js := (registers_js s)\<lparr>H_js := t1\<rparr>\<rparr>
          in (8, s))
      else if opcode = Num 0x2D then \<comment> \<open>SRA L\<close>
         (let (t1, s) = doSra_js (L_js (registers_js s)) s;
              s = s\<lparr>registers_js := (registers_js s)\<lparr>L_js := t1\<rparr>\<rparr>
          in (8, s))
      else if opcode = Num 0x2E then \<comment> \<open>SRA (HL)\<close>
         (let address = val_xor (val_shl (H_js (registers_js s)) (Num 8)) (L_js (registers_js s));
              (t1, s) = mmu_read_js address s;
              (t2, s) = doSra_js t1 s;
              s = mmu_write_js address t2 s
          in (16, s))
      else if opcode = Num 0x2F then \<comment> \<open>SRA A\<close>
         (let (t1, s) = doSra_js (A_js (registers_js s)) s;
              s = s\<lparr>registers_js := (registers_js s)\<lparr>A_js := t1\<rparr>\<rparr>
          in (8, s))
      else if opcode = Num 0x30 then \<comment> \<open>SWAP B\<close>
         (let (t1, s) = doSwap_js (B_js (registers_js s)) s;
              s = s\<lparr>registers_js := (registers_js s)\<lparr>B_js := t1\<rparr>\<rparr>
          in (8, s))
      else if opcode = Num 0x31 then \<comment> \<open>SWAP C\<close>
         (let (t1, s) = doSwap_js (C_js (registers_js s)) s;
              s = s\<lparr>registers_js := (registers_js s)\<lparr>C_js := t1\<rparr>\<rparr>
          in (8, s))
      else if opcode = Num 0x32 then \<comment> \<open>SWAP D\<close>
         (let (t1, s) = doSwap_js (D_js (registers_js s)) s;
              s = s\<lparr>registers_js := (registers_js s)\<lparr>D_js := t1\<rparr>\<rparr>
          in (8, s))
      else if opcode = Num 0x33 then \<comment> \<open>SWAP E\<close>
         (let (t1, s) = doSwap_js (E_js (registers_js s)) s;
              s = s\<lparr>registers_js := (registers_js s)\<lparr>E_js := t1\<rparr>\<rparr>
          in (8, s))
      else if opcode = Num 0x34 then \<comment> \<open>SWAP H\<close>
         (let (t1, s) = doSwap_js (H_js (registers_js s)) s;
              s = s\<lparr>registers_js := (registers_js s)\<lparr>H_js := t1\<rparr>\<rparr>
          in (8, s))
      else if opcode = Num 0x35 then \<comment> \<open>SWAP L\<close>
         (let (t1, s) = doSwap_js (L_js (registers_js s)) s;
              s = s\<lparr>registers_js := (registers_js s)\<lparr>L_js := t1\<rparr>\<rparr>
          in (8, s))
      else if opcode = Num 0x36 then \<comment> \<open>SWAP (HL)\<close>
         (let address = val_xor (val_shl (H_js (registers_js s)) (Num 8)) (L_js (registers_js s));
              (t1, s) = mmu_read_js address s;
              (t2, s) = doSwap_js t1 s;
              s = mmu_write_js address t2 s
          in (16, s))
      else if opcode = Num 0x37 then \<comment> \<open>SWAP A\<close>
         (let (t1, s) = doSwap_js (A_js (registers_js s)) s;
              s = s\<lparr>registers_js := (registers_js s)\<lparr>A_js := t1\<rparr>\<rparr>
          in (8, s))
      else if opcode = Num 0x38 then \<comment> \<open>SRL B\<close>
         (let (t1, s) = doSrl_js (B_js (registers_js s)) s;
              s = s\<lparr>registers_js := (registers_js s)\<lparr>B_js := t1\<rparr>\<rparr>
          in (8, s))
      else if opcode = Num 0x39 then \<comment> \<open>SRL C\<close>
         (let (t1, s) = doSrl_js (C_js (registers_js s)) s;
              s = s\<lparr>registers_js := (registers_js s)\<lparr>C_js := t1\<rparr>\<rparr>
          in (8, s))
      else if opcode = Num 0x3A then \<comment> \<open>SRL D\<close>
         (let (t1, s) = doSrl_js (D_js (registers_js s)) s;
              s = s\<lparr>registers_js := (registers_js s)\<lparr>D_js := t1\<rparr>\<rparr>
          in (8, s))
      else if opcode = Num 0x3B then \<comment> \<open>SRL E\<close>
         (let (t1, s) = doSrl_js (E_js (registers_js s)) s;
              s = s\<lparr>registers_js := (registers_js s)\<lparr>E_js := t1\<rparr>\<rparr>
          in (8, s))
      else if opcode = Num 0x3C then \<comment> \<open>SRL H\<close>
         (let (t1, s) = doSrl_js (H_js (registers_js s)) s;
              s = s\<lparr>registers_js := (registers_js s)\<lparr>H_js := t1\<rparr>\<rparr>
          in (8, s))
      else if opcode = Num 0x3D then \<comment> \<open>SRL L\<close>
         (let (t1, s) = doSrl_js (L_js (registers_js s)) s;
              s = s\<lparr>registers_js := (registers_js s)\<lparr>L_js := t1\<rparr>\<rparr>
          in (8, s))
      else if opcode = Num 0x3E then \<comment> \<open>SRL (HL)\<close>
         (let address = val_xor (val_shl (H_js (registers_js s)) (Num 8)) (L_js (registers_js s));
              (t1, s) = mmu_read_js address s;
              (t2, s) = doSrl_js t1 s;
              s = mmu_write_js address t2 s
          in (16, s))
      else if opcode = Num 0x3F then \<comment> \<open>SRL A\<close>
         (let (t1, s) = doSrl_js (A_js (registers_js s)) s;
              s = s\<lparr>registers_js := (registers_js s)\<lparr>A_js := t1\<rparr>\<rparr>
          in (8, s))
      else if opcode = Num 0x40 then \<comment> \<open>BIT 0, B\<close>
         (let s = testBit_js (Num 0) (B_js (registers_js s)) s
          in (8, s))
      else if opcode = Num 0x41 then \<comment> \<open>BIT 0, C\<close>
         (let s = testBit_js (Num 0) (C_js (registers_js s)) s
          in (8, s))
      else if opcode = Num 0x42 then \<comment> \<open>BIT 0, D\<close>
         (let s = testBit_js (Num 0) (D_js (registers_js s)) s
          in (8, s))
      else if opcode = Num 0x43 then \<comment> \<open>BIT 0, E\<close>
         (let s = testBit_js (Num 0) (E_js (registers_js s)) s
          in (8, s))
      else if opcode = Num 0x44 then \<comment> \<open>BIT 0, H\<close>
         (let s = testBit_js (Num 0) (H_js (registers_js s)) s
          in (8, s))
      else if opcode = Num 0x45 then \<comment> \<open>BIT 0, L\<close>
         (let s = testBit_js (Num 0) (L_js (registers_js s)) s
          in (8, s))
      else if opcode = Num 0x46 then \<comment> \<open>BIT 0, (HL)\<close>
         (let address = val_xor (val_shl (H_js (registers_js s)) (Num 8)) (L_js (registers_js s));
              (t1, s) = mmu_read_js address s;
              s = testBit_js (Num 0) t1 s
          in (16, s))
      else if opcode = Num 0x47 then \<comment> \<open>BIT 0, A\<close>
         (let s = testBit_js (Num 0) (A_js (registers_js s)) s
          in (8, s))
      else if opcode = Num 0x48 then \<comment> \<open>BIT 1, B\<close>
         (let s = testBit_js (Num 1) (B_js (registers_js s)) s
          in (8, s))
      else if opcode = Num 0x49 then \<comment> \<open>BIT 1, C\<close>
         (let s = testBit_js (Num 1) (C_js (registers_js s)) s
          in (8, s))
      else if opcode = Num 0x4A then \<comment> \<open>BIT 1, D\<close>
         (let s = testBit_js (Num 1) (D_js (registers_js s)) s
          in (8, s))
      else if opcode = Num 0x4B then \<comment> \<open>BIT 1, E\<close>
         (let s = testBit_js (Num 1) (E_js (registers_js s)) s
          in (8, s))
      else if opcode = Num 0x4C then \<comment> \<open>BIT 1, H\<close>
         (let s = testBit_js (Num 1) (H_js (registers_js s)) s
          in (8, s))
      else if opcode = Num 0x4D then \<comment> \<open>BIT 1, L\<close>
         (let s = testBit_js (Num 1) (L_js (registers_js s)) s
          in (8, s))
      else if opcode = Num 0x4E then \<comment> \<open>BIT 1, (HL)\<close>
         (let address = val_xor (val_shl (H_js (registers_js s)) (Num 8)) (L_js (registers_js s));
              (t1, s) = mmu_read_js address s;
              s = testBit_js (Num 1) t1 s
          in (16, s))
      else if opcode = Num 0x4F then \<comment> \<open>BIT 1, A\<close>
         (let s = testBit_js (Num 1) (A_js (registers_js s)) s
          in (8, s))
      else if opcode = Num 0x50 then \<comment> \<open>BIT 2, B\<close>
         (let s = testBit_js (Num 2) (B_js (registers_js s)) s
          in (8, s))
      else if opcode = Num 0x51 then \<comment> \<open>BIT 2, C\<close>
         (let s = testBit_js (Num 2) (C_js (registers_js s)) s
          in (8, s))
      else if opcode = Num 0x52 then \<comment> \<open>BIT 2, D\<close>
         (let s = testBit_js (Num 2) (D_js (registers_js s)) s
          in (8, s))
      else if opcode = Num 0x53 then \<comment> \<open>BIT 2, E\<close>
         (let s = testBit_js (Num 2) (E_js (registers_js s)) s
          in (8, s))
      else if opcode = Num 0x54 then \<comment> \<open>BIT 2, H\<close>
         (let s = testBit_js (Num 2) (H_js (registers_js s)) s
          in (8, s))
      else if opcode = Num 0x55 then \<comment> \<open>BIT 2, L\<close>
         (let s = testBit_js (Num 2) (L_js (registers_js s)) s
          in (8, s))
      else if opcode = Num 0x56 then \<comment> \<open>BIT 2, (HL)\<close>
         (let address = val_xor (val_shl (H_js (registers_js s)) (Num 8)) (L_js (registers_js s));
              (t1, s) = mmu_read_js address s;
              s = testBit_js (Num 2) t1 s
          in (16, s))
      else if opcode = Num 0x57 then \<comment> \<open>BIT 2, A\<close>
         (let s = testBit_js (Num 2) (A_js (registers_js s)) s
          in (8, s))
      else if opcode = Num 0x58 then \<comment> \<open>BIT 3, B\<close>
         (let s = testBit_js (Num 3) (B_js (registers_js s)) s
          in (8, s))
      else if opcode = Num 0x59 then \<comment> \<open>BIT 3, C\<close>
         (let s = testBit_js (Num 3) (C_js (registers_js s)) s
          in (8, s))
      else if opcode = Num 0x5A then \<comment> \<open>BIT 3, D\<close>
         (let s = testBit_js (Num 3) (D_js (registers_js s)) s
          in (8, s))
      else if opcode = Num 0x5B then \<comment> \<open>BIT 3, E\<close>
         (let s = testBit_js (Num 3) (E_js (registers_js s)) s
          in (8, s))
      else if opcode = Num 0x5C then \<comment> \<open>BIT 3, H\<close>
         (let s = testBit_js (Num 3) (H_js (registers_js s)) s
          in (8, s))
      else if opcode = Num 0x5D then \<comment> \<open>BIT 3, L\<close>
         (let s = testBit_js (Num 3) (L_js (registers_js s)) s
          in (8, s))
      else if opcode = Num 0x5E then \<comment> \<open>BIT 3, (HL)\<close>
         (let address = val_xor (val_shl (H_js (registers_js s)) (Num 8)) (L_js (registers_js s));
              (t1, s) = mmu_read_js address s;
              s = testBit_js (Num 3) t1 s
          in (16, s))
      else if opcode = Num 0x5F then \<comment> \<open>BIT 3, A\<close>
         (let s = testBit_js (Num 3) (A_js (registers_js s)) s
          in (8, s))
      else if opcode = Num 0x60 then \<comment> \<open>BIT 4, B\<close>
         (let s = testBit_js (Num 4) (B_js (registers_js s)) s
          in (8, s))
      else if opcode = Num 0x61 then \<comment> \<open>BIT 4, C\<close>
         (let s = testBit_js (Num 4) (C_js (registers_js s)) s
          in (8, s))
      else if opcode = Num 0x62 then \<comment> \<open>BIT 4, D\<close>
         (let s = testBit_js (Num 4) (D_js (registers_js s)) s
          in (8, s))
      else if opcode = Num 0x63 then \<comment> \<open>BIT 4, E\<close>
         (let s = testBit_js (Num 4) (E_js (registers_js s)) s
          in (8, s))
      else if opcode = Num 0x64 then \<comment> \<open>BIT 4, H\<close>
         (let s = testBit_js (Num 4) (H_js (registers_js s)) s
          in (8, s))
      else if opcode = Num 0x65 then \<comment> \<open>BIT 4, L\<close>
         (let s = testBit_js (Num 4) (L_js (registers_js s)) s
          in (8, s))
      else if opcode = Num 0x66 then \<comment> \<open>BIT 4, (HL)\<close>
         (let address = val_xor (val_shl (H_js (registers_js s)) (Num 8)) (L_js (registers_js s));
              (t1, s) = mmu_read_js address s;
              s = testBit_js (Num 4) t1 s
          in (16, s))
      else if opcode = Num 0x67 then \<comment> \<open>BIT 4, A\<close>
         (let s = testBit_js (Num 4) (A_js (registers_js s)) s
          in (8, s))
      else if opcode = Num 0x68 then \<comment> \<open>BIT 5, B\<close>
         (let s = testBit_js (Num 5) (B_js (registers_js s)) s
          in (8, s))
      else if opcode = Num 0x69 then \<comment> \<open>BIT 5, C\<close>
         (let s = testBit_js (Num 5) (C_js (registers_js s)) s
          in (8, s))
      else if opcode = Num 0x6A then \<comment> \<open>BIT 5, D\<close>
         (let s = testBit_js (Num 5) (D_js (registers_js s)) s
          in (8, s))
      else if opcode = Num 0x6B then \<comment> \<open>BIT 5, E\<close>
         (let s = testBit_js (Num 5) (E_js (registers_js s)) s
          in (8, s))
      else if opcode = Num 0x6C then \<comment> \<open>BIT 5, H\<close>
         (let s = testBit_js (Num 5) (H_js (registers_js s)) s
          in (8, s))
      else if opcode = Num 0x6D then \<comment> \<open>BIT 5, L\<close>
         (let s = testBit_js (Num 5) (L_js (registers_js s)) s
          in (8, s))
      else if opcode = Num 0x6E then \<comment> \<open>BIT 5, (HL)\<close>
         (let address = val_xor (val_shl (H_js (registers_js s)) (Num 8)) (L_js (registers_js s));
              (t1, s) = mmu_read_js address s;
              s = testBit_js (Num 5) t1 s
          in (16, s))
      else if opcode = Num 0x6F then \<comment> \<open>BIT 5, A\<close>
         (let s = testBit_js (Num 5) (A_js (registers_js s)) s
          in (8, s))
      else if opcode = Num 0x70 then \<comment> \<open>BIT 6, B\<close>
         (let s = testBit_js (Num 6) (B_js (registers_js s)) s
          in (8, s))
      else if opcode = Num 0x71 then \<comment> \<open>BIT 6, C\<close>
         (let s = testBit_js (Num 6) (C_js (registers_js s)) s
          in (8, s))
      else if opcode = Num 0x72 then \<comment> \<open>BIT 6, D\<close>
         (let s = testBit_js (Num 6) (D_js (registers_js s)) s
          in (8, s))
      else if opcode = Num 0x73 then \<comment> \<open>BIT 6, E\<close>
         (let s = testBit_js (Num 6) (E_js (registers_js s)) s
          in (8, s))
      else if opcode = Num 0x74 then \<comment> \<open>BIT 6, H\<close>
         (let s = testBit_js (Num 6) (H_js (registers_js s)) s
          in (8, s))
      else if opcode = Num 0x75 then \<comment> \<open>BIT 6, L\<close>
         (let s = testBit_js (Num 6) (L_js (registers_js s)) s
          in (8, s))
      else if opcode = Num 0x76 then \<comment> \<open>BIT 6, (HL)\<close>
         (let address = val_xor (val_shl (H_js (registers_js s)) (Num 8)) (L_js (registers_js s));
              (t1, s) = mmu_read_js address s;
              s = testBit_js (Num 6) t1 s
          in (16, s))
      else if opcode = Num 0x77 then \<comment> \<open>BIT 6, A\<close>
         (let s = testBit_js (Num 6) (A_js (registers_js s)) s
          in (8, s))
      else if opcode = Num 0x78 then \<comment> \<open>BIT 7, B\<close>
         (let s = testBit_js (Num 7) (B_js (registers_js s)) s
          in (8, s))
      else if opcode = Num 0x79 then \<comment> \<open>BIT 7, C\<close>
         (let s = testBit_js (Num 7) (C_js (registers_js s)) s
          in (8, s))
      else if opcode = Num 0x7A then \<comment> \<open>BIT 7, D\<close>
         (let s = testBit_js (Num 7) (D_js (registers_js s)) s
          in (8, s))
      else if opcode = Num 0x7B then \<comment> \<open>BIT 7, E\<close>
         (let s = testBit_js (Num 7) (E_js (registers_js s)) s
          in (8, s))
      else if opcode = Num 0x7C then \<comment> \<open>BIT 7, H\<close>
         (let s = testBit_js (Num 7) (H_js (registers_js s)) s
          in (8, s))
      else if opcode = Num 0x7D then \<comment> \<open>BIT 7, L\<close>
         (let s = testBit_js (Num 7) (L_js (registers_js s)) s
          in (8, s))
      else if opcode = Num 0x7E then \<comment> \<open>BIT 7, (HL)\<close>
         (let address = val_xor (val_shl (H_js (registers_js s)) (Num 8)) (L_js (registers_js s));
              (t1, s) = mmu_read_js address s;
              s = testBit_js (Num 7) t1 s
          in (16, s))
      else if opcode = Num 0x7F then \<comment> \<open>BIT 7, A\<close>
         (let s = testBit_js (Num 7) (A_js (registers_js s)) s
          in (8, s))
      else if opcode = Num 0x80 then \<comment> \<open>RES 0, B\<close>
         (let s = s\<lparr>registers_js := (registers_js s)\<lparr>B_js := resetBit_js (Num 0) (B_js (registers_js s))\<rparr>\<rparr>
          in (8, s))
      else if opcode = Num 0x81 then \<comment> \<open>RES 0, C\<close>
         (let s = s\<lparr>registers_js := (registers_js s)\<lparr>C_js := resetBit_js (Num 0) (C_js (registers_js s))\<rparr>\<rparr>
          in (8, s))
      else if opcode = Num 0x82 then \<comment> \<open>RES 0, D\<close>
         (let s = s\<lparr>registers_js := (registers_js s)\<lparr>D_js := resetBit_js (Num 0) (D_js (registers_js s))\<rparr>\<rparr>
          in (8, s))
      else if opcode = Num 0x83 then \<comment> \<open>RES 0, E\<close>
         (let s = s\<lparr>registers_js := (registers_js s)\<lparr>E_js := resetBit_js (Num 0) (E_js (registers_js s))\<rparr>\<rparr>
          in (8, s))
      else if opcode = Num 0x84 then \<comment> \<open>RES 0, H\<close>
         (let s = s\<lparr>registers_js := (registers_js s)\<lparr>H_js := resetBit_js (Num 0) (H_js (registers_js s))\<rparr>\<rparr>
          in (8, s))
      else if opcode = Num 0x85 then \<comment> \<open>RES 0, L\<close>
         (let s = s\<lparr>registers_js := (registers_js s)\<lparr>L_js := resetBit_js (Num 0) (L_js (registers_js s))\<rparr>\<rparr>
          in (8, s))
      else if opcode = Num 0x86 then \<comment> \<open>RES 0, (HL)\<close>
         (let address = val_xor (val_shl (H_js (registers_js s)) (Num 8)) (L_js (registers_js s));
              (t1, s) = mmu_read_js address s;
              s = mmu_write_js address (resetBit_js (Num 0) t1) s
          in (16, s))
      else if opcode = Num 0x87 then \<comment> \<open>RES 0, A\<close>
         (let s = s\<lparr>registers_js := (registers_js s)\<lparr>A_js := resetBit_js (Num 0) (A_js (registers_js s))\<rparr>\<rparr>
          in (8, s))
      else if opcode = Num 0x88 then \<comment> \<open>RES 1, B\<close>
         (let s = s\<lparr>registers_js := (registers_js s)\<lparr>B_js := resetBit_js (Num 1) (B_js (registers_js s))\<rparr>\<rparr>
          in (8, s))
      else if opcode = Num 0x89 then \<comment> \<open>RES 1, C\<close>
         (let s = s\<lparr>registers_js := (registers_js s)\<lparr>C_js := resetBit_js (Num 1) (C_js (registers_js s))\<rparr>\<rparr>
          in (8, s))
      else if opcode = Num 0x8A then \<comment> \<open>RES 1, D\<close>
         (let s = s\<lparr>registers_js := (registers_js s)\<lparr>D_js := resetBit_js (Num 1) (D_js (registers_js s))\<rparr>\<rparr>
          in (8, s))
      else if opcode = Num 0x8B then \<comment> \<open>RES 1, E\<close>
         (let s = s\<lparr>registers_js := (registers_js s)\<lparr>E_js := resetBit_js (Num 1) (E_js (registers_js s))\<rparr>\<rparr>
          in (8, s))
      else if opcode = Num 0x8C then \<comment> \<open>RES 1, H\<close>
         (let s = s\<lparr>registers_js := (registers_js s)\<lparr>H_js := resetBit_js (Num 1) (H_js (registers_js s))\<rparr>\<rparr>
          in (8, s))
      else if opcode = Num 0x8D then \<comment> \<open>RES 1, L\<close>
         (let s = s\<lparr>registers_js := (registers_js s)\<lparr>L_js := resetBit_js (Num 1) (L_js (registers_js s))\<rparr>\<rparr>
          in (8, s))
      else if opcode = Num 0x8E then \<comment> \<open>RES 1, (HL)\<close>
         (let address = val_xor (val_shl (H_js (registers_js s)) (Num 8)) (L_js (registers_js s));
              (t1, s) = mmu_read_js address s;
              s = mmu_write_js address (resetBit_js (Num 1) t1) s
          in (16, s))
      else if opcode = Num 0x8F then \<comment> \<open>RES 1, A\<close>
         (let s = s\<lparr>registers_js := (registers_js s)\<lparr>A_js := resetBit_js (Num 1) (A_js (registers_js s))\<rparr>\<rparr>
          in (8, s))
      else if opcode = Num 0x90 then \<comment> \<open>RES 2, B\<close>
         (let s = s\<lparr>registers_js := (registers_js s)\<lparr>B_js := resetBit_js (Num 2) (B_js (registers_js s))\<rparr>\<rparr>
          in (8, s))
      else if opcode = Num 0x91 then \<comment> \<open>RES 2, C\<close>
         (let s = s\<lparr>registers_js := (registers_js s)\<lparr>C_js := resetBit_js (Num 2) (C_js (registers_js s))\<rparr>\<rparr>
          in (8, s))
      else if opcode = Num 0x92 then \<comment> \<open>RES 2, D\<close>
         (let s = s\<lparr>registers_js := (registers_js s)\<lparr>D_js := resetBit_js (Num 2) (D_js (registers_js s))\<rparr>\<rparr>
          in (8, s))
      else if opcode = Num 0x93 then \<comment> \<open>RES 2, E\<close>
         (let s = s\<lparr>registers_js := (registers_js s)\<lparr>E_js := resetBit_js (Num 2) (E_js (registers_js s))\<rparr>\<rparr>
          in (8, s))
      else if opcode = Num 0x94 then \<comment> \<open>RES 2, H\<close>
         (let s = s\<lparr>registers_js := (registers_js s)\<lparr>H_js := resetBit_js (Num 2) (H_js (registers_js s))\<rparr>\<rparr>
          in (8, s))
      else if opcode = Num 0x95 then \<comment> \<open>RES 2, L\<close>
         (let s = s\<lparr>registers_js := (registers_js s)\<lparr>L_js := resetBit_js (Num 2) (L_js (registers_js s))\<rparr>\<rparr>
          in (8, s))
      else if opcode = Num 0x96 then \<comment> \<open>RES 2, (HL)\<close>
         (let address = val_xor (val_shl (H_js (registers_js s)) (Num 8)) (L_js (registers_js s));
              (t1, s) = mmu_read_js address s;
              s = mmu_write_js address (resetBit_js (Num 2) t1) s
          in (16, s))
      else if opcode = Num 0x97 then \<comment> \<open>RES 2, A\<close>
         (let s = s\<lparr>registers_js := (registers_js s)\<lparr>A_js := resetBit_js (Num 2) (A_js (registers_js s))\<rparr>\<rparr>
          in (8, s))
      else if opcode = Num 0x98 then \<comment> \<open>RES 3, B\<close>
         (let s = s\<lparr>registers_js := (registers_js s)\<lparr>B_js := resetBit_js (Num 3) (B_js (registers_js s))\<rparr>\<rparr>
          in (8, s))
      else if opcode = Num 0x99 then \<comment> \<open>RES 3, C\<close>
         (let s = s\<lparr>registers_js := (registers_js s)\<lparr>C_js := resetBit_js (Num 3) (C_js (registers_js s))\<rparr>\<rparr>
          in (8, s))
      else if opcode = Num 0x9A then \<comment> \<open>RES 3, D\<close>
         (let s = s\<lparr>registers_js := (registers_js s)\<lparr>D_js := resetBit_js (Num 3) (D_js (registers_js s))\<rparr>\<rparr>
          in (8, s))
      else if opcode = Num 0x9B then \<comment> \<open>RES 3, E\<close>
         (let s = s\<lparr>registers_js := (registers_js s)\<lparr>E_js := resetBit_js (Num 3) (E_js (registers_js s))\<rparr>\<rparr>
          in (8, s))
      else if opcode = Num 0x9C then \<comment> \<open>RES 3, H\<close>
         (let s = s\<lparr>registers_js := (registers_js s)\<lparr>H_js := resetBit_js (Num 3) (H_js (registers_js s))\<rparr>\<rparr>
          in (8, s))
      else if opcode = Num 0x9D then \<comment> \<open>RES 3, L\<close>
         (let s = s\<lparr>registers_js := (registers_js s)\<lparr>L_js := resetBit_js (Num 3) (L_js (registers_js s))\<rparr>\<rparr>
          in (8, s))
      else if opcode = Num 0x9E then \<comment> \<open>RES 3, (HL)\<close>
         (let address = val_xor (val_shl (H_js (registers_js s)) (Num 8)) (L_js (registers_js s));
              (t1, s) = mmu_read_js address s;
              s = mmu_write_js address (resetBit_js (Num 3) t1) s
          in (16, s))
      else if opcode = Num 0x9F then \<comment> \<open>RES 3, A\<close>
         (let s = s\<lparr>registers_js := (registers_js s)\<lparr>A_js := resetBit_js (Num 3) (A_js (registers_js s))\<rparr>\<rparr>
          in (8, s))
      else if opcode = Num 0xA0 then \<comment> \<open>RES 4, B\<close>
         (let s = s\<lparr>registers_js := (registers_js s)\<lparr>B_js := resetBit_js (Num 4) (B_js (registers_js s))\<rparr>\<rparr>
          in (8, s))
      else if opcode = Num 0xA1 then \<comment> \<open>RES 4, C\<close>
         (let s = s\<lparr>registers_js := (registers_js s)\<lparr>C_js := resetBit_js (Num 4) (C_js (registers_js s))\<rparr>\<rparr>
          in (8, s))
      else if opcode = Num 0xA2 then \<comment> \<open>RES 4, D\<close>
         (let s = s\<lparr>registers_js := (registers_js s)\<lparr>D_js := resetBit_js (Num 4) (D_js (registers_js s))\<rparr>\<rparr>
          in (8, s))
      else if opcode = Num 0xA3 then \<comment> \<open>RES 4, E\<close>
         (let s = s\<lparr>registers_js := (registers_js s)\<lparr>E_js := resetBit_js (Num 4) (E_js (registers_js s))\<rparr>\<rparr>
          in (8, s))
      else if opcode = Num 0xA4 then \<comment> \<open>RES 4, H\<close>
         (let s = s\<lparr>registers_js := (registers_js s)\<lparr>H_js := resetBit_js (Num 4) (H_js (registers_js s))\<rparr>\<rparr>
          in (8, s))
      else if opcode = Num 0xA5 then \<comment> \<open>RES 4, L\<close>
         (let s = s\<lparr>registers_js := (registers_js s)\<lparr>L_js := resetBit_js (Num 4) (L_js (registers_js s))\<rparr>\<rparr>
          in (8, s))
      else if opcode = Num 0xA6 then \<comment> \<open>RES 4, (HL)\<close>
         (let address = val_xor (val_shl (H_js (registers_js s)) (Num 8)) (L_js (registers_js s));
              (t1, s) = mmu_read_js address s;
              s = mmu_write_js address (resetBit_js (Num 4) t1) s
          in (16, s))
      else if opcode = Num 0xA7 then \<comment> \<open>RES 4, A\<close>
         (let s = s\<lparr>registers_js := (registers_js s)\<lparr>A_js := resetBit_js (Num 4) (A_js (registers_js s))\<rparr>\<rparr>
          in (8, s))
      else if opcode = Num 0xA8 then \<comment> \<open>RES 5, B\<close>
         (let s = s\<lparr>registers_js := (registers_js s)\<lparr>B_js := resetBit_js (Num 5) (B_js (registers_js s))\<rparr>\<rparr>
          in (8, s))
      else if opcode = Num 0xA9 then \<comment> \<open>RES 5, C\<close>
         (let s = s\<lparr>registers_js := (registers_js s)\<lparr>C_js := resetBit_js (Num 5) (C_js (registers_js s))\<rparr>\<rparr>
          in (8, s))
      else if opcode = Num 0xAA then \<comment> \<open>RES 5, D\<close>
         (let s = s\<lparr>registers_js := (registers_js s)\<lparr>D_js := resetBit_js (Num 5) (D_js (registers_js s))\<rparr>\<rparr>
          in (8, s))
      else if opcode = Num 0xAB then \<comment> \<open>RES 5, E\<close>
         (let s = s\<lparr>registers_js := (registers_js s)\<lparr>E_js := resetBit_js (Num 5) (E_js (registers_js s))\<rparr>\<rparr>
          in (8, s))
      else if opcode = Num 0xAC then \<comment> \<open>RES 5, H\<close>
         (let s = s\<lparr>registers_js := (registers_js s)\<lparr>H_js := resetBit_js (Num 5) (H_js (registers_js s))\<rparr>\<rparr>
          in (8, s))
      else if opcode = Num 0xAD then \<comment> \<open>RES 5, L\<close>
         (let s = s\<lparr>registers_js := (registers_js s)\<lparr>L_js := resetBit_js (Num 5) (L_js (registers_js s))\<rparr>\<rparr>
          in (8, s))
      else if opcode = Num 0xAE then \<comment> \<open>RES 5, (HL)\<close>
         (let address = val_xor (val_shl (H_js (registers_js s)) (Num 8)) (L_js (registers_js s));
              (t1, s) = mmu_read_js address s;
              s = mmu_write_js address (resetBit_js (Num 5) t1) s
          in (16, s))
      else if opcode = Num 0xAF then \<comment> \<open>RES 5, A\<close>
         (let s = s\<lparr>registers_js := (registers_js s)\<lparr>A_js := resetBit_js (Num 5) (A_js (registers_js s))\<rparr>\<rparr>
          in (8, s))
      else if opcode = Num 0xB0 then \<comment> \<open>RES 6, B\<close>
         (let s = s\<lparr>registers_js := (registers_js s)\<lparr>B_js := resetBit_js (Num 6) (B_js (registers_js s))\<rparr>\<rparr>
          in (8, s))
      else if opcode = Num 0xB1 then \<comment> \<open>RES 6, C\<close>
         (let s = s\<lparr>registers_js := (registers_js s)\<lparr>C_js := resetBit_js (Num 6) (C_js (registers_js s))\<rparr>\<rparr>
          in (8, s))
      else if opcode = Num 0xB2 then \<comment> \<open>RES 6, D\<close>
         (let s = s\<lparr>registers_js := (registers_js s)\<lparr>D_js := resetBit_js (Num 6) (D_js (registers_js s))\<rparr>\<rparr>
          in (8, s))
      else if opcode = Num 0xB3 then \<comment> \<open>RES 6, E\<close>
         (let s = s\<lparr>registers_js := (registers_js s)\<lparr>E_js := resetBit_js (Num 6) (E_js (registers_js s))\<rparr>\<rparr>
          in (8, s))
      else if opcode = Num 0xB4 then \<comment> \<open>RES 6, H\<close>
         (let s = s\<lparr>registers_js := (registers_js s)\<lparr>H_js := resetBit_js (Num 6) (H_js (registers_js s))\<rparr>\<rparr>
          in (8, s))
      else if opcode = Num 0xB5 then \<comment> \<open>RES 6, L\<close>
         (let s = s\<lparr>registers_js := (registers_js s)\<lparr>L_js := resetBit_js (Num 6) (L_js (registers_js s))\<rparr>\<rparr>
          in (8, s))
      else if opcode = Num 0xB6 then \<comment> \<open>RES 6, (HL)\<close>
         (let address = val_xor (val_shl (H_js (registers_js s)) (Num 8)) (L_js (registers_js s));
              (t1, s) = mmu_read_js address s;
              s = mmu_write_js address (resetBit_js (Num 6) t1) s
          in (16, s))
      else if opcode = Num 0xB7 then \<comment> \<open>RES 6, A\<close>
         (let s = s\<lparr>registers_js := (registers_js s)\<lparr>A_js := resetBit_js (Num 6) (A_js (registers_js s))\<rparr>\<rparr>
          in (8, s))
      else if opcode = Num 0xB8 then \<comment> \<open>RES 7, B\<close>
         (let s = s\<lparr>registers_js := (registers_js s)\<lparr>B_js := resetBit_js (Num 7) (B_js (registers_js s))\<rparr>\<rparr>
          in (8, s))
      else if opcode = Num 0xB9 then \<comment> \<open>RES 7, C\<close>
         (let s = s\<lparr>registers_js := (registers_js s)\<lparr>C_js := resetBit_js (Num 7) (C_js (registers_js s))\<rparr>\<rparr>
          in (8, s))
      else if opcode = Num 0xBA then \<comment> \<open>RES 7, D\<close>
         (let s = s\<lparr>registers_js := (registers_js s)\<lparr>D_js := resetBit_js (Num 7) (D_js (registers_js s))\<rparr>\<rparr>
          in (8, s))
      else if opcode = Num 0xBB then \<comment> \<open>RES 7, E\<close>
         (let s = s\<lparr>registers_js := (registers_js s)\<lparr>E_js := resetBit_js (Num 7) (E_js (registers_js s))\<rparr>\<rparr>
          in (8, s))
      else if opcode = Num 0xBC then \<comment> \<open>RES 7, H\<close>
         (let s = s\<lparr>registers_js := (registers_js s)\<lparr>H_js := resetBit_js (Num 7) (H_js (registers_js s))\<rparr>\<rparr>
          in (8, s))
      else if opcode = Num 0xBD then \<comment> \<open>RES 7, L\<close>
         (let s = s\<lparr>registers_js := (registers_js s)\<lparr>L_js := resetBit_js (Num 7) (L_js (registers_js s))\<rparr>\<rparr>
          in (8, s))
      else if opcode = Num 0xBE then \<comment> \<open>RES 7, (HL)\<close>
         (let address = val_xor (val_shl (H_js (registers_js s)) (Num 8)) (L_js (registers_js s));
              (t1, s) = mmu_read_js address s;
              s = mmu_write_js address (resetBit_js (Num 7) t1) s
          in (16, s))
      else if opcode = Num 0xBF then \<comment> \<open>RES 7, A\<close>
         (let s = s\<lparr>registers_js := (registers_js s)\<lparr>A_js := resetBit_js (Num 7) (A_js (registers_js s))\<rparr>\<rparr>
          in (8, s))
      else if opcode = Num 0xC0 then \<comment> \<open>SET 0, B\<close>
         (let s = s\<lparr>registers_js := (registers_js s)\<lparr>B_js := setBit_js (Num 0) (B_js (registers_js s))\<rparr>\<rparr>
          in (8, s))
      else if opcode = Num 0xC1 then \<comment> \<open>SET 0, C\<close>
         (let s = s\<lparr>registers_js := (registers_js s)\<lparr>C_js := setBit_js (Num 0) (C_js (registers_js s))\<rparr>\<rparr>
          in (8, s))
      else if opcode = Num 0xC2 then \<comment> \<open>SET 0, D\<close>
         (let s = s\<lparr>registers_js := (registers_js s)\<lparr>D_js := setBit_js (Num 0) (D_js (registers_js s))\<rparr>\<rparr>
          in (8, s))
      else if opcode = Num 0xC3 then \<comment> \<open>SET 0, E\<close>
         (let s = s\<lparr>registers_js := (registers_js s)\<lparr>E_js := setBit_js (Num 0) (E_js (registers_js s))\<rparr>\<rparr>
          in (8, s))
      else if opcode = Num 0xC4 then \<comment> \<open>SET 0, H\<close>
         (let s = s\<lparr>registers_js := (registers_js s)\<lparr>H_js := setBit_js (Num 0) (H_js (registers_js s))\<rparr>\<rparr>
          in (8, s))
      else if opcode = Num 0xC5 then \<comment> \<open>SET 0, L\<close>
         (let s = s\<lparr>registers_js := (registers_js s)\<lparr>L_js := setBit_js (Num 0) (L_js (registers_js s))\<rparr>\<rparr>
          in (8, s))
      else if opcode = Num 0xC6 then \<comment> \<open>SET 0, (HL)\<close>
         (let address = val_xor (val_shl (H_js (registers_js s)) (Num 8)) (L_js (registers_js s));
              (t1, s) = mmu_read_js address s;
              s = mmu_write_js address (setBit_js (Num 0) t1) s
          in (16, s))
      else if opcode = Num 0xC7 then \<comment> \<open>SET 0, A\<close>
         (let s = s\<lparr>registers_js := (registers_js s)\<lparr>A_js := setBit_js (Num 0) (A_js (registers_js s))\<rparr>\<rparr>
          in (8, s))
      else if opcode = Num 0xC8 then \<comment> \<open>SET 1, B\<close>
         (let s = s\<lparr>registers_js := (registers_js s)\<lparr>B_js := setBit_js (Num 1) (B_js (registers_js s))\<rparr>\<rparr>
          in (8, s))
      else if opcode = Num 0xC9 then \<comment> \<open>SET 1, C\<close>
         (let s = s\<lparr>registers_js := (registers_js s)\<lparr>C_js := setBit_js (Num 1) (C_js (registers_js s))\<rparr>\<rparr>
          in (8, s))
      else if opcode = Num 0xCA then \<comment> \<open>SET 1, D\<close>
         (let s = s\<lparr>registers_js := (registers_js s)\<lparr>D_js := setBit_js (Num 1) (D_js (registers_js s))\<rparr>\<rparr>
          in (8, s))
      else if opcode = Num 0xCB then \<comment> \<open>SET 1, E\<close>
         (let s = s\<lparr>registers_js := (registers_js s)\<lparr>E_js := setBit_js (Num 1) (E_js (registers_js s))\<rparr>\<rparr>
          in (8, s))
      else if opcode = Num 0xCC then \<comment> \<open>SET 1, H\<close>
         (let s = s\<lparr>registers_js := (registers_js s)\<lparr>H_js := setBit_js (Num 1) (H_js (registers_js s))\<rparr>\<rparr>
          in (8, s))
      else if opcode = Num 0xCD then \<comment> \<open>SET 1, L\<close>
         (let s = s\<lparr>registers_js := (registers_js s)\<lparr>L_js := setBit_js (Num 1) (L_js (registers_js s))\<rparr>\<rparr>
          in (8, s))
      else if opcode = Num 0xCE then \<comment> \<open>SET 1, (HL)\<close>
         (let address = val_xor (val_shl (H_js (registers_js s)) (Num 8)) (L_js (registers_js s));
              (t1, s) = mmu_read_js address s;
              s = mmu_write_js address (setBit_js (Num 1) t1) s
          in (16, s))
      else if opcode = Num 0xCF then \<comment> \<open>SET 1, A\<close>
         (let s = s\<lparr>registers_js := (registers_js s)\<lparr>A_js := setBit_js (Num 1) (A_js (registers_js s))\<rparr>\<rparr>
          in (8, s))
      else if opcode = Num 0xD0 then \<comment> \<open>SET 2, B\<close>
         (let s = s\<lparr>registers_js := (registers_js s)\<lparr>B_js := setBit_js (Num 2) (B_js (registers_js s))\<rparr>\<rparr>
          in (8, s))
      else if opcode = Num 0xD1 then \<comment> \<open>SET 2, C\<close>
         (let s = s\<lparr>registers_js := (registers_js s)\<lparr>C_js := setBit_js (Num 2) (C_js (registers_js s))\<rparr>\<rparr>
          in (8, s))
      else if opcode = Num 0xD2 then \<comment> \<open>SET 2, D\<close>
         (let s = s\<lparr>registers_js := (registers_js s)\<lparr>D_js := setBit_js (Num 2) (D_js (registers_js s))\<rparr>\<rparr>
          in (8, s))
      else if opcode = Num 0xD3 then \<comment> \<open>SET 2, E\<close>
         (let s = s\<lparr>registers_js := (registers_js s)\<lparr>E_js := setBit_js (Num 2) (E_js (registers_js s))\<rparr>\<rparr>
          in (8, s))
      else if opcode = Num 0xD4 then \<comment> \<open>SET 2, H\<close>
         (let s = s\<lparr>registers_js := (registers_js s)\<lparr>H_js := setBit_js (Num 2) (H_js (registers_js s))\<rparr>\<rparr>
          in (8, s))
      else if opcode = Num 0xD5 then \<comment> \<open>SET 2, L\<close>
         (let s = s\<lparr>registers_js := (registers_js s)\<lparr>L_js := setBit_js (Num 2) (L_js (registers_js s))\<rparr>\<rparr>
          in (8, s))
      else if opcode = Num 0xD6 then \<comment> \<open>SET 2, (HL)\<close>
         (let address = val_xor (val_shl (H_js (registers_js s)) (Num 8)) (L_js (registers_js s));
              (t1, s) = mmu_read_js address s;
              s = mmu_write_js address (setBit_js (Num 2) t1) s
          in (16, s))
      else if opcode = Num 0xD7 then \<comment> \<open>SET 2, A\<close>
         (let s = s\<lparr>registers_js := (registers_js s)\<lparr>A_js := setBit_js (Num 2) (A_js (registers_js s))\<rparr>\<rparr>
          in (8, s))
      else if opcode = Num 0xD8 then \<comment> \<open>SET 3, B\<close>
         (let s = s\<lparr>registers_js := (registers_js s)\<lparr>B_js := setBit_js (Num 3) (B_js (registers_js s))\<rparr>\<rparr>
          in (8, s))
      else if opcode = Num 0xD9 then \<comment> \<open>SET 3, C\<close>
         (let s = s\<lparr>registers_js := (registers_js s)\<lparr>C_js := setBit_js (Num 3) (C_js (registers_js s))\<rparr>\<rparr>
          in (8, s))
      else if opcode = Num 0xDA then \<comment> \<open>SET 3, D\<close>
         (let s = s\<lparr>registers_js := (registers_js s)\<lparr>D_js := setBit_js (Num 3) (D_js (registers_js s))\<rparr>\<rparr>
          in (8, s))
      else if opcode = Num 0xDB then \<comment> \<open>SET 3, E\<close>
         (let s = s\<lparr>registers_js := (registers_js s)\<lparr>E_js := setBit_js (Num 3) (E_js (registers_js s))\<rparr>\<rparr>
          in (8, s))
      else if opcode = Num 0xDC then \<comment> \<open>SET 3, H\<close>
         (let s = s\<lparr>registers_js := (registers_js s)\<lparr>H_js := setBit_js (Num 3) (H_js (registers_js s))\<rparr>\<rparr>
          in (8, s))
      else if opcode = Num 0xDD then \<comment> \<open>SET 3, L\<close>
         (let s = s\<lparr>registers_js := (registers_js s)\<lparr>L_js := setBit_js (Num 3) (L_js (registers_js s))\<rparr>\<rparr>
          in (8, s))
      else if opcode = Num 0xDE then \<comment> \<open>SET 3, (HL)\<close>
         (let address = val_xor (val_shl (H_js (registers_js s)) (Num 8)) (L_js (registers_js s));
              (t1, s) = mmu_read_js address s;
              s = mmu_write_js address (setBit_js (Num 3) t1) s
          in (16, s))
      else if opcode = Num 0xDF then \<comment> \<open>SET 3, A\<close>
         (let s = s\<lparr>registers_js := (registers_js s)\<lparr>A_js := setBit_js (Num 3) (A_js (registers_js s))\<rparr>\<rparr>
          in (8, s))
      else if opcode = Num 0xE0 then \<comment> \<open>SET 4, B\<close>
         (let s = s\<lparr>registers_js := (registers_js s)\<lparr>B_js := setBit_js (Num 4) (B_js (registers_js s))\<rparr>\<rparr>
          in (8, s))
      else if opcode = Num 0xE1 then \<comment> \<open>SET 4, C\<close>
         (let s = s\<lparr>registers_js := (registers_js s)\<lparr>C_js := setBit_js (Num 4) (C_js (registers_js s))\<rparr>\<rparr>
          in (8, s))
      else if opcode = Num 0xE2 then \<comment> \<open>SET 4, D\<close>
         (let s = s\<lparr>registers_js := (registers_js s)\<lparr>D_js := setBit_js (Num 4) (D_js (registers_js s))\<rparr>\<rparr>
          in (8, s))
      else if opcode = Num 0xE3 then \<comment> \<open>SET 4, E\<close>
         (let s = s\<lparr>registers_js := (registers_js s)\<lparr>E_js := setBit_js (Num 4) (E_js (registers_js s))\<rparr>\<rparr>
          in (8, s))
      else if opcode = Num 0xE4 then \<comment> \<open>SET 4, H\<close>
         (let s = s\<lparr>registers_js := (registers_js s)\<lparr>H_js := setBit_js (Num 4) (H_js (registers_js s))\<rparr>\<rparr>
          in (8, s))
      else if opcode = Num 0xE5 then \<comment> \<open>SET 4, L\<close>
         (let s = s\<lparr>registers_js := (registers_js s)\<lparr>L_js := setBit_js (Num 4) (L_js (registers_js s))\<rparr>\<rparr>
          in (8, s))
      else if opcode = Num 0xE6 then \<comment> \<open>SET 4, (HL)\<close>
         (let address = val_xor (val_shl (H_js (registers_js s)) (Num 8)) (L_js (registers_js s));
              (t1, s) = mmu_read_js address s;
              s = mmu_write_js address (setBit_js (Num 4) t1) s
          in (16, s))
      else if opcode = Num 0xE7 then \<comment> \<open>SET 4, A\<close>
         (let s = s\<lparr>registers_js := (registers_js s)\<lparr>A_js := setBit_js (Num 4) (A_js (registers_js s))\<rparr>\<rparr>
          in (8, s))
      else if opcode = Num 0xE8 then \<comment> \<open>SET 5, B\<close>
         (let s = s\<lparr>registers_js := (registers_js s)\<lparr>B_js := setBit_js (Num 5) (B_js (registers_js s))\<rparr>\<rparr>
          in (8, s))
      else if opcode = Num 0xE9 then \<comment> \<open>SET 5, C\<close>
         (let s = s\<lparr>registers_js := (registers_js s)\<lparr>C_js := setBit_js (Num 5) (C_js (registers_js s))\<rparr>\<rparr>
          in (8, s))
      else if opcode = Num 0xEA then \<comment> \<open>SET 5, D\<close>
         (let s = s\<lparr>registers_js := (registers_js s)\<lparr>D_js := setBit_js (Num 5) (D_js (registers_js s))\<rparr>\<rparr>
          in (8, s))
      else if opcode = Num 0xEB then \<comment> \<open>SET 5, E\<close>
         (let s = s\<lparr>registers_js := (registers_js s)\<lparr>E_js := setBit_js (Num 5) (E_js (registers_js s))\<rparr>\<rparr>
          in (8, s))
      else if opcode = Num 0xEC then \<comment> \<open>SET 5, H\<close>
         (let s = s\<lparr>registers_js := (registers_js s)\<lparr>H_js := setBit_js (Num 5) (H_js (registers_js s))\<rparr>\<rparr>
          in (8, s))
      else if opcode = Num 0xED then \<comment> \<open>SET 5, L\<close>
         (let s = s\<lparr>registers_js := (registers_js s)\<lparr>L_js := setBit_js (Num 5) (L_js (registers_js s))\<rparr>\<rparr>
          in (8, s))
      else if opcode = Num 0xEE then \<comment> \<open>SET 5, (HL)\<close>
         (let address = val_xor (val_shl (H_js (registers_js s)) (Num 8)) (L_js (registers_js s));
              (t1, s) = mmu_read_js address s;
              s = mmu_write_js address (setBit_js (Num 5) t1) s
          in (16, s))
      else if opcode = Num 0xEF then \<comment> \<open>SET 5, A\<close>
         (let s = s\<lparr>registers_js := (registers_js s)\<lparr>A_js := setBit_js (Num 5) (A_js (registers_js s))\<rparr>\<rparr>
          in (8, s))
      else if opcode = Num 0xF0 then \<comment> \<open>SET 6, B\<close>
         (let s = s\<lparr>registers_js := (registers_js s)\<lparr>B_js := setBit_js (Num 6) (B_js (registers_js s))\<rparr>\<rparr>
          in (8, s))
      else if opcode = Num 0xF1 then \<comment> \<open>SET 6, C\<close>
         (let s = s\<lparr>registers_js := (registers_js s)\<lparr>C_js := setBit_js (Num 6) (C_js (registers_js s))\<rparr>\<rparr>
          in (8, s))
      else if opcode = Num 0xF2 then \<comment> \<open>SET 6, D\<close>
         (let s = s\<lparr>registers_js := (registers_js s)\<lparr>D_js := setBit_js (Num 6) (D_js (registers_js s))\<rparr>\<rparr>
          in (8, s))
      else if opcode = Num 0xF3 then \<comment> \<open>SET 6, E\<close>
         (let s = s\<lparr>registers_js := (registers_js s)\<lparr>E_js := setBit_js (Num 6) (E_js (registers_js s))\<rparr>\<rparr>
          in (8, s))
      else if opcode = Num 0xF4 then \<comment> \<open>SET 6, H\<close>
         (let s = s\<lparr>registers_js := (registers_js s)\<lparr>H_js := setBit_js (Num 6) (H_js (registers_js s))\<rparr>\<rparr>
          in (8, s))
      else if opcode = Num 0xF5 then \<comment> \<open>SET 6, L\<close>
         (let s = s\<lparr>registers_js := (registers_js s)\<lparr>L_js := setBit_js (Num 6) (L_js (registers_js s))\<rparr>\<rparr>
          in (8, s))
      else if opcode = Num 0xF6 then \<comment> \<open>SET 6, (HL)\<close>
         (let address = val_xor (val_shl (H_js (registers_js s)) (Num 8)) (L_js (registers_js s));
              (t1, s) = mmu_read_js address s;
              s = mmu_write_js address (setBit_js (Num 6) t1) s
          in (16, s))
      else if opcode = Num 0xF7 then \<comment> \<open>SET 6, A\<close>
         (let s = s\<lparr>registers_js := (registers_js s)\<lparr>A_js := setBit_js (Num 6) (A_js (registers_js s))\<rparr>\<rparr>
          in (8, s))
      else if opcode = Num 0xF8 then \<comment> \<open>SET 7, B\<close>
         (let s = s\<lparr>registers_js := (registers_js s)\<lparr>B_js := setBit_js (Num 7) (B_js (registers_js s))\<rparr>\<rparr>
          in (8, s))
      else if opcode = Num 0xF9 then \<comment> \<open>SET 7, C\<close>
         (let s = s\<lparr>registers_js := (registers_js s)\<lparr>C_js := setBit_js (Num 7) (C_js (registers_js s))\<rparr>\<rparr>
          in (8, s))
      else if opcode = Num 0xFA then \<comment> \<open>SET 7, D\<close>
         (let s = s\<lparr>registers_js := (registers_js s)\<lparr>D_js := setBit_js (Num 7) (D_js (registers_js s))\<rparr>\<rparr>
          in (8, s))
      else if opcode = Num 0xFB then \<comment> \<open>SET 7, E\<close>
         (let s = s\<lparr>registers_js := (registers_js s)\<lparr>E_js := setBit_js (Num 7) (E_js (registers_js s))\<rparr>\<rparr>
          in (8, s))
      else if opcode = Num 0xFC then \<comment> \<open>SET 7, H\<close>
         (let s = s\<lparr>registers_js := (registers_js s)\<lparr>H_js := setBit_js (Num 7) (H_js (registers_js s))\<rparr>\<rparr>
          in (8, s))
      else if opcode = Num 0xFD then \<comment> \<open>SET 7, L\<close>
         (let s = s\<lparr>registers_js := (registers_js s)\<lparr>L_js := setBit_js (Num 7) (L_js (registers_js s))\<rparr>\<rparr>
          in (8, s))
      else if opcode = Num 0xFE then \<comment> \<open>SET 7, (HL)\<close>
         (let address = val_xor (val_shl (H_js (registers_js s)) (Num 8)) (L_js (registers_js s));
              (t1, s) = mmu_read_js address s;
              s = mmu_write_js address (setBit_js (Num 7) t1) s
          in (16, s))
      else if opcode = Num 0xFF then \<comment> \<open>SET 7, A\<close>
         (let s = s\<lparr>registers_js := (registers_js s)\<lparr>A_js := setBit_js (Num 7) (A_js (registers_js s))\<rparr>\<rparr>
          in (8, s))
      else (0, s))"


text \<open>
  The primary table (\<open>executeOperation\<close>), all 245 cases and the default. The locals
  of the source belong to the whole function, but every case assigns its locals before
  it reads them.
\<close>

definition executeOperation_js :: "jsval \<Rightarrow> gameboy_js \<Rightarrow> outcome" where
  "executeOperation_js opcode s =
     (if opcode = Num 0x00 then \<comment> \<open>NOP\<close>
         Returns 4 s
      else if opcode = Num 0x01 then \<comment> \<open>LD BC, d16\<close>
         (let s = s\<lparr>registers_js := (registers_js s)\<lparr>PC_js := val_plus (PC_js (registers_js s)) (Num 1)\<rparr>\<rparr>;
              (t1, s) = mmu_read_js (PC_js (registers_js s)) s;
              s = s\<lparr>registers_js := (registers_js s)\<lparr>B_js := t1\<rparr>\<rparr>;
              s = s\<lparr>registers_js := (registers_js s)\<lparr>PC_js := val_plus (PC_js (registers_js s)) (Num 1)\<rparr>\<rparr>;
              (t2, s) = mmu_read_js (PC_js (registers_js s)) s;
              s = s\<lparr>registers_js := (registers_js s)\<lparr>C_js := t2\<rparr>\<rparr>
          in Returns 12 s)
      else if opcode = Num 0x02 then \<comment> \<open>LD (BC), A\<close>
         (let memoryAddress = val_xor (val_shl (B_js (registers_js s)) (Num 8)) (C_js (registers_js s));
              s = mmu_write_js memoryAddress (A_js (registers_js s)) s
          in Returns 8 s)
      else if opcode = Num 0x03 then \<comment> \<open>INC BC\<close>
         (let incremented = inc16Bit_js (B_js (registers_js s)) (C_js (registers_js s));
              s = s\<lparr>registers_js := (registers_js s)\<lparr>B_js := fst incremented\<rparr>\<rparr>;
              s = s\<lparr>registers_js := (registers_js s)\<lparr>C_js := snd incremented\<rparr>\<rparr>
          in Returns 8 s)
      else if opcode = Num 0x04 then \<comment> \<open>INC B\<close>
         (let (t1, s) = inc8Bit_js (B_js (registers_js s)) s;
              s = s\<lparr>registers_js := (registers_js s)\<lparr>B_js := t1\<rparr>\<rparr>
          in Returns 4 s)
      else if opcode = Num 0x05 then \<comment> \<open>DEC B\<close>
         (let (t1, s) = dec8Bit_js (B_js (registers_js s)) s;
              s = s\<lparr>registers_js := (registers_js s)\<lparr>B_js := t1\<rparr>\<rparr>
          in Returns 4 s)
      else if opcode = Num 0x06 then \<comment> \<open>LD B, d8\<close>
         (let s = s\<lparr>registers_js := (registers_js s)\<lparr>PC_js := val_plus (PC_js (registers_js s)) (Num 1)\<rparr>\<rparr>;
              (t1, s) = mmu_read_js (PC_js (registers_js s)) s;
              s = s\<lparr>registers_js := (registers_js s)\<lparr>B_js := t1\<rparr>\<rparr>
          in Returns 8 s)
      else if opcode = Num 0x07 then \<comment> \<open>RLCA\<close>
         (let newCarryVal = val_and (val_shr (A_js (registers_js s)) (Num 7)) (Num 1);
              s = setFlagBit_js (Num CARRY_BIT) (truthy newCarryVal) s;
              s = s\<lparr>registers_js := (registers_js s)\<lparr>A_js := val_shl (A_js (registers_js s)) (Num 1)\<rparr>\<rparr>;
              s = s\<lparr>registers_js := (registers_js s)\<lparr>A_js := val_and (A_js (registers_js s)) (Num 255)\<rparr>\<rparr>;
              s = s\<lparr>registers_js := (registers_js s)\<lparr>A_js := val_xor (A_js (registers_js s)) newCarryVal\<rparr>\<rparr>;
              s = setFlagBit_js (Num ZERO_BIT) False s;
              s = setFlagBit_js (Num SUBTRACT_BIT) False s;
              s = setFlagBit_js (Num HALF_CARRY_BIT) False s
          in Returns 4 s)
      else if opcode = Num 0x08 then \<comment> \<open>LD (a16), SP\<close>
         (let s = s\<lparr>registers_js := (registers_js s)\<lparr>PC_js := val_plus (PC_js (registers_js s)) (Num 1)\<rparr>\<rparr>;
              (firstAddrByte, s) = mmu_read_js (PC_js (registers_js s)) s;
              s = s\<lparr>registers_js := (registers_js s)\<lparr>PC_js := val_plus (PC_js (registers_js s)) (Num 1)\<rparr>\<rparr>;
              (secondAddrByte, s) = mmu_read_js (PC_js (registers_js s)) s;
              resolvedAddr = val_xor (val_shl firstAddrByte (Num 8)) secondAddrByte;
              spHi = val_shr (SP_js (registers_js s)) (Num 8);
              spLo = val_and (SP_js (registers_js s)) (Num 0xFF);
              s = mmu_write_js resolvedAddr spLo s;
              s = mmu_write_js (val_plus resolvedAddr (Num 1)) spHi s
          in Returns 20 s)
      else if opcode = Num 0x09 then \<comment> \<open>ADD HL, BC\<close>
         (let BCVal = val_xor (val_shl (B_js (registers_js s)) (Num 8)) (C_js (registers_js s));
              HLVal = val_xor (val_shl (H_js (registers_js s)) (Num 8)) (L_js (registers_js s));
              newVal = val_plus BCVal HLVal;
              s = setFlagBit_js (Num SUBTRACT_BIT) False s;
              halfCarry = val_plus (val_and (val_and HLVal (Num 0xFF00)) (Num 0xF)) (val_and (val_shr BCVal (Num 8)) (Num 0xF));
              s = setFlagBit_js (Num HALF_CARRY_BIT) (truthy halfCarry) s;
              s = setFlagBit_js (Num CARRY_BIT) (val_gt newVal (Num 0xFFFF)) s;
              newVal = (if val_gt newVal (Num 0xFFFF) then
                          val_minus newVal (Num 0xFFFF)
                        else
                          newVal);
              byteHi = val_shr newVal (Num 8);
              byteLo = val_and newVal (Num 0xFF);
              s = s\<lparr>registers_js := (registers_js s)\<lparr>H_js := byteHi\<rparr>\<rparr>;
              s = s\<lparr>registers_js := (registers_js s)\<lparr>L_js := byteLo\<rparr>\<rparr>
          in Returns 8 s)
      else if opcode = Num 0x0A then \<comment> \<open>LD A, (BC)\<close>
         (let address = val_xor (val_shl (B_js (registers_js s)) (Num 8)) (C_js (registers_js s));
              (t1, s) = mmu_read_js address s;
              s = s\<lparr>registers_js := (registers_js s)\<lparr>A_js := t1\<rparr>\<rparr>
          in Returns 8 s)
      else if opcode = Num 0x0B then \<comment> \<open>DEC BC\<close>
         (let decremented = dec16Bit_js (B_js (registers_js s)) (C_js (registers_js s));
              s = s\<lparr>registers_js := (registers_js s)\<lparr>B_js := fst decremented\<rparr>\<rparr>;
              s = s\<lparr>registers_js := (registers_js s)\<lparr>C_js := snd decremented\<rparr>\<rparr>
          in Returns 8 s)
      else if opcode = Num 0x0C then \<comment> \<open>INC C\<close>
         (let (t1, s) = inc8Bit_js (C_js (registers_js s)) s;
              s = s\<lparr>registers_js := (registers_js s)\<lparr>C_js := t1\<rparr>\<rparr>
          in Returns 4 s)
      else if opcode = Num 0x0D then \<comment> \<open>DEC C\<close>
         (let (t1, s) = dec8Bit_js (C_js (registers_js s)) s;
              s = s\<lparr>registers_js := (registers_js s)\<lparr>C_js := t1\<rparr>\<rparr>
          in Returns 4 s)
      else if opcode = Num 0x0E then \<comment> \<open>LD C, d8\<close>
         (let s = s\<lparr>registers_js := (registers_js s)\<lparr>PC_js := val_plus (PC_js (registers_js s)) (Num 1)\<rparr>\<rparr>;
              (t1, s) = mmu_read_js (PC_js (registers_js s)) s;
              s = s\<lparr>registers_js := (registers_js s)\<lparr>C_js := t1\<rparr>\<rparr>
          in Returns 8 s)
      else if opcode = Num 0x0F then \<comment> \<open>RRCA\<close>
         (let currentCarryVal = val_and (val_shr (F_js (registers_js s)) (Num CARRY_BIT)) (Num 1);
              newCarryVal = val_and (A_js (registers_js s)) (Num 1);
              s = setFlagBit_js (Num CARRY_BIT) (truthy newCarryVal) s;
              s = s\<lparr>registers_js := (registers_js s)\<lparr>A_js := val_shr (A_js (registers_js s)) (Num 1)\<rparr>\<rparr>;
              s = s\<lparr>registers_js := (registers_js s)\<lparr>A_js := val_and (A_js (registers_js s)) (Num 255)\<rparr>\<rparr>;
              s = s\<lparr>registers_js := (registers_js s)\<lparr>A_js := val_or (A_js (registers_js s)) (val_shl newCarryVal (Num 7))\<rparr>\<rparr>;
              s = setFlagBit_js (Num ZERO_BIT) False s;
              s = setFlagBit_js (Num SUBTRACT_BIT) False s;
              s = setFlagBit_js (Num HALF_CARRY_BIT) False s
          in Returns 4 s)
      else if opcode = Num 0x10 then \<comment> \<open>STOP 0\<close>
         (let s = s\<lparr>registers_js := (registers_js s)\<lparr>PC_js := val_plus (PC_js (registers_js s)) (Num 1)\<rparr>\<rparr>
          in Returns 4 s)
      else if opcode = Num 0x11 then \<comment> \<open>LD DE, d16\<close>
         (let s = s\<lparr>registers_js := (registers_js s)\<lparr>PC_js := val_plus (PC_js (registers_js s)) (Num 1)\<rparr>\<rparr>;
              (t1, s) = mmu_read_js (PC_js (registers_js s)) s;
              s = s\<lparr>registers_js := (registers_js s)\<lparr>D_js := t1\<rparr>\<rparr>;
              s = s\<lparr>registers_js := (registers_js s)\<lparr>PC_js := val_plus (PC_js (registers_js s)) (Num 1)\<rparr>\<rparr>;
              (t2, s) = mmu_read_js (PC_js (registers_js s)) s;
              s = s\<lparr>registers_js := (registers_js s)\<lparr>E_js := t2\<rparr>\<rparr>
          in Returns 12 s)
      else if opcode = Num 0x12 then \<comment> \<open>LD (DE), A\<close>
         (let memoryAddress = val_xor (val_shl (D_js (registers_js s)) (Num 8)) (E_js (registers_js s));
              s = mmu_write_js memoryAddress (A_js (registers_js s)) s
          in Returns 8 s)
      else if opcode = Num 0x13 then \<comment> \<open>INC DE\<close>
         (let incremented = inc16Bit_js (D_js (registers_js s)) (E_js (registers_js s));
              s = s\<lparr>registers_js := (registers_js s)\<lparr>D_js := fst incremented\<rparr>\<rparr>;
              s = s\<lparr>registers_js := (registers_js s)\<lparr>E_js := snd incremented\<rparr>\<rparr>
          in Returns 8 s)
      else if opcode = Num 0x14 then \<comment> \<open>INC D\<close>
         (let (t1, s) = inc8Bit_js (D_js (registers_js s)) s;
              s = s\<lparr>registers_js := (registers_js s)\<lparr>D_js := t1\<rparr>\<rparr>
          in Returns 4 s)
      else if opcode = Num 0x15 then \<comment> \<open>DEC D\<close>
         (let (t1, s) = dec8Bit_js (D_js (registers_js s)) s;
              s = s\<lparr>registers_js := (registers_js s)\<lparr>D_js := t1\<rparr>\<rparr>
          in Returns 4 s)
      else if opcode = Num 0x16 then \<comment> \<open>LD D, d8\<close>
         (let s = s\<lparr>registers_js := (registers_js s)\<lparr>PC_js := val_plus (PC_js (registers_js s)) (Num 1)\<rparr>\<rparr>;
              (t1, s) = mmu_read_js (PC_js (registers_js s)) s;
              s = s\<lparr>registers_js := (registers_js s)\<lparr>D_js := t1\<rparr>\<rparr>
          in Returns 8 s)
      else if opcode = Num 0x17 then \<comment> \<open>RLA\<close>
         (let currentCarryVal = val_and (val_shr (F_js (registers_js s)) (Num CARRY_BIT)) (Num 1);
              newCarryVal = val_and (val_shr (A_js (registers_js s)) (Num 7)) (Num 1);
              s = setFlagBit_js (Num CARRY_BIT) (truthy newCarryVal) s;
              s = s\<lparr>registers_js := (registers_js s)\<lparr>A_js := val_shl (A_js (registers_js s)) (Num 1)\<rparr>\<rparr>;
              s = s\<lparr>registers_js := (registers_js s)\<lparr>A_js := val_and (A_js (registers_js s)) (Num 255)\<rparr>\<rparr>;
              s = s\<lparr>registers_js := (registers_js s)\<lparr>A_js := val_xor (A_js (registers_js s)) currentCarryVal\<rparr>\<rparr>;
              s = setFlagBit_js (Num ZERO_BIT) False s;
              s = setFlagBit_js (Num SUBTRACT_BIT) False s;
              s = setFlagBit_js (Num HALF_CARRY_BIT) False s
          in Returns 4 s)
      else if opcode = Num 0x18 then \<comment> \<open>JR r8\<close>
         (let s = s\<lparr>registers_js := (registers_js s)\<lparr>PC_js := val_plus (PC_js (registers_js s)) (Num 1)\<rparr>\<rparr>;
              (offset, s) = mmu_read_js (PC_js (registers_js s)) s;
              offset = (if val_gt offset (Num 127) then
                          val_neg (val_minus (Num 128) (val_minus offset (Num 128)))
                        else
                          offset);
              s = s\<lparr>registers_js := (registers_js s)\<lparr>PC_js := val_plus (PC_js (registers_js s)) (val_minus offset (Num 1))\<rparr>\<rparr>
          in Returns 12 s)
      else if opcode = Num 0x19 then \<comment> \<open>ADD HL, DE\<close>
         (let DEVal = val_xor (val_shl (D_js (registers_js s)) (Num 8)) (E_js (registers_js s));
              HLVal = val_xor (val_shl (H_js (registers_js s)) (Num 8)) (L_js (registers_js s));
              newVal = val_plus DEVal HLVal;
              s = setFlagBit_js (Num SUBTRACT_BIT) False s;
              halfCarry = val_plus (val_and (val_and HLVal (Num 0xFF00)) (Num 0xF)) (val_and (val_shr DEVal (Num 8)) (Num 0xF));
              s = setFlagBit_js (Num HALF_CARRY_BIT) (truthy halfCarry) s;
              s = setFlagBit_js (Num CARRY_BIT) (val_gt newVal (Num 0xFFFF)) s;
              newVal = (if val_gt newVal (Num 0xFFFF) then
                          val_minus newVal (Num 0xFFFF)
                        else
                          newVal);
              byteHi = val_shr newVal (Num 8);
              byteLo = val_and newVal (Num 0xFF);
              s = s\<lparr>registers_js := (registers_js s)\<lparr>H_js := byteHi\<rparr>\<rparr>;
              s = s\<lparr>registers_js := (registers_js s)\<lparr>L_js := byteLo\<rparr>\<rparr>
          in Returns 8 s)
      else if opcode = Num 0x1A then \<comment> \<open>LD A, (DE)\<close>
         (let address = val_xor (val_shl (D_js (registers_js s)) (Num 8)) (E_js (registers_js s));
              (t1, s) = mmu_read_js address s;
              s = s\<lparr>registers_js := (registers_js s)\<lparr>A_js := t1\<rparr>\<rparr>
          in Returns 8 s)
      else if opcode = Num 0x1B then \<comment> \<open>DEC DE\<close>
         (let decremented = dec16Bit_js (D_js (registers_js s)) (E_js (registers_js s));
              s = s\<lparr>registers_js := (registers_js s)\<lparr>D_js := fst decremented\<rparr>\<rparr>;
              s = s\<lparr>registers_js := (registers_js s)\<lparr>E_js := snd decremented\<rparr>\<rparr>
          in Returns 8 s)
      else if opcode = Num 0x1C then \<comment> \<open>INC E\<close>
         (let (t1, s) = inc8Bit_js (E_js (registers_js s)) s;
              s = s\<lparr>registers_js := (registers_js s)\<lparr>E_js := t1\<rparr>\<rparr>
          in Returns 4 s)
      else if opcode = Num 0x1D then \<comment> \<open>DEC E\<close>
         (let (t1, s) = dec8Bit_js (E_js (registers_js s)) s;
              s = s\<lparr>registers_js := (registers_js s)\<lparr>E_js := t1\<rparr>\<rparr>
          in Returns 4 s)
      else if opcode = Num 0x1E then \<comment> \<open>LD E, d8\<close>
         (let s = s\<lparr>registers_js := (registers_js s)\<lparr>PC_js := val_plus (PC_js (registers_js s)) (Num 1)\<rparr>\<rparr>;
              (t1, s) = mmu_read_js (PC_js (registers_js s)) s;
              s = s\<lparr>registers_js := (registers_js s)\<lparr>E_js := t1\<rparr>\<rparr>
          in Returns 8 s)
      else if opcode = Num 0x1F then \<comment> \<open>RRA\<close>
         (let currentCarryVal = val_and (val_shr (F_js (registers_js s)) (Num CARRY_BIT)) (Num 1);
              newCarryVal = val_and (A_js (registers_js s)) (Num 1);
              s = setFlagBit_js (Num CARRY_BIT) (truthy newCarryVal) s;
              s = s\<lparr>registers_js := (registers_js s)\<lparr>A_js := val_shr (A_js (registers_js s)) (Num 1)\<rparr>\<rparr>;
              s = s\<lparr>registers_js := (registers_js s)\<lparr>A_js := val_and (A_js (registers_js s)) (Num 255)\<rparr>\<rparr>;
              s = s\<lparr>registers_js := (registers_js s)\<lparr>A_js := val_or (A_js (registers_js s)) (val_shl currentCarryVal (Num 7))\<rparr>\<rparr>;
              s = setFlagBit_js (Num ZERO_BIT) False s;
              s = setFlagBit_js (Num SUBTRACT_BIT) False s;
              s = setFlagBit_js (Num HALF_CARRY_BIT) False s
          in Returns 4 s)
      else if opcode = Num 0x20 then \<comment> \<open>JR NZ, r8\<close>
         (let zeroBitVal = val_and (val_shr (F_js (registers_js s)) (Num ZERO_BIT)) (Num 1);
              s = (if \<not> (truthy zeroBitVal) then
                     (let s = s\<lparr>registers_js := (registers_js s)\<lparr>PC_js := val_plus (PC_js (registers_js s)) (Num 1)\<rparr>\<rparr>;
                          (offset, s) = mmu_read_js (PC_js (registers_js s)) s;
                          offset = (if val_gt offset (Num 127) then
                                      val_neg (val_minus (Num 128) (val_minus offset (Num 128)))
                                    else
                                      offset)
                      in s\<lparr>registers_js := (registers_js s)\<lparr>PC_js := val_plus (PC_js (registers_js s)) (val_minus offset (Num 1))\<rparr>\<rparr>)
                   else
                     s)
          in Returns 8 s)
      else if opcode = Num 0x21 then \<comment> \<open>LD HL, d16\<close>
         (let s = s\<lparr>registers_js := (registers_js s)\<lparr>PC_js := val_plus (PC_js (registers_js s)) (Num 1)\<rparr>\<rparr>;
              (t1, s) = mmu_read_js (PC_js (registers_js s)) s;
              s = s\<lparr>registers_js := (registers_js s)\<lparr>H_js := t1\<rparr>\<rparr>;
              s = s\<lparr>registers_js := (registers_js s)\<lparr>PC_js := val_plus (PC_js (registers_js s)) (Num 1)\<rparr>\<rparr>;
              (t2, s) = mmu_read_js (PC_js (registers_js s)) s;
              s = s\<lparr>registers_js := (registers_js s)\<lparr>L_js := t2\<rparr>\<rparr>
          in Returns 12 s)
      else if opcode = Num 0x22 then \<comment> \<open>LD (HL+), A\<close>
         (let addr = val_xor (val_shl (H_js (registers_js s)) (Num 8)) (L_js (registers_js s));
              s = mmu_write_js addr (A_js (registers_js s)) s;
              incremented = inc16Bit_js (H_js (registers_js s)) (L_js (registers_js s));
              s = s\<lparr>registers_js := (registers_js s)\<lparr>H_js := fst incremented\<rparr>\<rparr>;
              s = s\<lparr>registers_js := (registers_js s)\<lparr>L_js := snd incremented\<rparr>\<rparr>
          in Returns 8 s)
      else if opcode = Num 0x23 then \<comment> \<open>INC HL\<close>
         (let incremented = inc16Bit_js (H_js (registers_js s)) (L_js (registers_js s));
              s = s\<lparr>registers_js := (registers_js s)\<lparr>H_js := fst incremented\<rparr>\<rparr>;
              s = s\<lparr>registers_js := (registers_js s)\<lparr>L_js := snd incremented\<rparr>\<rparr>
          in Returns 8 s)
      else if opcode = Num 0x24 then \<comment> \<open>INC H\<close>
         (let (t1, s) = inc8Bit_js (H_js (registers_js s)) s;
              s = s\<lparr>registers_js := (registers_js s)\<lparr>H_js := t1\<rparr>\<rparr>
          in Returns 4 s)
      else if opcode = Num 0x25 then \<comment> \<open>DEC H\<close>
         (let (t1, s) = dec8Bit_js (H_js (registers_js s)) s;
              s = s\<lparr>registers_js := (registers_js s)\<lparr>H_js := t1\<rparr>\<rparr>
          in Returns 4 s)
      else if opcode = Num 0x26 then \<comment> \<open>LD H, d8\<close>
         (let s = s\<lparr>registers_js := (registers_js s)\<lparr>PC_js := val_plus (PC_js (registers_js s)) (Num 1)\<rparr>\<rparr>;
              (t1, s) = mmu_read_js (PC_js (registers_js s)) s;
              s = s\<lparr>registers_js := (registers_js s)\<lparr>H_js := t1\<rparr>\<rparr>
          in Returns 8 s)
      else if opcode = Num 0x27 then \<comment> \<open>DAA\<close>
         (let s = (if truthy (val_and (val_shr (F_js (registers_js s)) (Num SUBTRACT_BIT)) (Num 1)) then
                     (let s = (if (val_gt (val_and (A_js (registers_js s)) (Num 0x0F)) (Num 0x09)) \<or> (truthy (val_and (F_js (registers_js s)) (Num 0x20))) then
                                 (let s = s\<lparr>registers_js := (registers_js s)\<lparr>A_js := val_minus (A_js (registers_js s)) (Num 0x06)\<rparr>\<rparr>
                                  in (if val_eq (val_and (A_js (registers_js s)) (Num 0xF)) (Num 0xF0) then
                                        s\<lparr>registers_js := (registers_js s)\<lparr>F_js := val_or (F_js (registers_js s)) (Num 0x10)\<rparr>\<rparr>
                                      else
                                        s\<lparr>registers_js := (registers_js s)\<lparr>F_js := val_and (F_js (registers_js s)) (val_not (Num 0x10))\<rparr>\<rparr>))
                               else
                                 s)
                      in (if (val_gt (val_and (A_js (registers_js s)) (Num 0xF0)) (Num 0x90)) \<or> (truthy (val_and (F_js (registers_js s)) (Num 0x10))) then
                            s\<lparr>registers_js := (registers_js s)\<lparr>A_js := val_minus (A_js (registers_js s)) (Num 0x60)\<rparr>\<rparr>
                          else
                            s))
                   else
                     (let s = (if (truthy (val_and (A_js (registers_js s)) (val_of_bool (val_gt (Num 0x0F) (Num 9))))) \<or> (truthy (val_and (F_js (registers_js s)) (Num 0x20))) then
                                 (let s = s\<lparr>registers_js := (registers_js s)\<lparr>A_js := val_plus (A_js (registers_js s)) (Num 0x06)\<rparr>\<rparr>
                                  in (if val_eq (val_and (A_js (registers_js s)) (Num 0xF)) (Num 0) then
                                        s\<lparr>registers_js := (registers_js s)\<lparr>F_js := val_or (F_js (registers_js s)) (Num 0x10)\<rparr>\<rparr>
                                      else
                                        s\<lparr>registers_js := (registers_js s)\<lparr>F_js := val_and (F_js (registers_js s)) (val_not (Num 0x10))\<rparr>\<rparr>))
                               else
                                 s)
                      in (if (val_gt (val_and (A_js (registers_js s)) (Num 0xF0)) (Num 0x90)) \<or> (truthy (val_and (F_js (registers_js s)) (Num 0x10))) then
                            s\<lparr>registers_js := (registers_js s)\<lparr>A_js := val_plus (A_js (registers_js s)) (Num 0x60)\<rparr>\<rparr>
                          else
                            s)));
              s = (if val_eq (A_js (registers_js s)) (Num 0) then
                     s\<lparr>registers_js := (registers_js s)\<lparr>F_js := val_or (F_js (registers_js s)) (Num 0x80)\<rparr>\<rparr>
                   else
                     s\<lparr>registers_js := (registers_js s)\<lparr>F_js := val_and (F_js (registers_js s)) (val_not (Num 0x80))\<rparr>\<rparr>)
          in Returns 4 s)
      else if opcode = Num 0x28 then \<comment> \<open>JR Z, r8\<close>
         (let zeroBitVal = val_and (val_shr (F_js (registers_js s)) (Num ZERO_BIT)) (Num 1);
              s = (if truthy zeroBitVal then
                     (let s = s\<lparr>registers_js := (registers_js s)\<lparr>PC_js := val_plus (PC_js (registers_js s)) (Num 1)\<rparr>\<rparr>;
                          (offset, s) = mmu_read_js (PC_js (registers_js s)) s;
                          offset = (if val_gt offset (Num 127) then
                                      val_neg (val_minus (Num 128) (val_minus offset (Num 128)))
                                    else
                                      offset)
                      in s\<lparr>registers_js := (registers_js s)\<lparr>PC_js := val_plus (PC_js (registers_js s)) (val_minus offset (Num 1))\<rparr>\<rparr>)
                   else
                     s)
          in Returns 8 s)
      else if opcode = Num 0x29 then \<comment> \<open>ADD HL, HL\<close>
         (let HLVal = val_xor (val_shl (H_js (registers_js s)) (Num 8)) (L_js (registers_js s));
              newVal = val_plus HLVal HLVal;
              s = setFlagBit_js (Num SUBTRACT_BIT) False s;
              halfCarry = val_plus (val_and (val_and HLVal (Num 0xFF00)) (Num 0xF)) (val_and (val_shr HLVal (Num 8)) (Num 0xF));
              s = setFlagBit_js (Num HALF_CARRY_BIT) (truthy halfCarry) s;
              s = setFlagBit_js (Num CARRY_BIT) (val_gt newVal (Num 0xFFFF)) s;
              newVal = (if val_gt newVal (Num 0xFFFF) then
                          val_minus newVal (Num 0xFFFF)
                        else
                          newVal);
              byteHi = val_shr newVal (Num 8);
              byteLo = val_and newVal (Num 0xFF);
              s = s\<lparr>registers_js := (registers_js s)\<lparr>H_js := byteHi\<rparr>\<rparr>;
              s = s\<lparr>registers_js := (registers_js s)\<lparr>L_js := byteLo\<rparr>\<rparr>
          in Returns 8 s)
      else if opcode = Num 0x2A then \<comment> \<open>LD A, (HL+)\<close>
         (let address = val_xor (val_shl (H_js (registers_js s)) (Num 8)) (L_js (registers_js s));
              (t1, s) = mmu_read_js address s;
              s = s\<lparr>registers_js := (registers_js s)\<lparr>A_js := t1\<rparr>\<rparr>;
              incremented = inc16Bit_js (H_js (registers_js s)) (L_js (registers_js s));
              s = s\<lparr>registers_js := (registers_js s)\<lparr>H_js := fst incremented\<rparr>\<rparr>;
              s = s\<lparr>registers_js := (registers_js s)\<lparr>L_js := snd incremented\<rparr>\<rparr>
          in Returns 8 s)
      else if opcode = Num 0x2B then \<comment> \<open>DEC HL\<close>
         (let decremented = dec16Bit_js (H_js (registers_js s)) (L_js (registers_js s));
              s = s\<lparr>registers_js := (registers_js s)\<lparr>H_js := fst decremented\<rparr>\<rparr>;
              s = s\<lparr>registers_js := (registers_js s)\<lparr>L_js := snd decremented\<rparr>\<rparr>
          in Returns 8 s)
      else if opcode = Num 0x2C then \<comment> \<open>INC L\<close>
         (let (t1, s) = inc8Bit_js (L_js (registers_js s)) s;
              s = s\<lparr>registers_js := (registers_js s)\<lparr>L_js := t1\<rparr>\<rparr>
          in Returns 4 s)
      else if opcode = Num 0x2D then \<comment> \<open>DEC L\<close>
         (let (t1, s) = dec8Bit_js (L_js (registers_js s)) s;
              s = s\<lparr>registers_js := (registers_js s)\<lparr>L_js := t1\<rparr>\<rparr>
          in Returns 4 s)
      else if opcode = Num 0x2E then \<comment> \<open>LD L, d8\<close>
         (let s = s\<lparr>registers_js := (registers_js s)\<lparr>PC_js := val_plus (PC_js (registers_js s)) (Num 1)\<rparr>\<rparr>;
              (t1, s) = mmu_read_js (PC_js (registers_js s)) s;
              s = s\<lparr>registers_js := (registers_js s)\<lparr>L_js := t1\<rparr>\<rparr>
          in Returns 8 s)
      else if opcode = Num 0x2F then \<comment> \<open>CPL\<close>
         (let s = s\<lparr>registers_js := (registers_js s)\<lparr>A_js := val_xor (A_js (registers_js s)) (Num 0xFF)\<rparr>\<rparr>;
              s = setFlagBit_js (Num SUBTRACT_BIT) True s;
              s = setFlagBit_js (Num HALF_CARRY_BIT) True s
          in Returns 4 s)
      else if opcode = Num 0x30 then \<comment> \<open>JR NC, r8\<close>
         (let carryBitVal = val_and (val_shr (F_js (registers_js s)) (Num CARRY_BIT)) (Num 1);
              s = (if \<not> (truthy carryBitVal) then
                     (let s = s\<lparr>registers_js := (registers_js s)\<lparr>PC_js := val_plus (PC_js (registers_js s)) (Num 1)\<rparr>\<rparr>;
                          (offset, s) = mmu_read_js (PC_js (registers_js s)) s;
                          offset = (if val_gt offset (Num 127) then
                                      val_neg (val_minus (Num 128) (val_minus offset (Num 128)))
                                    else
                                      offset)
                      in s\<lparr>registers_js := (registers_js s)\<lparr>PC_js := val_plus (PC_js (registers_js s)) (val_minus offset (Num 1))\<rparr>\<rparr>)
                   else
                     s)
          in Returns 8 s)
      else if opcode = Num 0x31 then \<comment> \<open>LD SP, d16\<close>
         (let s = s\<lparr>registers_js := (registers_js s)\<lparr>PC_js := val_plus (PC_js (registers_js s)) (Num 1)\<rparr>\<rparr>;
              (byte1, s) = mmu_read_js (PC_js (registers_js s)) s;
              s = s\<lparr>registers_js := (registers_js s)\<lparr>PC_js := val_plus (PC_js (registers_js s)) (Num 1)\<rparr>\<rparr>;
              (byte2, s) = mmu_read_js (PC_js (registers_js s)) s;
              s = s\<lparr>registers_js := (registers_js s)\<lparr>SP_js := val_xor (val_shl byte1 (Num 8)) byte2\<rparr>\<rparr>
          in Returns 12 s)
      else if opcode = Num 0x32 then \<comment> \<open>LD (HL-), A\<close>
         (let addr = val_xor (val_shl (H_js (registers_js s)) (Num 8)) (L_js (registers_js s));
              s = mmu_write_js addr (A_js (registers_js s)) s;
              decremented = dec16Bit_js (H_js (registers_js s)) (L_js (registers_js s));
              s = s\<lparr>registers_js := (registers_js s)\<lparr>H_js := fst decremented\<rparr>\<rparr>;
              s = s\<lparr>registers_js := (registers_js s)\<lparr>L_js := snd decremented\<rparr>\<rparr>
          in Returns 8 s)
      else if opcode = Num 0x33 then \<comment> \<open>INC SP\<close>
         (let hi = val_shr (SP_js (registers_js s)) (Num 8);
              lo = val_and (SP_js (registers_js s)) (Num 0xFF);
              incremented = inc16Bit_js hi lo;
              s = s\<lparr>registers_js := (registers_js s)\<lparr>SP_js := val_xor (val_shl (fst incremented) (Num 8)) (snd incremented)\<rparr>\<rparr>
          in Returns 8 s)
      else if opcode = Num 0x34 then \<comment> \<open>INC (HL)\<close>
         (let addr = val_xor (val_shl (H_js (registers_js s)) (Num 8)) (L_js (registers_js s));
              (value, s) = mmu_read_js addr s;
              (value, s) = inc8Bit_js value s;
              s = mmu_write_js addr value s
          in Returns 12 s)
      else if opcode = Num 0x35 then \<comment> \<open>DEC (HL)\<close>
         (let addr = val_xor (val_shl (H_js (registers_js s)) (Num 8)) (L_js (registers_js s));
              (value, s) = mmu_read_js addr s;
              (value, s) = dec8Bit_js value s;
              s = mmu_write_js addr value s
          in Returns 12 s)
      else if opcode = Num 0x36 then \<comment> \<open>LD (HL), d8\<close>
         (let addr = val_xor (val_shl (H_js (registers_js s)) (Num 8)) (L_js (registers_js s));
              s = s\<lparr>registers_js := (registers_js s)\<lparr>PC_js := val_plus (PC_js (registers_js s)) (Num 1)\<rparr>\<rparr>;
              (t1, s) = mmu_read_js (PC_js (registers_js s)) s;
              s = mmu_write_js addr t1 s
          in Returns 8 s)
      else if opcode = Num 0x37 then \<comment> \<open>SCF\<close>
         (let s = setFlagBit_js (Num CARRY_BIT) True s;
              s = setFlagBit_js (Num SUBTRACT_BIT) False s;
              s = setFlagBit_js (Num HALF_CARRY_BIT) False s
          in Returns 4 s)
      else if opcode = Num 0x38 then \<comment> \<open>JR C, r8\<close>
         (let carryBitVal = val_and (val_shr (F_js (registers_js s)) (Num CARRY_BIT)) (Num 1);
              s = (if truthy carryBitVal then
                     (let s = s\<lparr>registers_js := (registers_js s)\<lparr>PC_js := val_plus (PC_js (registers_js s)) (Num 1)\<rparr>\<rparr>;
                          (offset, s) = mmu_read_js (PC_js (registers_js s)) s;
                          offset = (if val_gt offset (Num 127) then
                                      val_neg (val_minus (Num 128) (val_minus offset (Num 128)))
                                    else
                                      offset)
                      in s\<lparr>registers_js := (registers_js s)\<lparr>PC_js := val_plus (PC_js (registers_js s)) (val_minus offset (Num 1))\<rparr>\<rparr>)
                   else
                     s)
          in Returns 8 s)
      else if opcode = Num 0x39 then \<comment> \<open>ADD HL, SP\<close>
         (let HLVal = val_xor (val_shl (H_js (registers_js s)) (Num 8)) (L_js (registers_js s));
              newVal = val_plus HLVal (SP_js (registers_js s));
              s = setFlagBit_js (Num SUBTRACT_BIT) False s;
              halfCarry = val_plus (val_and (val_and HLVal (Num 0xFF00)) (Num 0xF)) (val_and (val_shr (SP_js (registers_js s)) (Num 8)) (Num 0xF));
              s = setFlagBit_js (Num HALF_CARRY_BIT) (truthy halfCarry) s;
              s = setFlagBit_js (Num CARRY_BIT) (val_gt newVal (Num 0xFFFF)) s;
              newVal = (if val_gt newVal (Num 0xFFFF) then
                          val_minus newVal (Num 0xFFFF)
                        else
                          newVal);
              byteHi = val_shr newVal (Num 8);
              byteLo = val_and newVal (Num 0xFF);
              s = s\<lparr>registers_js := (registers_js s)\<lparr>H_js := byteHi\<rparr>\<rparr>;
              s = s\<lparr>registers_js := (registers_js s)\<lparr>L_js := byteLo\<rparr>\<rparr>
          in Returns 8 s)
      else if opcode = Num 0x3A then \<comment> \<open>LD A, (HL-)\<close>
         (let address = val_xor (val_shl (H_js (registers_js s)) (Num 8)) (L_js (registers_js s));
              (t1, s) = mmu_read_js address s;
              s = s\<lparr>registers_js := (registers_js s)\<lparr>A_js := t1\<rparr>\<rparr>;
              decremented = dec16Bit_js (H_js (registers_js s)) (L_js (registers_js s));
              s = s\<lparr>registers_js := (registers_js s)\<lparr>H_js := fst decremented\<rparr>\<rparr>;
              s = s\<lparr>registers_js := (registers_js s)\<lparr>L_js := snd decremented\<rparr>\<rparr>
          in Returns 8 s)
      else if opcode = Num 0x3B then \<comment> \<open>DEC SP\<close>
         (let hi = val_shr (SP_js (registers_js s)) (Num 8);
              lo = val_and (SP_js (registers_js s)) (Num 0xFF);
              decremented = dec16Bit_js hi lo;
              s = s\<lparr>registers_js := (registers_js s)\<lparr>SP_js := val_xor (val_shl (fst decremented) (Num 8)) (snd decremented)\<rparr>\<rparr>
          in Returns 8 s)
      else if opcode = Num 0x3C then \<comment> \<open>INC A\<close>
         (let (t1, s) = inc8Bit_js (A_js (registers_js s)) s;
              s = s\<lparr>registers_js := (registers_js s)\<lparr>A_js := t1\<rparr>\<rparr>
          in Returns 4 s)
      else if opcode = Num 0x3D then \<comment> \<open>DEC A\<close>
         (let (t1, s) = dec8Bit_js (A_js (registers_js s)) s;
              s = s\<lparr>registers_js := (registers_js s)\<lparr>A_js := t1\<rparr>\<rparr>
          in Returns 4 s)
      else if opcode = Num 0x3E then \<comment> \<open>LD A, d8\<close>
         (let s = s\<lparr>registers_js := (registers_js s)\<lparr>PC_js := val_plus (PC_js (registers_js s)) (Num 1)\<rparr>\<rparr>;
              (t1, s) = mmu_read_js (PC_js (registers_js s)) s;
              s = s\<lparr>registers_js := (registers_js s)\<lparr>A_js := t1\<rparr>\<rparr>
          in Returns 8 s)
      else if opcode = Num 0x3F then \<comment> \<open>CCF\<close>
         (let s = (if truthy (val_and (val_shr (F_js (registers_js s)) (Num CARRY_BIT)) (Num 1)) then
                     setFlagBit_js (Num CARRY_BIT) False s
                   else
                     setFlagBit_js (Num CARRY_BIT) True s);
              s = setFlagBit_js (Num SUBTRACT_BIT) False s;
              s = setFlagBit_js (Num HALF_CARRY_BIT) False s
          in Returns 4 s)
      else if opcode = Num 0x40 then \<comment> \<open>LD B, B\<close>
         Returns 4 s
      else if opcode = Num 0x41 then \<comment> \<open>LD B, C\<close>
         (let s = s\<lparr>registers_js := (registers_js s)\<lparr>B_js := C_js (registers_js s)\<rparr>\<rparr>
          in Returns 4 s)
      else if opcode = Num 0x42 then \<comment> \<open>LD B, D\<close>
         (let s = s\<lparr>registers_js := (registers_js s)\<lparr>B_js := D_js (registers_js s)\<rparr>\<rparr>
          in Returns 4 s)
      else if opcode = Num 0x43 then \<comment> \<open>LD B, E\<close>
         (let s = s\<lparr>registers_js := (registers_js s)\<lparr>B_js := E_js (registers_js s)\<rparr>\<rparr>
          in Returns 4 s)
      else if opcode = Num 0x44 then \<comment> \<open>LD B, H\<close>
         (let s = s\<lparr>registers_js := (registers_js s)\<lparr>B_js := H_js (registers_js s)\<rparr>\<rparr>
          in Returns 4 s)
      else if opcode = Num 0x45 then \<comment> \<open>LD B, L\<close>
         (let s = s\<lparr>registers_js := (registers_js s)\<lparr>B_js := L_js (registers_js s)\<rparr>\<rparr>
          in Returns 4 s)
      else if opcode = Num 0x46 then \<comment> \<open>LD B, (HL)\<close>
         (let address = val_xor (val_shl (H_js (registers_js s)) (Num 8)) (L_js (registers_js s));
              (t1, s) = mmu_read_js address s;
              s = s\<lparr>registers_js := (registers_js s)\<lparr>B_js := t1\<rparr>\<rparr>
          in Returns 8 s)
      else if opcode = Num 0x47 then \<comment> \<open>LD B, A\<close>
         (let s = s\<lparr>registers_js := (registers_js s)\<lparr>B_js := A_js (registers_js s)\<rparr>\<rparr>
          in Returns 4 s)
      else if opcode = Num 0x48 then \<comment> \<open>LD C, B\<close>
         (let s = s\<lparr>registers_js := (registers_js s)\<lparr>C_js := B_js (registers_js s)\<rparr>\<rparr>
          in Returns 4 s)
      else if opcode = Num 0x49 then \<comment> \<open>LD C, C\<close>
         Returns 4 s
      else if opcode = Num 0x4A then \<comment> \<open>LD C, A\<close>
         (let s = s\<lparr>registers_js := (registers_js s)\<lparr>C_js := A_js (registers_js s)\<rparr>\<rparr>
          in Returns 4 s)
      else if opcode = Num 0x4B then \<comment> \<open>LD C, E\<close>
         (let s = s\<lparr>registers_js := (registers_js s)\<lparr>C_js := E_js (registers_js s)\<rparr>\<rparr>
          in Returns 4 s)
      else if opcode = Num 0x4C then \<comment> \<open>LD C, H\<close>
         (let s = s\<lparr>registers_js := (registers_js s)\<lparr>C_js := H_js (registers_js s)\<rparr>\<rparr>
          in Returns 4 s)
      else if opcode = Num 0x4D then \<comment> \<open>LD C, L\<close>
         (let s = s\<lparr>registers_js := (registers_js s)\<lparr>C_js := L_js (registers_js s)\<rparr>\<rparr>
          in Returns 4 s)
      else if opcode = Num 0x4E then \<comment> \<open>LD C, (HL)\<close>
         (let address = val_xor (val_shl (H_js (registers_js s)) (Num 8)) (L_js (registers_js s));
              (t1, s) = mmu_read_js address s;
              s = s\<lparr>registers_js := (registers_js s)\<lparr>C_js := t1\<rparr>\<rparr>
          in Returns 8 s)
      else if opcode = Num 0x4F then \<comment> \<open>LD C, A\<close>
         (let s = s\<lparr>registers_js := (registers_js s)\<lparr>C_js := A_js (registers_js s)\<rparr>\<rparr>
          in Returns 4 s)
      else if opcode = Num 0x50 then \<comment> \<open>LD D, B\<close>
         (let s = s\<lparr>registers_js := (registers_js s)\<lparr>D_js := B_js (registers_js s)\<rparr>\<rparr>
          in Returns 4 s)
      else if opcode = Num 0x51 then \<comment> \<open>LD D, C\<close>
         (let s = s\<lparr>registers_js := (registers_js s)\<lparr>D_js := C_js (registers_js s)\<rparr>\<rparr>
          in Returns 4 s)
      else if opcode = Num 0x52 then \<comment> \<open>LD D, D\<close>
         Returns 4 s
      else if opcode = Num 0x53 then \<comment> \<open>LD D, E\<close>
         (let s = s\<lparr>registers_js := (registers_js s)\<lparr>D_js := E_js (registers_js s)\<rparr>\<rparr>
          in Returns 4 s)
      else if opcode = Num 0x54 then \<comment> \<open>LD D, H\<close>
         (let s = s\<lparr>registers_js := (registers_js s)\<lparr>D_js := H_js (registers_js s)\<rparr>\<rparr>
          in Returns 4 s)
      else if opcode = Num 0x55 then \<comment> \<open>LD D, L\<close>
         (let s = s\<lparr>registers_js := (registers_js s)\<lparr>D_js := L_js (registers_js s)\<rparr>\<rparr>
          in Returns 4 s)
      else if opcode = Num 0x56 then \<comment> \<open>LD D, (HL)\<close>
         (let address = val_xor (val_shl (H_js (registers_js s)) (Num 8)) (L_js (registers_js s));
              (t1, s) = mmu_read_js address s;
              s = s\<lparr>registers_js := (registers_js s)\<lparr>D_js := t1\<rparr>\<rparr>
          in Returns 8 s)
      else if opcode = Num 0x57 then \<comment> \<open>LD D, A\<close>
         (let s = s\<lparr>registers_js := (registers_js s)\<lparr>D_js := A_js (registers_js s)\<rparr>\<rparr>
          in Returns 4 s)
      else if opcode = Num 0x58 then \<comment> \<open>LD E, B\<close>
         (let s = s\<lparr>registers_js := (registers_js s)\<lparr>E_js := B_js (registers_js s)\<rparr>\<rparr>
          in Returns 4 s)
      else if opcode = Num 0x59 then \<comment> \<open>LD E, C\<close>
         (let s = s\<lparr>registers_js := (registers_js s)\<lparr>E_js := C_js (registers_js s)\<rparr>\<rparr>
          in Returns 4 s)
      else if opcode = Num 0x5A then \<comment> \<open>LD E, D\<close>
         (let s = s\<lparr>registers_js := (registers_js s)\<lparr>E_js := D_js (registers_js s)\<rparr>\<rparr>
          in Returns 4 s)
      else if opcode = Num 0x5B then \<comment> \<open>LD E, E\<close>
         Returns 4 s
      else if opcode = Num 0x5C then \<comment> \<open>LD E, H\<close>
         (let s = s\<lparr>registers_js := (registers_js s)\<lparr>E_js := H_js (registers_js s)\<rparr>\<rparr>
          in Returns 4 s)
      else if opcode = Num 0x5D then \<comment> \<open>LD E, L\<close>
         (let s = s\<lparr>registers_js := (registers_js s)\<lparr>E_js := L_js (registers_js s)\<rparr>\<rparr>
          in Returns 4 s)
      else if opcode = Num 0x5E then \<comment> \<open>LD E, (HL)\<close>
         (let address = val_xor (val_shl (H_js (registers_js s)) (Num 8)) (L_js (registers_js s));
              (t1, s) = mmu_read_js address s;
              s = s\<lparr>registers_js := (registers_js s)\<lparr>E_js := t1\<rparr>\<rparr>
          in Returns 8 s)
      else if opcode = Num 0x5F then \<comment> \<open>LD E, A\<close>
         (let s = s\<lparr>registers_js := (registers_js s)\<lparr>E_js := A_js (registers_js s)\<rparr>\<rparr>
          in Returns 4 s)
      else if opcode = Num 0x60 then \<comment> \<open>LD H, B\<close>
         (let s = s\<lparr>registers_js := (registers_js s)\<lparr>H_js := B_js (registers_js s)\<rparr>\<rparr>
          in Returns 4 s)
      else if opcode = Num 0x61 then \<comment> \<open>LD H, C\<close>
         (let s = s\<lparr>registers_js := (registers_js s)\<lparr>H_js := C_js (registers_js s)\<rparr>\<rparr>
          in Returns 4 s)
      else if opcode = Num 0x62 then \<comment> \<open>LD H, D\<close>
         (let s = s\<lparr>registers_js := (registers_js s)\<lparr>H_js := D_js (registers_js s)\<rparr>\<rparr>
          in Returns 4 s)
      else if opcode = Num 0x63 then \<comment> \<open>LD H, E\<close>
         (let s = s\<lparr>registers_js := (registers_js s)\<lparr>H_js := E_js (registers_js s)\<rparr>\<rparr>
          in Returns 4 s)
      else if opcode = Num 0x64 then \<comment> \<open>LD H, H\<close>
         Returns 4 s
      else if opcode = Num 0x65 then \<comment> \<open>LD H, L\<close>
         (let s = s\<lparr>registers_js := (registers_js s)\<lparr>H_js := L_js (registers_js s)\<rparr>\<rparr>
          in Returns 4 s)
      else if opcode = Num 0x66 then \<comment> \<open>LD H, (HL)\<close>
         (let address = val_xor (val_shl (H_js (registers_js s)) (Num 8)) (L_js (registers_js s));
              (t1, s) = mmu_read_js address s;
              s = s\<lparr>registers_js := (registers_js s)\<lparr>H_js := t1\<rparr>\<rparr>
          in Returns 8 s)
      else if opcode = Num 0x67 then \<comment> \<open>LD H, A\<close>
         (let s = s\<lparr>registers_js := (registers_js s)\<lparr>H_js := A_js (registers_js s)\<rparr>\<rparr>
          in Returns 4 s)
      else if opcode = Num 0x68 then \<comment> \<open>LD L, B\<close>
         (let s = s\<lparr>registers_js := (registers_js s)\<lparr>L_js := B_js (registers_js s)\<rparr>\<rparr>
          in Returns 4 s)
      else if opcode = Num 0x69 then \<comment> \<open>LD L, C\<close>
         (let s = s\<lparr>registers_js := (registers_js s)\<lparr>L_js := C_js (registers_js s)\<rparr>\<rparr>
          in Returns 4 s)
      else if opcode = Num 0x6A then \<comment> \<open>LD L, D\<close>
         (let s = s\<lparr>registers_js := (registers_js s)\<lparr>L_js := D_js (registers_js s)\<rparr>\<rparr>
          in Returns 4 s)
      else if opcode = Num 0x6B then \<comment> \<open>LD L, E\<close>
         (let s = s\<lparr>registers_js := (registers_js s)\<lparr>L_js := E_js (registers_js s)\<rparr>\<rparr>
          in Returns 4 s)
      else if opcode = Num 0x6C then \<comment> \<open>LD L, H\<close>
         (let s = s\<lparr>registers_js := (registers_js s)\<lparr>L_js := H_js (registers_js s)\<rparr>\<rparr>
          in Returns 4 s)
      else if opcode = Num 0x6D then \<comment> \<open>LD L, L\<close>
         Returns 4 s
      else if opcode = Num 0x6E then \<comment> \<open>LD L, (HL)\<close>
         (let address = val_xor (val_shl (H_js (registers_js s)) (Num 8)) (L_js (registers_js s));
              (t1, s) = mmu_read_js address s;
              s = s\<lparr>registers_js := (registers_js s)\<lparr>L_js := t1\<rparr>\<rparr>
          in Returns 8 s)
      else if opcode = Num 0x6F then \<comment> \<open>LD L, A\<close>
         (let s = s\<lparr>registers_js := (registers_js s)\<lparr>L_js := A_js (registers_js s)\<rparr>\<rparr>
          in Returns 4 s)
      else if opcode = Num 0x70 then \<comment> \<open>LD (HL), B\<close>
         (let address = val_xor (val_shl (H_js (registers_js s)) (Num 8)) (L_js (registers_js s));
              s = mmu_write_js address (B_js (registers_js s)) s
          in Returns 8 s)
      else if opcode = Num 0x71 then \<comment> \<open>LD (HL), C\<close>
         (let address = val_xor (val_shl (H_js (registers_js s)) (Num 8)) (L_js (registers_js s));
              s = mmu_write_js address (C_js (registers_js s)) s
          in Returns 8 s)
      else if opcode = Num 0x72 then \<comment> \<open>LD (HL), D\<close>
         (let address = val_xor (val_shl (H_js (registers_js s)) (Num 8)) (L_js (registers_js s));
              s = mmu_write_js address (D_js (registers_js s)) s
          in Returns 8 s)
      else if opcode = Num 0x73 then \<comment> \<open>LD (HL), E\<close>
         (let address = val_xor (val_shl (H_js (registers_js s)) (Num 8)) (L_js (registers_js s));
              s = mmu_write_js address (E_js (registers_js s)) s
          in Returns 8 s)
      else if opcode = Num 0x74 then \<comment> \<open>LD (HL), H\<close>
         (let address = val_xor (val_shl (H_js (registers_js s)) (Num 8)) (L_js (registers_js s));
              s = mmu_write_js address (H_js (registers_js s)) s
          in Returns 8 s)
      else if opcode = Num 0x75 then \<comment> \<open>LD (HL), L\<close>
         (let address = val_xor (val_shl (H_js (registers_js s)) (Num 8)) (L_js (registers_js s));
              s = mmu_write_js address (L_js (registers_js s)) s
          in Returns 8 s)
      else if opcode = Num 0x76 then \<comment> \<open>HALT\<close>
         (let s = s\<lparr>halted_js := True\<rparr>
          in Returns 4 s)
      else if opcode = Num 0x77 then \<comment> \<open>LD (HL), A\<close>
         (let address = val_xor (val_shl (H_js (registers_js s)) (Num 8)) (A_js (registers_js s));
              s = mmu_write_js address (A_js (registers_js s)) s
          in Returns 8 s)
      else if opcode = Num 0x78 then \<comment> \<open>LD A, B\<close>
         (let s = s\<lparr>registers_js := (registers_js s)\<lparr>A_js := B_js (registers_js s)\<rparr>\<rparr>
          in Returns 4 s)
      else if opcode = Num 0x79 then \<comment> \<open>LD A, C\<close>
         (let s = s\<lparr>registers_js := (registers_js s)\<lparr>A_js := C_js (registers_js s)\<rparr>\<rparr>
          in Returns 4 s)
      else if opcode = Num 0x7A then \<comment> \<open>LD A, D\<close>
         (let s = s\<lparr>registers_js := (registers_js s)\<lparr>A_js := D_js (registers_js s)\<rparr>\<rparr>
          in Returns 4 s)
      else if opcode = Num 0x7B then \<comment> \<open>LD A, E\<close>
         (let s = s\<lparr>registers_js := (registers_js s)\<lparr>A_js := E_js (registers_js s)\<rparr>\<rparr>
          in Returns 4 s)
      else if opcode = Num 0x7C then \<comment> \<open>LD A, H\<close>
         (let s = s\<lparr>registers_js := (registers_js s)\<lparr>A_js := H_js (registers_js s)\<rparr>\<rparr>
          in Returns 4 s)
      else if opcode = Num 0x7D then \<comment> \<open>LD A, L\<close>
         Throws s
      else if opcode = Num 0x7E then \<comment> \<open>LD A, (HL)\<close>
         (let address = val_xor (val_shl (H_js (registers_js s)) (Num 8)) (L_js (registers_js s));
              (t1, s) = mmu_read_js address s;
              s = s\<lparr>registers_js := (registers_js s)\<lparr>A_js := t1\<rparr>\<rparr>
          in Returns 8 s)
      else if opcode = Num 0x7F then \<comment> \<open>LD A, A\<close>
         Returns 4 s
      else if opcode = Num 0x80 then \<comment> \<open>ADD A, B\<close>
         (let (t1, s) = add8Bit_js (A_js (registers_js s)) (B_js (registers_js s)) False s;
              s = s\<lparr>registers_js := (registers_js s)\<lparr>A_js := t1\<rparr>\<rparr>
          in Returns 4 s)
      else if opcode = Num 0x81 then \<comment> \<open>ADD A, C\<close>
         (let (t1, s) = add8Bit_js (A_js (registers_js s)) (C_js (registers_js s)) False s;
              s = s\<lparr>registers_js := (registers_js s)\<lparr>A_js := t1\<rparr>\<rparr>
          in Returns 4 s)
      else if opcode = Num 0x82 then \<comment> \<open>ADD A, D\<close>
         (let (t1, s) = add8Bit_js (A_js (registers_js s)) (D_js (registers_js s)) False s;
              s = s\<lparr>registers_js := (registers_js s)\<lparr>A_js := t1\<rparr>\<rparr>
          in Returns 4 s)
      else if opcode = Num 0x83 then \<comment> \<open>ADD A, E\<close>
         (let (t1, s) = add8Bit_js (A_js (registers_js s)) (E_js (registers_js s)) False s;
              s = s\<lparr>registers_js := (registers_js s)\<lparr>A_js := t1\<rparr>\<rparr>
          in Returns 4 s)
      else if opcode = Num 0x84 then \<comment> \<open>ADD A, H\<close>
         (let (t1, s) = add8Bit_js (A_js (registers_js s)) (H_js (registers_js s)) False s;
              s = s\<lparr>registers_js := (registers_js s)\<lparr>A_js := t1\<rparr>\<rparr>
          in Returns 4 s)
      else if opcode = Num 0x85 then \<comment> \<open>ADD A, L\<close>
         (let (t1, s) = add8Bit_js (A_js (registers_js s)) (L_js (registers_js s)) False s;
              s = s\<lparr>registers_js := (registers_js s)\<lparr>A_js := t1\<rparr>\<rparr>
          in Returns 4 s)
      else if opcode = Num 0x86 then \<comment> \<open>ADD A, (HL)\<close>
         (let address = val_xor (val_shl (H_js (registers_js s)) (Num 8)) (L_js (registers_js s));
              t1 = A_js (registers_js s);
              (t2, s) = mmu_read_js address s;
              (t3, s) = add8Bit_js t1 t2 False s;
              s = s\<lparr>registers_js := (registers_js s)\<lparr>A_js := t3\<rparr>\<rparr>
          in Returns 8 s)
      else if opcode = Num 0x87 then \<comment> \<open>ADD A, A\<close>
         (let (t1, s) = add8Bit_js (A_js (registers_js s)) (A_js (registers_js s)) False s;
              s = s\<lparr>registers_js := (registers_js s)\<lparr>A_js := t1\<rparr>\<rparr>
          in Returns 4 s)
      else if opcode = Num 0x88 then \<comment> \<open>ADC A, B\<close>
         (let (t1, s) = add8Bit_js (A_js (registers_js s)) (B_js (registers_js s)) True s;
              s = s\<lparr>registers_js := (registers_js s)\<lparr>A_js := t1\<rparr>\<rparr>
          in Returns 4 s)
      else if opcode = Num 0x89 then \<comment> \<open>ADC A, C\<close>
         (let (t1, s) = add8Bit_js (A_js (registers_js s)) (C_js (registers_js s)) True s;
              s = s\<lparr>registers_js := (registers_js s)\<lparr>A_js := t1\<rparr>\<rparr>
          in Returns 4 s)
      else if opcode = Num 0x8A then \<comment> \<open>ADC A, D\<close>
         (let (t1, s) = add8Bit_js (A_js (registers_js s)) (D_js (registers_js s)) True s;
              s = s\<lparr>registers_js := (registers_js s)\<lparr>A_js := t1\<rparr>\<rparr>
          in Returns 4 s)
      else if opcode = Num 0x8B then \<comment> \<open>ADC A, E\<close>
         (let (t1, s) = add8Bit_js (A_js (registers_js s)) (E_js (registers_js s)) True s;
              s = s\<lparr>registers_js := (registers_js s)\<lparr>A_js := t1\<rparr>\<rparr>
          in Returns 4 s)
      else if opcode = Num 0x8C then \<comment> \<open>ADC A, H\<close>
         (let (t1, s) = add8Bit_js (A_js (registers_js s)) (H_js (registers_js s)) True s;
              s = s\<lparr>registers_js := (registers_js s)\<lparr>A_js := t1\<rparr>\<rparr>
          in Returns 4 s)
      else if opcode = Num 0x8D then \<comment> \<open>ADC A, L\<close>
         (let (t1, s) = add8Bit_js (A_js (registers_js s)) (L_js (registers_js s)) True s;
              s = s\<lparr>registers_js := (registers_js s)\<lparr>A_js := t1\<rparr>\<rparr>
          in Returns 4 s)
      else if opcode = Num 0x8E then \<comment> \<open>ADC A, (HL)\<close>
         (let address = val_xor (val_shl (H_js (registers_js s)) (Num 8)) (L_js (registers_js s));
              t1 = A_js (registers_js s);
              (t2, s) = mmu_read_js address s;
              (t3, s) = add8Bit_js t1 t2 True s;
              s = s\<lparr>registers_js := (registers_js s)\<lparr>A_js := t3\<rparr>\<rparr>
          in Returns 8 s)
      else if opcode = Num 0x8F then \<comment> \<open>ADC A, A\<close>
         (let (t1, s) = add8Bit_js (A_js (registers_js s)) (A_js (registers_js s)) True s;
              s = s\<lparr>registers_js := (registers_js s)\<lparr>A_js := t1\<rparr>\<rparr>
          in Returns 4 s)
      else if opcode = Num 0x90 then \<comment> \<open>SUB A, B\<close>
         (let (t1, s) = sub8Bit_js (A_js (registers_js s)) (B_js (registers_js s)) False s;
              s = s\<lparr>registers_js := (registers_js s)\<lparr>A_js := t1\<rparr>\<rparr>
          in Returns 4 s)
      else if opcode = Num 0x91 then \<comment> \<open>SUB A, C\<close>
         (let (t1, s) = sub8Bit_js (A_js (registers_js s)) (C_js (registers_js s)) False s;
              s = s\<lparr>registers_js := (registers_js s)\<lparr>A_js := t1\<rparr>\<rparr>
          in Returns 4 s)
      else if opcode = Num 0x92 then \<comment> \<open>SUB A, D\<close>
         (let (t1, s) = sub8Bit_js (A_js (registers_js s)) (D_js (registers_js s)) False s;
              s = s\<lparr>registers_js := (registers_js s)\<lparr>A_js := t1\<rparr>\<rparr>
          in Returns 4 s)
      else if opcode = Num 0x93 then \<comment> \<open>SUB A, E\<close>
         (let (t1, s) = sub8Bit_js (A_js (registers_js s)) (E_js (registers_js s)) False s;
              s = s\<lparr>registers_js := (registers_js s)\<lparr>A_js := t1\<rparr>\<rparr>
          in Returns 4 s)
      else if opcode = Num 0x94 then \<comment> \<open>SUB A, H\<close>
         (let (t1, s) = sub8Bit_js (A_js (registers_js s)) (H_js (registers_js s)) False s;
              s = s\<lparr>registers_js := (registers_js s)\<lparr>A_js := t1\<rparr>\<rparr>
          in Returns 4 s)
      else if opcode = Num 0x95 then \<comment> \<open>SUB A, L\<close>
         (let (t1, s) = sub8Bit_js (A_js (registers_js s)) (L_js (registers_js s)) False s;
              s = s\<lparr>registers_js := (registers_js s)\<lparr>A_js := t1\<rparr>\<rparr>
          in Returns 4 s)
      else if opcode = Num 0x96 then \<comment> \<open>SUB A, (HL)\<close>
         (let address = val_xor (val_shl (H_js (registers_js s)) (Num 8)) (L_js (registers_js s));
              t1 = A_js (registers_js s);
              (t2, s) = mmu_read_js address s;
              (t3, s) = sub8Bit_js t1 t2 False s;
              s = s\<lparr>registers_js := (registers_js s)\<lparr>A_js := t3\<rparr>\<rparr>
          in Returns 8 s)
      else if opcode = Num 0x97 then \<comment> \<open>SUB A, A\<close>
         (let (t1, s) = sub8Bit_js (A_js (registers_js s)) (A_js (registers_js s)) False s;
              s = s\<lparr>registers_js := (registers_js s)\<lparr>A_js := t1\<rparr>\<rparr>
          in Returns 4 s)
      else if opcode = Num 0x98 then \<comment> \<open>SBC A, B\<close>
         (let (t1, s) = sub8Bit_js (A_js (registers_js s)) (B_js (registers_js s)) True s;
              s = s\<lparr>registers_js := (registers_js s)\<lparr>A_js := t1\<rparr>\<rparr>
          in Returns 4 s)
      else if opcode = Num 0x99 then \<comment> \<open>SBC A, C\<close>
         (let (t1, s) = sub8Bit_js (A_js (registers_js s)) (C_js (registers_js s)) True s;
              s = s\<lparr>registers_js := (registers_js s)\<lparr>A_js := t1\<rparr>\<rparr>
          in Returns 4 s)
      else if opcode = Num 0x9A then \<comment> \<open>SBC A, D\<close>
         (let (t1, s) = sub8Bit_js (A_js (registers_js s)) (D_js (registers_js s)) True s;
              s = s\<lparr>registers_js := (registers_js s)\<lparr>A_js := t1\<rparr>\<rparr>
          in Returns 4 s)
      else if opcode = Num 0x9B then \<comment> \<open>SBC A, E\<close>
         (let (t1, s) = sub8Bit_js (A_js (registers_js s)) (E_js (registers_js s)) True s;
              s = s\<lparr>registers_js := (registers_js s)\<lparr>A_js := t1\<rparr>\<rparr>
          in Returns 4 s)
      else if opcode = Num 0x9C then \<comment> \<open>SBC A, H\<close>
         (let (t1, s) = sub8Bit_js (A_js (registers_js s)) (H_js (registers_js s)) True s;
              s = s\<lparr>registers_js := (registers_js s)\<lparr>A_js := t1\<rparr>\<rparr>
          in Returns 4 s)
      else if opcode = Num 0x9D then \<comment> \<open>SBC A, L\<close>
         (let (t1, s) = sub8Bit_js (A_js (registers_js s)) (L_js (registers_js s)) True s;
              s = s\<lparr>registers_js := (registers_js s)\<lparr>A_js := t1\<rparr>\<rparr>
          in Returns 4 s)
      else if opcode = Num 0x9E then \<comment> \<open>SBC A, (HL)\<close>
         (let address = val_xor (val_shl (H_js (registers_js s)) (Num 8)) (L_js (registers_js s));
              t1 = A_js (registers_js s);
              (t2, s) = mmu_read_js address s;
              (t3, s) = sub8Bit_js t1 t2 True s;
              s = s\<lparr>registers_js := (registers_js s)\<lparr>A_js := t3\<rparr>\<rparr>
          in Returns 8 s)
      else if opcode = Num 0x9F then \<comment> \<open>SBC A, A\<close>
         (let (t1, s) = sub8Bit_js (A_js (registers_js s)) (A_js (registers_js s)) True s;
              s = s\<lparr>registers_js := (registers_js s)\<lparr>A_js := t1\<rparr>\<rparr>
          in Returns 4 s)
      else if opcode = Num 0xA0 then \<comment> \<open>AND B\<close>
         (let (t1, s) = andRegisters_js (A_js (registers_js s)) (B_js (registers_js s)) s;
              s = s\<lparr>registers_js := (registers_js s)\<lparr>A_js := t1\<rparr>\<rparr>
          in Returns 4 s)
      else if opcode = Num 0xA1 then \<comment> \<open>AND C\<close>
         (let (t1, s) = andRegisters_js (A_js (registers_js s)) (C_js (registers_js s)) s;
              s = s\<lparr>registers_js := (registers_js s)\<lparr>A_js := t1\<rparr>\<rparr>
          in Returns 4 s)
      else if opcode = Num 0xA2 then \<comment> \<open>AND D\<close>
         (let (t1, s) = andRegisters_js (A_js (registers_js s)) (D_js (registers_js s)) s;
              s = s\<lparr>registers_js := (registers_js s)\<lparr>A_js := t1\<rparr>\<rparr>
          in Returns 4 s)
      else if opcode = Num 0xA3 then \<comment> \<open>AND E\<close>
         (let (t1, s) = andRegisters_js (A_js (registers_js s)) (E_js (registers_js s)) s;
              s = s\<lparr>registers_js := (registers_js s)\<lparr>A_js := t1\<rparr>\<rparr>
          in Returns 4 s)
      else if opcode = Num 0xA4 then \<comment> \<open>AND H\<close>
         (let (t1, s) = andRegisters_js (A_js (registers_js s)) (H_js (registers_js s)) s;
              s = s\<lparr>registers_js := (registers_js s)\<lparr>A_js := t1\<rparr>\<rparr>
          in Returns 4 s)
      else if opcode = Num 0xA5 then \<comment> \<open>AND L\<close>
         (let (t1, s) = andRegisters_js (A_js (registers_js s)) (L_js (registers_js s)) s;
              s = s\<lparr>registers_js := (registers_js s)\<lparr>A_js := t1\<rparr>\<rparr>
          in Returns 4 s)
      else if opcode = Num 0xA6 then \<comment> \<open>AND (HL)\<close>
         (let address = val_xor (val_shl (H_js (registers_js s)) (Num 8)) (L_js (registers_js s));
              t1 = A_js (registers_js s);
              (t2, s) = mmu_read_js address s;
              (t3, s) = andRegisters_js t1 t2 s;
              s = s\<lparr>registers_js := (registers_js s)\<lparr>A_js := t3\<rparr>\<rparr>
          in Returns 8 s)
      else if opcode = Num 0xA7 then \<comment> \<open>AND B\<close>
         (let (t1, s) = andRegisters_js (A_js (registers_js s)) (A_js (registers_js s)) s;
              s = s\<lparr>registers_js := (registers_js s)\<lparr>A_js := t1\<rparr>\<rparr>
          in Returns 4 s)
      else if opcode = Num 0xA8 then \<comment> \<open>XOR B\<close>
         (let (t1, s) = xorRegisters_js (A_js (registers_js s)) (B_js (registers_js s)) s;
              s = s\<lparr>registers_js := (registers_js s)\<lparr>A_js := t1\<rparr>\<rparr>
          in Returns 4 s)
      else if opcode = Num 0xA9 then \<comment> \<open>XOR C\<close>
         (let (t1, s) = xorRegisters_js (A_js (registers_js s)) (C_js (registers_js s)) s;
              s = s\<lparr>registers_js := (registers_js s)\<lparr>A_js := t1\<rparr>\<rparr>
          in Returns 4 s)
      else if opcode = Num 0xAA then \<comment> \<open>XOR D\<close>
         (let (t1, s) = xorRegisters_js (A_js (registers_js s)) (D_js (registers_js s)) s;
              s = s\<lparr>registers_js := (registers_js s)\<lparr>A_js := t1\<rparr>\<rparr>
          in Returns 4 s)
      else if opcode = Num 0xAB then \<comment> \<open>XOR E\<close>
         (let (t1, s) = xorRegisters_js (A_js (registers_js s)) (E_js (registers_js s)) s;
              s = s\<lparr>registers_js := (registers_js s)\<lparr>A_js := t1\<rparr>\<rparr>
          in Returns 4 s)
      else if opcode = Num 0xAC then \<comment> \<open>XOR H\<close>
         (let (t1, s) = xorRegisters_js (A_js (registers_js s)) (H_js (registers_js s)) s;
              s = s\<lparr>registers_js := (registers_js s)\<lparr>A_js := t1\<rparr>\<rparr>
          in Returns 4 s)
      else if opcode = Num 0xAD then \<comment> \<open>XOR L\<close>
         (let (t1, s) = xorRegisters_js (A_js (registers_js s)) (L_js (registers_js s)) s;
              s = s\<lparr>registers_js := (registers_js s)\<lparr>A_js := t1\<rparr>\<rparr>
          in Returns 4 s)
      else if opcode = Num 0xAE then \<comment> \<open>XOR (HL)\<close>
         (let address = val_xor (val_shl (H_js (registers_js s)) (Num 8)) (L_js (registers_js s));
              t1 = A_js (registers_js s);
              (t2, s) = mmu_read_js address s;
              (t3, s) = xorRegisters_js t1 t2 s;
              s = s\<lparr>registers_js := (registers_js s)\<lparr>A_js := t3\<rparr>\<rparr>
          in Returns 8 s)
      else if opcode = Num 0xAF then \<comment> \<open>XOR B\<close>
         (let (t1, s) = xorRegisters_js (A_js (registers_js s)) (A_js (registers_js s)) s;
              s = s\<lparr>registers_js := (registers_js s)\<lparr>A_js := t1\<rparr>\<rparr>
          in Returns 4 s)
      else if opcode = Num 0xB0 then \<comment> \<open>OR B\<close>
         (let (t1, s) = orRegisters_js (A_js (registers_js s)) (B_js (registers_js s)) s;
              s = s\<lparr>registers_js := (registers_js s)\<lparr>A_js := t1\<rparr>\<rparr>
          in Returns 4 s)
      else if opcode = Num 0xB1 then \<comment> \<open>OR C\<close>
         (let (t1, s) = orRegisters_js (A_js (registers_js s)) (C_js (registers_js s)) s;
              s = s\<lparr>registers_js := (registers_js s)\<lparr>A_js := t1\<rparr>\<rparr>
          in Returns 4 s)
      else if opcode = Num 0xB2 then \<comment> \<open>OR D\<close>
         (let (t1, s) = orRegisters_js (A_js (registers_js s)) (D_js (registers_js s)) s;
              s = s\<lparr>registers_js := (registers_js s)\<lparr>A_js := t1\<rparr>\<rparr>
          in Returns 4 s)
      else if opcode = Num 0xB3 then \<comment> \<open>OR E\<close>
         (let (t1, s) = orRegisters_js (A_js (registers_js s)) (E_js (registers_js s)) s;
              s = s\<lparr>registers_js := (registers_js s)\<lparr>A_js := t1\<rparr>\<rparr>
          in Returns 4 s)
      else if opcode = Num 0xB4 then \<comment> \<open>OR H\<close>
         (let (t1, s) = orRegisters_js (A_js (registers_js s)) (H_js (registers_js s)) s;
              s = s\<lparr>registers_js := (registers_js s)\<lparr>A_js := t1\<rparr>\<rparr>
          in Returns 4 s)
      else if opcode = Num 0xB5 then \<comment> \<open>OR L\<close>
         (let (t1, s) = orRegisters_js (A_js (registers_js s)) (L_js (registers_js s)) s;
              s = s\<lparr>registers_js := (registers_js s)\<lparr>A_js := t1\<rparr>\<rparr>
          in Returns 4 s)
      else if opcode = Num 0xB6 then \<comment> \<open>OR (HL)\<close>
         (let address = val_xor (val_shl (H_js (registers_js s)) (Num 8)) (L_js (registers_js s));
              t1 = A_js (registers_js s);
              (t2, s) = mmu_read_js address s;
              (t3, s) = orRegisters_js t1 t2 s;
              s = s\<lparr>registers_js := (registers_js s)\<lparr>A_js := t3\<rparr>\<rparr>
          in Returns 8 s)
      else if opcode = Num 0xB7 then \<comment> \<open>OR B\<close>
         (let (t1, s) = orRegisters_js (A_js (registers_js s)) (A_js (registers_js s)) s;
              s = s\<lparr>registers_js := (registers_js s)\<lparr>A_js := t1\<rparr>\<rparr>
          in Returns 4 s)
      else if opcode = Num 0xB8 then \<comment> \<open>CP A, B\<close>
         (let (t1, s) = sub8Bit_js (A_js (registers_js s)) (B_js (registers_js s)) False s
          in Returns 4 s)
      else if opcode = Num 0xB9 then \<comment> \<open>CP A, C\<close>
         (let (t1, s) = sub8Bit_js (A_js (registers_js s)) (C_js (registers_js s)) False s
          in Returns 4 s)
      else if opcode = Num 0xBA then \<comment> \<open>CP A, D\<close>
         (let (t1, s) = sub8Bit_js (A_js (registers_js s)) (D_js (registers_js s)) False s
          in Returns 4 s)
      else if opcode = Num 0xBB then \<comment> \<open>CP A, E\<close>
         (let (t1, s) = sub8Bit_js (A_js (registers_js s)) (E_js (registers_js s)) False s
          in Returns 4 s)
      else if opcode = Num 0xBC then \<comment> \<open>CP A, H\<close>
         (let (t1, s) = sub8Bit_js (A_js (registers_js s)) (H_js (registers_js s)) False s
          in Returns 4 s)
      else if opcode = Num 0xBD then \<comment> \<open>CP A, L\<close>
         (let (t1, s) = sub8Bit_js (A_js (registers_js s)) (L_js (registers_js s)) False s
          in Returns 4 s)
      else if opcode = Num 0xBE then \<comment> \<open>CP A, (HL)\<close>
         (let address = val_xor (val_shl (H_js (registers_js s)) (Num 8)) (L_js (registers_js s));
              t1 = A_js (registers_js s);
              (t2, s) = mmu_read_js address s;
              (t3, s) = sub8Bit_js t1 t2 False s
          in Returns 8 s)
      else if opcode = Num 0xBF then \<comment> \<open>CP A, A\<close>
         (let (t1, s) = sub8Bit_js (A_js (registers_js s)) (A_js (registers_js s)) False s
          in Returns 4 s)
      else if opcode = Num 0xC0 then \<comment> \<open>RET NZ\<close>
         (let zeroBit = val_and (val_shr (F_js (registers_js s)) (Num ZERO_BIT)) (Num 1);
              (lower, s) = popFromStack_js s;
              (upper, s) = popFromStack_js s;
              s = (if \<not> (truthy zeroBit) then
                     s\<lparr>registers_js := (registers_js s)\<lparr>PC_js := val_minus (val_xor (val_shl upper (Num 8)) lower) (Num 1)\<rparr>\<rparr>
                   else
                     s)
          in Returns 8 s)
      else if opcode = Num 0xC1 then \<comment> \<open>POP BC\<close>
         (let (t1, s) = popFromStack_js s;
              s = s\<lparr>registers_js := (registers_js s)\<lparr>C_js := t1\<rparr>\<rparr>;
              (t2, s) = popFromStack_js s;
              s = s\<lparr>registers_js := (registers_js s)\<lparr>B_js := t2\<rparr>\<rparr>
          in Returns 12 s)
      else if opcode = Num 0xC2 then \<comment> \<open>JP NZ, a16\<close>
         (let s = s\<lparr>registers_js := (registers_js s)\<lparr>PC_js := val_plus (PC_js (registers_js s)) (Num 1)\<rparr>\<rparr>;
              (addressHi, s) = mmu_read_js (PC_js (registers_js s)) s;
              s = s\<lparr>registers_js := (registers_js s)\<lparr>PC_js := val_plus (PC_js (registers_js s)) (Num 1)\<rparr>\<rparr>;
              (addressLo, s) = mmu_read_js (PC_js (registers_js s)) s;
              address = val_xor (val_shl addressHi (Num 8)) addressLo;
              zeroBit = val_and (val_shr (F_js (registers_js s)) (Num ZERO_BIT)) (Num 1);
              s = (if \<not> (truthy zeroBit) then
                     s\<lparr>registers_js := (registers_js s)\<lparr>PC_js := val_minus address (Num 1)\<rparr>\<rparr>
                   else
                     s)
          in Returns 12 s)
      else if opcode = Num 0xC3 then \<comment> \<open>JP a16\<close>
         (let s = s\<lparr>registers_js := (registers_js s)\<lparr>PC_js := val_plus (PC_js (registers_js s)) (Num 1)\<rparr>\<rparr>;
              (addressHi, s) = mmu_read_js (PC_js (registers_js s)) s;
              s = s\<lparr>registers_js := (registers_js s)\<lparr>PC_js := val_plus (PC_js (registers_js s)) (Num 1)\<rparr>\<rparr>;
              (addressLo, s) = mmu_read_js (PC_js (registers_js s)) s;
              address = val_xor (val_shl addressHi (Num 8)) addressLo;
              s = s\<lparr>registers_js := (registers_js s)\<lparr>PC_js := val_minus address (Num 1)\<rparr>\<rparr>
          in Returns 12 s)
      else if opcode = Num 0xC4 then \<comment> \<open>CALL NZ, a16\<close>
         (let s = s\<lparr>registers_js := (registers_js s)\<lparr>PC_js := val_plus (PC_js (registers_js s)) (Num 1)\<rparr>\<rparr>;
              (addressHi, s) = mmu_read_js (PC_js (registers_js s)) s;
              s = s\<lparr>registers_js := (registers_js s)\<lparr>PC_js := val_plus (PC_js (registers_js s)) (Num 1)\<rparr>\<rparr>;
              (addressLo, s) = mmu_read_js (PC_js (registers_js s)) s;
              address = val_xor (val_shl addressHi (Num 8)) addressLo;
              zeroBit = val_and (val_shr (F_js (registers_js s)) (Num ZERO_BIT)) (Num 1);
              s = (if \<not> (truthy zeroBit) then
                     (let s = pushToStack_js (val_shr (PC_js (registers_js s)) (Num 8)) s;
                          s = pushToStack_js (val_and (PC_js (registers_js s)) (Num 0xFF)) s
                      in s\<lparr>registers_js := (registers_js s)\<lparr>PC_js := val_minus address (Num 1)\<rparr>\<rparr>)
                   else
                     s)
          in Returns 12 s)
      else if opcode = Num 0xC5 then \<comment> \<open>PUSH BC\<close>
         (let s = pushToStack_js (B_js (registers_js s)) s;
              s = pushToStack_js (C_js (registers_js s)) s
          in Returns 16 s)
      else if opcode = Num 0xC6 then \<comment> \<open>ADD A, d8\<close>
         (let s = s\<lparr>registers_js := (registers_js s)\<lparr>PC_js := val_plus (PC_js (registers_js s)) (Num 1)\<rparr>\<rparr>;
              (data, s) = mmu_read_js (PC_js (registers_js s)) s;
              (t1, s) = add8Bit_js (A_js (registers_js s)) data False s;
              s = s\<lparr>registers_js := (registers_js s)\<lparr>A_js := t1\<rparr>\<rparr>
          in Returns 8 s)
      else if opcode = Num 0xC7 then \<comment> \<open>RST 00H\<close>
         (let s = pushToStack_js (val_shr (PC_js (registers_js s)) (Num 8)) s;
              s = pushToStack_js (val_and (PC_js (registers_js s)) (Num 0xFF)) s;
              s = s\<lparr>registers_js := (registers_js s)\<lparr>PC_js := Num (- 1)\<rparr>\<rparr>
          in Returns 32 s)
      else if opcode = Num 0xC8 then \<comment> \<open>RET Z\<close>
         Throws s
      else if opcode = Num 0xC9 then \<comment> \<open>RET\<close>
         (let (lower, s) = popFromStack_js s;
              (upper, s) = popFromStack_js s;
              s = s\<lparr>registers_js := (registers_js s)\<lparr>PC_js := val_minus (val_xor (val_shl upper (Num 8)) lower) (Num 1)\<rparr>\<rparr>
          in Returns 8 s)
      else if opcode = Num 0xCA then \<comment> \<open>JP Z, a16\<close>
         (let s = s\<lparr>registers_js := (registers_js s)\<lparr>PC_js := val_plus (PC_js (registers_js s)) (Num 1)\<rparr>\<rparr>;
              (addressHi, s) = mmu_read_js (PC_js (registers_js s)) s;
              s = s\<lparr>registers_js := (registers_js s)\<lparr>PC_js := val_plus (PC_js (registers_js s)) (Num 1)\<rparr>\<rparr>;
              (addressLo, s) = mmu_read_js (PC_js (registers_js s)) s;
              address = val_xor (val_shl addressHi (Num 8)) addressLo
          in Throws s)
      else if opcode = Num 0xCB then \<comment> \<open>PREFIX CB\<close>
         (let s = s\<lparr>registers_js := (registers_js s)\<lparr>PC_js := val_plus (PC_js (registers_js s)) (Num 1)\<rparr>\<rparr>;
              (t1, s) = mmu_read_js (PC_js (registers_js s)) s;
              (cycles, s) = executePrefixOperation_js t1 s
          in Returns cycles s)
      else if opcode = Num 0xCC then \<comment> \<open>CALL Z, a16\<close>
         (let s = s\<lparr>registers_js := (registers_js s)\<lparr>PC_js := val_plus (PC_js (registers_js s)) (Num 1)\<rparr>\<rparr>;
              (addressHi, s) = mmu_read_js (PC_js (registers_js s)) s;
              s = s\<lparr>registers_js := (registers_js s)\<lparr>PC_js := val_plus (PC_js (registers_js s)) (Num 1)\<rparr>\<rparr>;
              (addressLo, s) = mmu_read_js (PC_js (registers_js s)) s;
              address = val_xor (val_shl addressHi (Num 8)) addressLo;
              zeroBit = val_and (val_shr (F_js (registers_js s)) (Num ZERO_BIT)) (Num 1);
              s = (if truthy zeroBit then
                     (let s = pushToStack_js (val_shr (PC_js (registers_js s)) (Num 8)) s;
                          s = pushToStack_js (val_and (PC_js (registers_js s)) (Num 0xFF)) s
                      in s\<lparr>registers_js := (registers_js s)\<lparr>PC_js := val_minus address (Num 1)\<rparr>\<rparr>)
                   else
                     s)
          in Returns 12 s)
      else if opcode = Num 0xCD then \<comment> \<open>CALL a16\<close>
         (let s = s\<lparr>registers_js := (registers_js s)\<lparr>PC_js := val_plus (PC_js (registers_js s)) (Num 1)\<rparr>\<rparr>;
              (addressHi, s) = mmu_read_js (PC_js (registers_js s)) s;
              s = s\<lparr>registers_js := (registers_js s)\<lparr>PC_js := val_plus (PC_js (registers_js s)) (Num 1)\<rparr>\<rparr>;
              (addressLo, s) = mmu_read_js (PC_js (registers_js s)) s;
              address = val_xor (val_shl addressHi (Num 8)) addressLo;
              s = pushToStack_js (val_shr (PC_js (registers_js s)) (Num 8)) s;
              s = pushToStack_js (val_and (PC_js (registers_js s)) (Num 0xFF)) s;
              s = s\<lparr>registers_js := (registers_js s)\<lparr>PC_js := val_minus address (Num 1)\<rparr>\<rparr>
          in Returns 12 s)
      else if opcode = Num 0xCE then \<comment> \<open>ADC A, d8\<close>
         (let s = s\<lparr>registers_js := (registers_js s)\<lparr>PC_js := val_plus (PC_js (registers_js s)) (Num 1)\<rparr>\<rparr>;
              (data, s) = mmu_read_js (PC_js (registers_js s)) s;
              (t1, s) = add8Bit_js (A_js (registers_js s)) data True s;
              s = s\<lparr>registers_js := (registers_js s)\<lparr>A_js := t1\<rparr>\<rparr>
          in Returns 8 s)
      else if opcode = Num 0xCF then \<comment> \<open>RST 08H\<close>
         (let s = pushToStack_js (val_shr (PC_js (registers_js s)) (Num 8)) s;
              s = pushToStack_js (val_and (PC_js (registers_js s)) (Num 0xFF)) s;
              s = s\<lparr>registers_js := (registers_js s)\<lparr>PC_js := val_minus (Num 0x08) (Num 1)\<rparr>\<rparr>
          in Returns 32 s)
      else if opcode = Num 0xD0 then \<comment> \<open>RET NC\<close>
         Throws s
      else if opcode = Num 0xD1 then \<comment> \<open>POP DE\<close>
         (let (t1, s) = popFromStack_js s;
              s = s\<lparr>registers_js := (registers_js s)\<lparr>E_js := t1\<rparr>\<rparr>;
              (t2, s) = popFromStack_js s;
              s = s\<lparr>registers_js := (registers_js s)\<lparr>D_js := t2\<rparr>\<rparr>
          in Returns 12 s)
      else if opcode = Num 0xD2 then \<comment> \<open>JP NC, a16\<close>
         (let s = s\<lparr>registers_js := (registers_js s)\<lparr>PC_js := val_plus (PC_js (registers_js s)) (Num 1)\<rparr>\<rparr>;
              (addressHi, s) = mmu_read_js (PC_js (registers_js s)) s;
              s = s\<lparr>registers_js := (registers_js s)\<lparr>PC_js := val_plus (PC_js (registers_js s)) (Num 1)\<rparr>\<rparr>;
              (addressLo, s) = mmu_read_js (PC_js (registers_js s)) s;
              address = val_xor (val_shl addressHi (Num 8)) addressLo;
              carryBit = val_and (val_shr (F_js (registers_js s)) (Num CARRY_BIT)) (Num 1);
              s = (if \<not> (truthy carryBit) then
                     s\<lparr>registers_js := (registers_js s)\<lparr>PC_js := val_minus address (Num 1)\<rparr>\<rparr>
                   else
                     s)
          in Returns 12 s)
      else if opcode = Num 0xD4 then \<comment> \<open>CALL NC, a16\<close>
         (let s = s\<lparr>registers_js := (registers_js s)\<lparr>PC_js := val_plus (PC_js (registers_js s)) (Num 1)\<rparr>\<rparr>;
              (addressHi, s) = mmu_read_js (PC_js (registers_js s)) s;
              s = s\<lparr>registers_js := (registers_js s)\<lparr>PC_js := val_plus (PC_js (registers_js s)) (Num 1)\<rparr>\<rparr>;
              (addressLo, s) = mmu_read_js (PC_js (registers_js s)) s;
              address = val_xor (val_shl addressHi (Num 8)) addressLo;
              carryBit = val_and (val_shr (F_js (registers_js s)) (Num CARRY_BIT)) (Num 1);
              s = (if \<not> (truthy carryBit) then
                     (let s = pushToStack_js (val_shr (PC_js (registers_js s)) (Num 8)) s;
                          s = pushToStack_js (val_and (PC_js (registers_js s)) (Num 0xFF)) s
                      in s\<lparr>registers_js := (registers_js s)\<lparr>PC_js := val_minus address (Num 1)\<rparr>\<rparr>)
                   else
                     s)
          in Returns 12 s)
      else if opcode = Num 0xD5 then \<comment> \<open>PUSH DE\<close>
         (let s = pushToStack_js (D_js (registers_js s)) s;
              s = pushToStack_js (E_js (registers_js s)) s
          in Returns 16 s)
      else if opcode = Num 0xD6 then \<comment> \<open>SUB d8\<close>
         (let s = s\<lparr>registers_js := (registers_js s)\<lparr>PC_js := val_plus (PC_js (registers_js s)) (Num 1)\<rparr>\<rparr>;
              (data, s) = mmu_read_js (PC_js (registers_js s)) s;
              (t1, s) = sub8Bit_js (A_js (registers_js s)) data False s;
              s = s\<lparr>registers_js := (registers_js s)\<lparr>A_js := t1\<rparr>\<rparr>
          in Returns 8 s)
      else if opcode = Num 0xD7 then \<comment> \<open>RST 10H\<close>
         (let s = pushToStack_js (val_shr (PC_js (registers_js s)) (Num 8)) s;
              s = pushToStack_js (val_and (PC_js (registers_js s)) (Num 0xFF)) s;
              s = s\<lparr>registers_js := (registers_js s)\<lparr>PC_js := val_minus (Num 0x10) (Num 1)\<rparr>\<rparr>
          in Returns 32 s)
      else if opcode = Num 0xD8 then \<comment> \<open>RET C\<close>
         Throws s
      else if opcode = Num 0xD9 then \<comment> \<open>RETI\<close>
         (let (lower, s) = popFromStack_js s;
              (upper, s) = popFromStack_js s;
              s = s\<lparr>registers_js := (registers_js s)\<lparr>PC_js := val_minus (val_xor (val_shl upper (Num 8)) lower) (Num 1)\<rparr>\<rparr>;
              s = s\<lparr>interruptsEnabled_js := True\<rparr>
          in Returns 8 s)
      else if opcode = Num 0xDA then \<comment> \<open>JP C, a16\<close>
         (let s = s\<lparr>registers_js := (registers_js s)\<lparr>PC_js := val_plus (PC_js (registers_js s)) (Num 1)\<rparr>\<rparr>;
              (addressHi, s) = mmu_read_js (PC_js (registers_js s)) s;
              s = s\<lparr>registers_js := (registers_js s)\<lparr>PC_js := val_plus (PC_js (registers_js s)) (Num 1)\<rparr>\<rparr>;
              (addressLo, s) = mmu_read_js (PC_js (registers_js s)) s;
              address = val_xor (val_shl addressHi (Num 8)) addressLo
          in Throws s)
      else if opcode = Num 0xDC then \<comment> \<open>CALL C, a16\<close>
         (let s = s\<lparr>registers_js := (registers_js s)\<lparr>PC_js := val_plus (PC_js (registers_js s)) (Num 1)\<rparr>\<rparr>;
              (addressHi, s) = mmu_read_js (PC_js (registers_js s)) s;
              s = s\<lparr>registers_js := (registers_js s)\<lparr>PC_js := val_plus (PC_js (registers_js s)) (Num 1)\<rparr>\<rparr>;
              (addressLo, s) = mmu_read_js (PC_js (registers_js s)) s;
              address = val_xor (val_shl addressHi (Num 8)) addressLo;
              carryBit = val_and (val_shr (F_js (registers_js s)) (Num CARRY_BIT)) (Num 1);
              s = (if truthy carryBit then
                     (let s = pushToStack_js (val_shr (PC_js (registers_js s)) (Num 8)) s;
                          s = pushToStack_js (val_and (PC_js (registers_js s)) (Num 0xFF)) s
                      in s\<lparr>registers_js := (registers_js s)\<lparr>PC_js := val_minus address (Num 1)\<rparr>\<rparr>)
                   else
                     s)
          in Returns 12 s)
      else if opcode = Num 0xDE then \<comment> \<open>SBC A, d8\<close>
         (let s = s\<lparr>registers_js := (registers_js s)\<lparr>PC_js := val_plus (PC_js (registers_js s)) (Num 1)\<rparr>\<rparr>;
              (data, s) = mmu_read_js (PC_js (registers_js s)) s;
              (t1, s) = sub8Bit_js (A_js (registers_js s)) data True s;
              s = s\<lparr>registers_js := (registers_js s)\<lparr>A_js := t1\<rparr>\<rparr>
          in Returns 8 s)
      else if opcode = Num 0xDF then \<comment> \<open>RST 18H\<close>
         (let s = pushToStack_js (val_shr (PC_js (registers_js s)) (Num 8)) s;
              s = pushToStack_js (val_and (PC_js (registers_js s)) (Num 0xFF)) s;
              s = s\<lparr>registers_js := (registers_js s)\<lparr>PC_js := val_minus (Num 0x18) (Num 1)\<rparr>\<rparr>
          in Returns 32 s)
      else if opcode = Num 0xE0 then \<comment> \<open>LDH (a8), A\<close>
         (let s = s\<lparr>registers_js := (registers_js s)\<lparr>PC_js := val_plus (PC_js (registers_js s)) (Num 1)\<rparr>\<rparr>;
              (offset, s) = mmu_read_js (PC_js (registers_js s)) s;
              s = mmu_write_js (val_plus (Num 0xFF00) offset) (A_js (registers_js s)) s
          in Returns 12 s)
      else if opcode = Num 0xE1 then \<comment> \<open>POP HL\<close>
         (let (t1, s) = popFromStack_js s;
              s = s\<lparr>registers_js := (registers_js s)\<lparr>L_js := t1\<rparr>\<rparr>;
              (t2, s) = popFromStack_js s;
              s = s\<lparr>registers_js := (registers_js s)\<lparr>H_js := t2\<rparr>\<rparr>
          in Returns 12 s)
      else if opcode = Num 0xE2 then \<comment> \<open>LD (C), A\<close>
         (let address = val_plus (Num 0xFF00) (C_js (registers_js s));
              s = mmu_write_js address (A_js (registers_js s)) s
          in Returns 8 s)
      else if opcode = Num 0xE5 then \<comment> \<open>PUSH HL\<close>
         (let s = pushToStack_js (H_js (registers_js s)) s;
              s = pushToStack_js (L_js (registers_js s)) s
          in Returns 16 s)
      else if opcode = Num 0xE6 then \<comment> \<open>AND d8\<close>
         (let s = s\<lparr>registers_js := (registers_js s)\<lparr>PC_js := val_plus (PC_js (registers_js s)) (Num 1)\<rparr>\<rparr>;
              (data, s) = mmu_read_js (PC_js (registers_js s)) s;
              (t1, s) = andRegisters_js (A_js (registers_js s)) data s;
              s = s\<lparr>registers_js := (registers_js s)\<lparr>A_js := t1\<rparr>\<rparr>
          in Returns 8 s)
      else if opcode = Num 0xE7 then \<comment> \<open>RST 20H\<close>
         (let s = pushToStack_js (val_shr (PC_js (registers_js s)) (Num 8)) s;
              s = pushToStack_js (val_and (PC_js (registers_js s)) (Num 0xFF)) s;
              s = s\<lparr>registers_js := (registers_js s)\<lparr>PC_js := val_minus (Num 0x20) (Num 1)\<rparr>\<rparr>
          in Returns 32 s)
      else if opcode = Num 0xE8 then \<comment> \<open>ADD SP, r8\<close>
         (let s = s\<lparr>registers_js := (registers_js s)\<lparr>PC_js := val_plus (PC_js (registers_js s)) (Num 1)\<rparr>\<rparr>;
              (toAdd, s) = mmu_read_js (PC_js (registers_js s)) s;
              toAdd = (if val_gt toAdd (Num 127) then
                         val_neg (val_minus (Num 128) (val_minus toAdd (Num 128)))
                       else
                         toAdd);
              newVal = val_plus (SP_js (registers_js s)) toAdd;
              s = setFlagBit_js (Num SUBTRACT_BIT) False s;
              s = setFlagBit_js (Num ZERO_BIT) False s;
              halfCarry = val_plus (val_and (val_and toAdd (Num 0xFF00)) (Num 0xF)) (val_and (val_shr toAdd (Num 8)) (Num 0xF));
              s = setFlagBit_js (Num HALF_CARRY_BIT) (truthy halfCarry) s;
              s = setFlagBit_js (Num CARRY_BIT) (val_gt newVal (Num 0xFFFF)) s;
              newVal = (if val_gt newVal (Num 0xFFFF) then
                          val_minus newVal (Num 0xFFFF)
                        else
                          newVal);
              s = s\<lparr>registers_js := (registers_js s)\<lparr>SP_js := newVal\<rparr>\<rparr>
          in Returns 16 s)
      else if opcode = Num 0xE9 then \<comment> \<open>JP (HL)\<close>
         (let address = val_xor (val_shl (H_js (registers_js s)) (Num 8)) (L_js (registers_js s));
              s = s\<lparr>registers_js := (registers_js s)\<lparr>PC_js := val_minus address (Num 1)\<rparr>\<rparr>
          in Returns 4 s)
      else if opcode = Num 0xEA then \<comment> \<open>LD (a16) A\<close>
         (let s = s\<lparr>registers_js := (registers_js s)\<lparr>PC_js := val_plus (PC_js (registers_js s)) (Num 1)\<rparr>\<rparr>;
              (addressHi, s) = mmu_read_js (PC_js (registers_js s)) s;
              s = s\<lparr>registers_js := (registers_js s)\<lparr>PC_js := val_plus (PC_js (registers_js s)) (Num 1)\<rparr>\<rparr>;
              (addressLo, s) = mmu_read_js (PC_js (registers_js s)) s;
              address = val_xor (val_shl addressHi (Num 8)) addressLo;
              s = mmu_write_js address (A_js (registers_js s)) s
          in Returns 16 s)
      else if opcode = Num 0xEE then \<comment> \<open>XOR d8\<close>
         (let s = s\<lparr>registers_js := (registers_js s)\<lparr>PC_js := val_plus (PC_js (registers_js s)) (Num 1)\<rparr>\<rparr>;
              (data, s) = mmu_read_js (PC_js (registers_js s)) s;
              (t1, s) = xorRegisters_js (A_js (registers_js s)) data s;
              s = s\<lparr>registers_js := (registers_js s)\<lparr>A_js := t1\<rparr>\<rparr>
          in Returns 8 s)
      else if opcode = Num 0xEF then \<comment> \<open>RST 28H\<close>
         (let s = pushToStack_js (val_shr (PC_js (registers_js s)) (Num 8)) s;
              s = pushToStack_js (val_and (PC_js (registers_js s)) (Num 0xFF)) s;
              s = s\<lparr>registers_js := (registers_js s)\<lparr>PC_js := val_minus (Num 0x28) (Num 1)\<rparr>\<rparr>
          in Returns 32 s)
      else if opcode = Num 0xF0 then \<comment> \<open>LDH A, (a8)\<close>
         (let s = s\<lparr>registers_js := (registers_js s)\<lparr>PC_js := val_plus (PC_js (registers_js s)) (Num 1)\<rparr>\<rparr>;
              (address, s) = mmu_read_js (PC_js (registers_js s)) s;
              (t1, s) = mmu_read_js (val_plus (Num 0xFF00) address) s;
              s = s\<lparr>registers_js := (registers_js s)\<lparr>A_js := t1\<rparr>\<rparr>
          in Returns 12 s)
      else if opcode = Num 0xF1 then \<comment> \<open>POP AF\<close>
         (let (t1, s) = popFromStack_js s;
              s = s\<lparr>registers_js := (registers_js s)\<lparr>F_js := t1\<rparr>\<rparr>;
              (t2, s) = popFromStack_js s;
              s = s\<lparr>registers_js := (registers_js s)\<lparr>A_js := t2\<rparr>\<rparr>
          in Returns 12 s)
      else if opcode = Num 0xF2 then \<comment> \<open>LD A, (C)\<close>
         (let (data, s) = mmu_read_js (val_plus (Num 0xFF00) (C_js (registers_js s))) s;
              s = s\<lparr>registers_js := (registers_js s)\<lparr>A_js := data\<rparr>\<rparr>
          in Returns 8 s)
      else if opcode = Num 0xF3 then \<comment> \<open>DI\<close>
         (let s = s\<lparr>toDisableInterrupts_js := toDisableInterrupts_js s + 1\<rparr>
          in Returns 4 s)
      else if opcode = Num 0xF5 then \<comment> \<open>PUSH AF\<close>
         (let s = pushToStack_js (A_js (registers_js s)) s;
              s = pushToStack_js (F_js (registers_js s)) s
          in Returns 16 s)
      else if opcode = Num 0xF6 then \<comment> \<open>OR d8\<close>
         (let s = s\<lparr>registers_js := (registers_js s)\<lparr>PC_js := val_plus (PC_js (registers_js s)) (Num 1)\<rparr>\<rparr>;
              (data, s) = mmu_read_js (PC_js (registers_js s)) s;
              (t1, s) = orRegisters_js (A_js (registers_js s)) data s;
              s = s\<lparr>registers_js := (registers_js s)\<lparr>A_js := t1\<rparr>\<rparr>
          in Returns 8 s)
      else if opcode = Num 0xF7 then \<comment> \<open>RST 30H\<close>
         (let s = pushToStack_js (val_shr (PC_js (registers_js s)) (Num 8)) s;
              s = pushToStack_js (val_and (PC_js (registers_js s)) (Num 0xFF)) s;
              s = s\<lparr>registers_js := (registers_js s)\<lparr>PC_js := val_minus (Num 0x30) (Num 1)\<rparr>\<rparr>
          in Returns 32 s)
      else if opcode = Num 0xF8 then \<comment> \<open>LD HL, SP + r8\<close>
         (let s = s\<lparr>registers_js := (registers_js s)\<lparr>PC_js := val_plus (PC_js (registers_js s)) (Num 1)\<rparr>\<rparr>;
              (toAdd, s) = mmu_read_js (PC_js (registers_js s)) s;
              toAdd = (if val_gt toAdd (Num 127) then
                         val_neg (val_minus (Num 128) (val_minus toAdd (Num 128)))
                       else
                         toAdd);
              addressVal = val_plus (SP_js (registers_js s)) toAdd;
              s = setFlagBit_js (Num SUBTRACT_BIT) False s;
              s = setFlagBit_js (Num ZERO_BIT) False s;
              halfCarry = val_plus (val_and (val_and toAdd (Num 0xFF00)) (Num 0xF)) (val_and (val_shr toAdd (Num 8)) (Num 0xF));
              s = setFlagBit_js (Num HALF_CARRY_BIT) (truthy halfCarry) s;
              s = setFlagBit_js (Num CARRY_BIT) (val_gt addressVal (Num 0xFFFF)) s;
              addressVal = (if val_gt addressVal (Num 0xFFFF) then
                              val_minus addressVal (Num 0xFFFF)
                            else
                              addressVal);
              s = s\<lparr>valueHi_js := val_shr addressVal (Num 8)\<rparr>;
              s = s\<lparr>valueLo_js := val_and addressVal (Num 0xFF)\<rparr>
          in Throws s)
      else if opcode = Num 0xF9 then \<comment> \<open>LD SP, HL\<close>
         (let resolvedVal = val_xor (val_shl (H_js (registers_js s)) (Num 8)) (L_js (registers_js s));
              s = s\<lparr>registers_js := (registers_js s)\<lparr>SP_js := resolvedVal\<rparr>\<rparr>
          in Returns 8 s)
      else if opcode = Num 0xFA then \<comment> \<open>LD A, (a16)\<close>
         (let s = s\<lparr>registers_js := (registers_js s)\<lparr>PC_js := val_plus (PC_js (registers_js s)) (Num 1)\<rparr>\<rparr>;
              (addressHi, s) = mmu_read_js (PC_js (registers_js s)) s;
              s = s\<lparr>registers_js := (registers_js s)\<lparr>PC_js := val_plus (PC_js (registers_js s)) (Num 1)\<rparr>\<rparr>;
              (addressLo, s) = mmu_read_js (PC_js (registers_js s)) s;
              address = val_xor (val_shl addressHi (Num 8)) addressLo;
              (t1, s) = mmu_read_js address s;
              s = s\<lparr>registers_js := (registers_js s)\<lparr>A_js := t1\<rparr>\<rparr>
          in Returns 16 s)
      else if opcode = Num 0xFB then \<comment> \<open>EI\<close>
         (let s = s\<lparr>toEnableInterrupts_js := toEnableInterrupts_js s + 1\<rparr>
          in Returns 4 s)
      else if opcode = Num 0xFE then \<comment> \<open>CP d8\<close>
         (let s = s\<lparr>registers_js := (registers_js s)\<lparr>PC_js := val_plus (PC_js (registers_js s)) (Num 1)\<rparr>\<rparr>;
              (data, s) = mmu_read_js (PC_js (registers_js s)) s;
              (t1, s) = sub8Bit_js (A_js (registers_js s)) data False s
          in Returns 8 s)
      else if opcode = Num 0xFF then \<comment> \<open>RST 38H\<close>
         (let s = pushToStack_js (val_shr (PC_js (registers_js s)) (Num 8)) s;
              s = pushToStack_js (val_and (PC_js (registers_js s)) (Num 0xFF)) s;
              s = s\<lparr>registers_js := (registers_js s)\<lparr>PC_js := val_minus (Num 0x38) (Num 1)\<rparr>\<rparr>
          in Returns 32 s)
      else Returns 0 s)"


definition executeOpcode_js :: "gameboy_js \<Rightarrow> outcome" where
  "executeOpcode_js s =
     (case (if \<not> halted_js s then
              (let (nextOp, s) = mmu_read_js (PC_js (registers_js s)) s in
               case executeOperation_js nextOp s of
                 Returns cycles s \<Rightarrow>
                   Returns cycles
                     (s\<lparr>registers_js := (registers_js s)\<lparr>PC_js := val_plus (PC_js (registers_js s)) (Num 1)\<rparr>,
                        debug_js := debug_js s + 1\<rparr>)
               | Throws s \<Rightarrow> Throws s)
            else Returns 4 s) of
        Returns cycles s \<Rightarrow>
          (let s = (if toDisableInterrupts_js s \<ge> 0 then
                      (let s = s\<lparr>toDisableInterrupts_js := toDisableInterrupts_js s + 1\<rparr> in
                       if toDisableInterrupts_js s = 2 then
                         s\<lparr>interruptsEnabled_js := False, toDisableInterrupts_js := - 1\<rparr>
                       else s)
                    else s);
               s = (if toEnableInterrupts_js s \<ge> 0 then
                      (let s = s\<lparr>toEnableInterrupts_js := toEnableInterrupts_js s + 1\<rparr> in
                       if toEnableInterrupts_js s = 2 then
                         s\<lparr>interruptsEnabled_js := True, toEnableInterrupts_js := - 1\<rparr>
                       else s)
                    else s)
           in Returns cycles s)
      | Throws s \<Rightarrow> Throws s)"

text \<open>The reset state of this model: construct, \<open>initialize\<close>, \<open>loadProgram\<close>.\<close>

definition new_Gameboy_js :: gameboy_js where
  "new_Gameboy_js =
     \<lparr>cpuStopped_js = False, halted_js = False, timerCounter_js = 1024, dividerCounter_js = 0,
      interruptsEnabled_js = True, toDisableInterrupts_js = - 1, toEnableInterrupts_js = - 1,
      debug_js = 0, valueHi_js = Undefined, valueLo_js = Undefined, mmu_js = new_MMU,
      registers_js = \<lparr>A_js = Num 0, B_js = Num 0, C_js = Num 0, D_js = Num 0, E_js = Num 0,
                      F_js = Num 0, H_js = Num 0, L_js = Num 0, PC_js = Num 0, SP_js = Num 0\<rparr>\<rparr>"

definition initialize_js :: "gameboy_js \<Rightarrow> gameboy_js" where
  "initialize_js s =
     s\<lparr>halted_js := False,
       registers_js := (registers_js s)\<lparr>PC_js := Num 0x100, SP_js := Num 0xFFFE,
                         A_js := Num 0x01, F_js := Num 0xB0, B_js := Num 0x00, C_js := Num 0x13,
                         D_js := Num 0x00, E_js := Num 0xD8, H_js := Num 0x01, L_js := Num 0x4D\<rparr>,
       mmu_js := initialize_mmu (mmu_js s)\<rparr>"

definition loadProgram_js :: "int list \<Rightarrow> gameboy_js \<Rightarrow> gameboy_js" where
  "loadProgram_js data s = s\<lparr>mmu_js := setCartridgeData data (mmu_js s)\<rparr>"

definition reset_js :: "int list \<Rightarrow> gameboy_js" where
  "reset_js data = loadProgram_js data (initialize_js new_Gameboy_js)"

section \<open>Cartridges, observations and example states\<close>

text \<open>A 32 KiB cartridge image that is zero except at the listed offsets.\<close>

definition cartridge_with :: "(nat \<times> int) list \<Rightarrow> int list" where
  "cartridge_with bytes = fold (\<lambda>(i, b) xs. xs[i := b]) bytes (replicate 0x8000 0)"

text \<open>The value the next CPU step fetches as its opcode, if the CPU is running.\<close>

definition fetched :: "gameboy \<Rightarrow> jsval" where
  "fetched s = fst (read (PC (registers s)) (mmu s))"

text \<open>
  The addresses at which \<open>write\<close> stores its data in the backing array and nowhere
  else, and \<open>read\<close> returns that cell: video RAM, work RAM, OAM, the I/O page except
  0xFF00, 0xFF04, 0xFF44 and 0xFF46, high RAM and 0xFFFF.
\<close>

definition plainRam :: "int \<Rightarrow> bool" where
  "plainRam a \<longleftrightarrow>
     a \<ge> 0x8000 \<and> \<not> (a \<ge> 0xA000 \<and> a < 0xC000) \<and> a \<noteq> 0xFF00 \<and> a \<noteq> 0xFF04 \<and>
     a \<noteq> 0xFF44 \<and> a \<noteq> 0xFF46 \<and> \<not> (a \<ge> 0xFEA0 \<and> a < 0xFEFF) \<and>
     \<not> (a \<ge> 0xE000 \<and> a \<le> 0xFDFF)"

text \<open>\<open>n\<close> CPU steps in a row.\<close>

fun steps :: "nat \<Rightarrow> gameboy \<Rightarrow> gameboy option" where
  "steps 0 s = Some s"
| "steps (Suc n) s = (case executeOpcode s of None \<Rightarrow> None | Some (c, s') \<Rightarrow> steps n s')"

text \<open>The reset state with the interrupt request and enable registers set.\<close>

definition withInterrupts :: "int \<Rightarrow> int \<Rightarrow> gameboy \<Rightarrow> gameboy" where
  "withInterrupts requested enabled s =
     mmu_write INTERRUPT_ENABLED_ADDR enabled (mmu_write INTERRUPT_REQUEST_ADDR requested s)"

definition pendingBoth :: gameboy where
  "pendingBoth = withInterrupts 3 3 (reset (cartridge_with []))"

text \<open>About to execute HALT with IME clear while V-Blank is requested and enabled, and
  the state right after that HALT.\<close>

definition aboutToHalt :: gameboy where
  "aboutToHalt =
     (withInterrupts 1 1 (reset (cartridge_with [(0x100, 0x76)])))\<lparr>interruptsEnabled := False\<rparr>"

definition haltedNoIME :: gameboy where
  "haltedNoIME =
     aboutToHalt\<lparr>halted := True, registers := (registers aboutToHalt)\<lparr>PC := 0x101\<rparr>, debug := 1\<rparr>"

text \<open>The same halted state with IME set.\<close>

definition haltedWithIME :: gameboy where
  "haltedWithIME = haltedNoIME\<lparr>interruptsEnabled := True\<rparr>"

text \<open>Halted with IME set, and only the serial bit (3) requested and enabled.\<close>

definition haltedSerialOnly :: gameboy where
  "haltedSerialOnly =
     (withInterrupts 8 8 (reset (cartridge_with [(0x100, 0x76)])))\<lparr>halted := True\<rparr>"

text \<open>Timer enabled with period 16 (TAC = 5), TIMA = 0.\<close>

definition timerFast :: gameboy where
  "timerFast = mmu_write TIMER_CONTROLLER_ADDR 5 (reset (cartridge_with []))"

text \<open>ADD A,B as the first instruction; once from reset, once with A = 0xFF, B = 1, F = 0.\<close>

definition addCart :: "int list" where
  "addCart = cartridge_with [(0x100, 0x80)]"

definition addOverflow :: gameboy where
  "addOverflow = (reset addCart)\<lparr>registers := (registers (reset addCart))\<lparr>A := 0xFF, B := 0x01, F := 0x00\<rparr>\<rparr>"

text \<open>JP a16 with the operand bytes 0x50, 0x01.\<close>

definition jpCart :: "int list" where
  "jpCart = cartridge_with [(0x100, 0xC3), (0x101, 0x50), (0x102, 0x01)]"

text \<open>LD BC,d16 with operand bytes 0x12, 0xFF; PUSH BC; POP AF.\<close>

definition popAFCart :: "int list" where
  "popAFCart = cartridge_with [(0x100, 0x01), (0x101, 0x12), (0x102, 0xFF), (0x103, 0xC5), (0x104, 0xF1)]"

text \<open>PUSH BC; POP BC.\<close>

definition pushPopCart :: "int list" where
  "pushPopCart = cartridge_with [(0x100, 0xC5), (0x101, 0xC1)]"

text \<open>What interrupt dispatch leaves behind: PC, SP, IME, the request register and the
  four bytes on top of the stack.\<close>

definition dispatchView :: "gameboy \<Rightarrow> int \<times> int \<times> bool \<times> jsval \<times> jsval list" where
  "dispatchView s =
     (PC (registers s), SP (registers s), interruptsEnabled s,
      memory (mmu s) INTERRUPT_REQUEST_ADDR,
      map (memory (mmu s))
        [SP (registers s), SP (registers s) + 1, SP (registers s) + 2, SP (registers s) + 3])"

text \<open>TIMA and the timer's remainder.\<close>

definition timerView :: "gameboy \<Rightarrow> jsval \<times> int" where
  "timerView s = (memory (mmu s) TIMER_ADDR, timerCounter s)"

text \<open>
  Bits 0..3 of a value that is a number, and of the flag register. \<open>None\<close> says that
  the value is not a number.
\<close>

fun lowNibbleOf :: "jsval \<Rightarrow> int option" where
  "lowNibbleOf (Num n) = Some (take_bit 4 n)"
| "lowNibbleOf Undefined = None"
| "lowNibbleOf NaN = None"

definition flagLowNibble_js :: "gameboy_js \<Rightarrow> int option" where
  "flagLowNibble_js s = lowNibbleOf (F_js (registers_js s))"

text \<open>The value at the stack location: what \<open>popFromStack\<close> would return.\<close>

definition stackTop_js :: "gameboy_js \<Rightarrow> jsval" where
  "stackTop_js s = fst (read_val (SP_js (registers_js s)) (mmu_js s))"

text \<open>The next CPU step executes POP AF.\<close>

definition executesPopAF_js :: "gameboy_js \<Rightarrow> bool" where
  "executesPopAF_js s \<longleftrightarrow>
     \<not> halted_js s \<and> fst (read_val (PC_js (registers_js s)) (mmu_js s)) = Num 0xF1"

text \<open>
  The states that CPU steps reach from reset, where POP AF is executed only with a
  number whose bits 0..3 are zero at the stack location. A step that throws counts with
  the state it leaves behind.
\<close>

inductive_set reachable_js :: "int list \<Rightarrow> gameboy_js set" for cart :: "int list" where
  start: "reset_js cart \<in> reachable_js cart"
| step: "s \<in> reachable_js cart \<Longrightarrow>
         (executesPopAF_js s \<longrightarrow> lowNibbleOf (stackTop_js s) = Some 0) \<Longrightarrow>
         outcome_state (executeOpcode_js s) \<in> reachable_js cart"

text \<open>\<open>n\<close> CPU steps in a row.\<close>

fun steps_js :: "nat \<Rightarrow> gameboy_js \<Rightarrow> gameboy_js" where
  "steps_js 0 s = s"
| "steps_js (Suc n) s = steps_js n (outcome_state (executeOpcode_js s))"

text \<open>LD A,d8 with the operand 0x0F; SWAP A (prefix 0xCB, opcode 0x37).\<close>

definition swapCart :: "int list" where
  "swapCart = cartridge_with [(0x100, 0x3E), (0x101, 0x0F), (0x102, 0xCB), (0x103, 0x37)]"

text \<open>
  The state after LD BC,d16 and PUSH BC on \<open>popAFCart\<close>, about to execute POP AF
  with SP = 0xFFFC and the bytes 0xFF, 0x12 on the stack.
\<close>

definition aboutToPopAF_js :: gameboy_js where
  "aboutToPopAF_js =
     (reset_js popAFCart)
       \<lparr>debug_js := 2,
        mmu_js := (mmu (reset popAFCart))
          \<lparr>memory := (memory (mmu (reset popAFCart)))(0xFFFD := Num 0x12, 0xFFFC := Num 0xFF)\<rparr>,
        registers_js := (registers_js (reset_js popAFCart))
          \<lparr>B_js := Num 0x12, C_js := Num 0xFF, SP_js := Num 0xFFFC, PC_js := Num 0x104\<rparr>\<rparr>"

section \<open>Evaluating the model on concrete states\<close>

lemmas js_ops = js_and_def js_or_def js_xor_def js_not_def js_shl_def js_shr_def toInt32_def

lemmas reset_defs = reset_def loadProgram_def initialize_def setCartridgeData_def
  new_Gameboy_def new_MMU_def initialize_mmu_def cartridgeByte_def cartridge_with_def

lemmas cpu_defs = executeOpcode_def executeOperation_def mmu_read_def mmu_write_def read_def
  pushToStack_def popFromStack_def setFlagBit_def add8Bit_def sub8Bit_def inc8Bit_def
  dec8Bit_def write_mmu.simps Let_def

lemma reset_registers:
  "registers (reset c) = \<lparr>A = 0x01, B = 0x00, C = 0x13, D = 0x00, E = 0xD8, F = 0xB0,
      H = 0x01, L = 0x4D, PC = 0x100, SP = 0xFFFE\<rparr>"
  by (simp add: reset_def loadProgram_def initialize_def new_Gameboy_def)

lemma reset_fields:
  "halted (reset c) = False" "interruptsEnabled (reset c) = True"
  "timerCounter (reset c) = 1024" "dividerCounter (reset c) = 0"
  "toDisableInterrupts (reset c) = - 1" "toEnableInterrupts (reset c) = - 1"
  "debug (reset c) = 0" "cpuStopped (reset c) = False"
  by (simp_all add: reset_def loadProgram_def initialize_def new_Gameboy_def)

lemma reset_memory_io:
  "memory (mmu (reset c)) 0xFF04 = Num 0" "memory (mmu (reset c)) 0xFF05 = Num 0"
  "memory (mmu (reset c)) 0xFF06 = Num 0" "memory (mmu (reset c)) 0xFF07 = Num 0"
  "memory (mmu (reset c)) 0xFF0F = Num 0" "memory (mmu (reset c)) 0xFFFF = Num 0"
  "memory (mmu (reset c)) 0xFEFF = Num 0" "memory (mmu (reset c)) 0xFFFD = Num 0"
  by (simp_all add: reset_def loadProgram_def initialize_def setCartridgeData_def
        new_Gameboy_def initialize_mmu_def)

lemma reset_memory_rom:
  "0 \<le> a \<Longrightarrow> a < 0x8000 \<Longrightarrow> memory (mmu (reset c)) a = cartridgeByte c a"
  by (simp add: reset_def loadProgram_def initialize_def setCartridgeData_def new_Gameboy_def)

lemma cart_bytes:
  "cartridgeByte addCart 0x100 = Num 0x80"
  "cartridgeByte jpCart 0x100 = Num 0xC3" "cartridgeByte jpCart 0x101 = Num 0x50"
  "cartridgeByte jpCart 0x102 = Num 0x01"
  "cartridgeByte popAFCart 0x100 = Num 0x01" "cartridgeByte popAFCart 0x101 = Num 0x12"
  "cartridgeByte popAFCart 0x102 = Num 0xFF" "cartridgeByte popAFCart 0x103 = Num 0xC5"
  "cartridgeByte popAFCart 0x104 = Num 0xF1"
  "cartridgeByte pushPopCart 0x100 = Num 0xC5" "cartridgeByte pushPopCart 0x101 = Num 0xC1"
  "cartridgeByte (cartridge_with [(0x100, 0x76)]) 0x100 = Num 0x76"
  "cartridgeByte (cartridge_with [(0x100, 0xF1)]) 0x100 = Num 0xF1"
  by (simp_all add: addCart_def jpCart_def popAFCart_def pushPopCart_def cartridgeByte_def
        cartridge_with_def)

lemma plainRam_stack:
  "plainRam 0xFFFD" "plainRam 0xFFFC" "plainRam 0xFFFB" "plainRam 0xFFFA"
  "plainRam 0xFF0F" "plainRam 0xFFFF"
  by (simp_all add: plainRam_def)

section \<open>Facts about the MMU\<close>

lemma snd_getJoypadState: "snd (getJoypadState m) = m"
  by (simp add: getJoypadState_def Let_def)

lemma snd_read: "snd (read a m) = m"
  by (simp add: read_def snd_getJoypadState)

lemma write_mmu_plainRam:
  "plainRam a \<Longrightarrow> write_mmu a d m = m\<lparr>memory := (memory m)(a := d)\<rparr>"
  by (auto simp add: plainRam_def write_mmu.simps)

text \<open>High RAM (0xFF80 and above) is plain RAM.\<close>

lemma plainRam_high_RAM: "0xFF80 \<le> a \<Longrightarrow> plainRam a"
  by (simp add: plainRam_def)

lemma read_plainRam: "plainRam a \<Longrightarrow> read a m = (memory m a, m)"
  by (auto simp add: plainRam_def read_def)

lemma memory_handleBanking: "memory (handleBanking a d m) = memory m"
  by (simp add: handleBanking_def doEnableRamBanking_def doRomLoBankChange_def
        doRomHiBankChange_def doRamBankChange_def doChangeRomRamMode_def Let_def)

text \<open>Only a write to 0xFF0F itself changes the interrupt request register: the echo
  and the DMA transfer never reach it.\<close>

lemma memory_IF_write_dma:
  "a \<noteq> 0xFF0F \<Longrightarrow> memory (write_mmu a d m) 0xFF0F = memory m 0xFF0F"
  "i \<noteq> 0xFF0F \<Longrightarrow> memory (dmaLoop i src m) 0xFF0F = memory m 0xFF0F"
proof (induction a d m and i src m rule: write_mmu_dmaLoop.induct)
  case (1 address data m)
  then show ?case
    by (subst write_mmu.simps) (auto simp add: memory_handleBanking Let_def)
next
  case (2 i sourceAddress m)
  show ?case
  proof (cases "i \<le> 0xFE9F")
    case True
    obtain v m1 where r: "read sourceAddress m = (v, m1)"
      by (cases "read sourceAddress m")
    then have m1: "m1 = m"
      using snd_read [of sourceAddress m] by simp
    from True have "i \<noteq> 0xFF0F" "i + 1 \<noteq> 0xFF0F"
      by auto
    with 2 True r m1 show ?thesis
      by (subst dmaLoop.simps) (simp add: Let_def)
  next
    case False
    then show ?thesis
      by (subst dmaLoop.simps) simp
  qed
qed

lemma memory_IF_write_Num:
  assumes "memory m 0xFF0F = Num x"
  shows "\<exists>y. memory (write_mmu a (Num d) m) 0xFF0F = Num y"
proof (cases "a = 0xFF0F")
  case True
  then show ?thesis
    by (simp add: write_mmu.simps)
next
  case False
  with assms show ?thesis
    by (simp add: memory_IF_write_dma)
qed

section \<open>Facts about the stack and the CPU step\<close>

lemma mmu_read_state: "mmu_read a s = Some (n, s') \<Longrightarrow> s' = s"
  by (cases "read a (mmu s)"; cases "fst (read a (mmu s))")
     (use snd_read [of a "mmu s"] in \<open>auto simp add: mmu_read_def\<close>)

lemma mmu_read_Num: "fst (read a (mmu s)) = Num n \<Longrightarrow> mmu_read a s = Some (n, s)"
  by (cases "read a (mmu s)") (use snd_read [of a "mmu s"] in \<open>simp add: mmu_read_def\<close>)

lemma mmu_read_IF: "memory (mmu s) 0xFF0F = Num x \<Longrightarrow> mmu_read 0xFF0F s = Some (x, s)"
  by (simp add: mmu_read_def read_def)

lemma mmu_read_IE: "memory (mmu s) 0xFFFF = Num x \<Longrightarrow> mmu_read 0xFFFF s = Some (x, s)"
  by (simp add: mmu_read_def read_def)

lemma registers_mmu_write: "registers (mmu_write a d s) = registers s"
  by (simp add: mmu_write_def)

lemma registers_pushToStack:
  "registers (pushToStack v s) = (registers s)\<lparr>SP := SP (registers s) - 1\<rparr>"
  by (simp add: pushToStack_def Let_def registers_mmu_write)

lemma registers_popFromStack:
  "popFromStack s = Some (v, s') \<Longrightarrow> registers s' = (registers s)\<lparr>SP := SP (registers s) + 1\<rparr>"
  by (auto simp add: popFromStack_def split: bind_splits dest!: mmu_read_state)

lemma halted_pushToStack: "halted (pushToStack v s) = halted s"
  by (simp add: pushToStack_def mmu_write_def Let_def)

lemma memory_IF_pushToStack:
  assumes "memory (mmu s) 0xFF0F = Num x"
  shows "\<exists>y. memory (mmu (pushToStack v s)) 0xFF0F = Num y"
  using memory_IF_write_Num [of "mmu s" x "SP (registers s) - 1" v] assms
  by (simp add: pushToStack_def mmu_write_def Let_def)

lemma pushToStack_plainRam:
  "plainRam (SP (registers s) - 1) \<Longrightarrow>
   pushToStack v s =
     s\<lparr>registers := (registers s)\<lparr>SP := SP (registers s) - 1\<rparr>,
       mmu := (mmu s)\<lparr>memory := (memory (mmu s))(SP (registers s) - 1 := Num v)\<rparr>\<rparr>"
  by (simp add: pushToStack_def mmu_write_def Let_def write_mmu_plainRam)

lemma popFromStack_plainRam:
  "plainRam (SP (registers t)) \<Longrightarrow> memory (mmu t) (SP (registers t)) = Num v \<Longrightarrow>
   popFromStack t = Some (v, t\<lparr>registers := (registers t)\<lparr>SP := SP (registers t) + 1\<rparr>\<rparr>)"
  by (simp add: popFromStack_def mmu_read_def read_plainRam)

text \<open>A step of a running CPU: fetch, execute, then move PC past the opcode. The
  pending EI and DI counters change neither the registers nor the memory.\<close>

lemma executeOpcode_running:
  assumes "\<not> halted s"
    and "mmu_read (PC (registers s)) s = Some (opc, s1)"
    and "executeOperation opc s1 = Some (c, s2)"
  shows "\<exists>s3. executeOpcode s = Some (c, s3) \<and>
           registers s3 = (registers s2)\<lparr>PC := PC (registers s2) + 1\<rparr> \<and>
           mmu s3 = mmu s2 \<and> halted s3 = halted s2"
  using assms by (simp add: executeOpcode_def Let_def)

lemma executeOpcode_halted:
  assumes "halted s"
  shows "\<exists>s'. executeOpcode s = Some (4, s') \<and> halted s' \<and>
           registers s' = registers s \<and> mmu s' = mmu s"
  using assms by (simp add: executeOpcode_def Let_def)

lemma fetched_rom:
  "0 \<le> PC (registers s) \<Longrightarrow> PC (registers s) < 0x4000 \<Longrightarrow>
   fetched s = memory (mmu s) (PC (registers s))"
  by (simp add: fetched_def read_def)

lemma executeOpcode_fetched:
  assumes "\<not> halted s" and "fetched s = Num opc" and "executeOperation opc s = Some (c, s2)"
  shows "\<exists>s3. executeOpcode s = Some (c, s3) \<and>
           registers s3 = (registers s2)\<lparr>PC := PC (registers s2) + 1\<rparr> \<and>
           mmu s3 = mmu s2 \<and> halted s3 = halted s2"
  using executeOpcode_running [OF assms(1) mmu_read_Num [OF assms(2) [unfolded fetched_def]] assms(3)] .

text \<open>PUSH of a pair followed by the matching POP, for any pair of registers: \<open>setpair\<close>
  writes the pair into the register file.\<close>

lemma push_pop_pair:
  assumes running: "\<not> halted s"
    and ram: "plainRam (SP (registers s) - 1)" "plainRam (SP (registers s) - 2)"
    and fetch: "fetched s = Num push"
    and push: "executeOperation push s = Some (16, pushToStack lo (pushToStack hi s))"
    and pop: "\<And>t v w. plainRam (SP (registers t)) \<Longrightarrow> plainRam (SP (registers t) + 1) \<Longrightarrow>
               memory (mmu t) (SP (registers t)) = Num v \<Longrightarrow>
               memory (mmu t) (SP (registers t) + 1) = Num w \<Longrightarrow>
               \<exists>t'. executeOperation pop t = Some (12, t') \<and>
                  registers t' = setpair w v ((registers t)\<lparr>SP := SP (registers t) + 2\<rparr>)"
    and same: "setpair hi lo ((registers s)\<lparr>PC := PC (registers s) + 1\<rparr>) =
                 (registers s)\<lparr>PC := PC (registers s) + 1\<rparr>"
  shows "\<exists>c1 s1. executeOpcode s = Some (c1, s1) \<and>
           (fetched s1 = Num pop \<longrightarrow>
              (\<exists>c2 s2. executeOpcode s1 = Some (c2, s2) \<and>
                 registers s2 = (registers s)\<lparr>PC := PC (registers s) + 2\<rparr>))"
proof -
  let ?p = "pushToStack lo (pushToStack hi s)"
  have p: "?p = s\<lparr>registers := (registers s)\<lparr>SP := SP (registers s) - 2\<rparr>,
                 mmu := (mmu s)\<lparr>memory := (memory (mmu s))
                    (SP (registers s) - 1 := Num hi, SP (registers s) - 2 := Num lo)\<rparr>\<rparr>"
    using ram by (simp add: pushToStack_plainRam)
  from executeOpcode_running [OF running mmu_read_Num [OF fetch [unfolded fetched_def]] push]
  obtain s1 where s1: "executeOpcode s = Some (16, s1)"
    "registers s1 = (registers ?p)\<lparr>PC := PC (registers ?p) + 1\<rparr>"
    "mmu s1 = mmu ?p" "halted s1 = halted ?p"
    by blast
  have r1: "registers s1 = (registers s)\<lparr>SP := SP (registers s) - 2, PC := PC (registers s) + 1\<rparr>"
    and m1: "memory (mmu s1) = (memory (mmu s))
                    (SP (registers s) - 1 := Num hi, SP (registers s) - 2 := Num lo)"
    and h1: "\<not> halted s1"
    using s1 running by (simp_all add: p)
  have second: "\<exists>c2 s2. executeOpcode s1 = Some (c2, s2) \<and>
                 registers s2 = (registers s)\<lparr>PC := PC (registers s) + 2\<rparr>"
    if fetch2: "fetched s1 = Num pop"
  proof -
    have "\<exists>t'. executeOperation pop s1 = Some (12, t') \<and>
            registers t' = setpair hi lo ((registers s1)\<lparr>SP := SP (registers s1) + 2\<rparr>)"
      using ram by (intro pop) (simp_all add: r1 m1)
    then obtain t' where t': "executeOperation pop s1 = Some (12, t')"
      "registers t' = setpair hi lo ((registers s1)\<lparr>SP := SP (registers s1) + 2\<rparr>)"
      by blast
    from executeOpcode_running [OF h1 mmu_read_Num [OF fetch2 [unfolded fetched_def]] t'(1)]
    obtain s2 where s2: "executeOpcode s1 = Some (12, s2)"
      "registers s2 = (registers t')\<lparr>PC := PC (registers t') + 1\<rparr>"
      by blast
    have "(registers s1)\<lparr>SP := SP (registers s1) + 2\<rparr> = (registers s)\<lparr>PC := PC (registers s) + 1\<rparr>"
      by (simp add: r1)
    then have "registers t' = (registers s)\<lparr>PC := PC (registers s) + 1\<rparr>"
      using t'(2) same by simp
    then have "registers s2 = (registers s)\<lparr>PC := PC (registers s) + 2\<rparr>"
      using s2(2) by simp
    with s2(1) show ?thesis
      by blast
  qed
  from s1(1) second show ?thesis
    by blast
qed

section \<open>Facts about the flag register\<close>

lemma take_bit_4_toInt32: "take_bit 4 (toInt32 x) = take_bit 4 x"
  by (simp add: toInt32_def take_bit_signed_take_bit)

lemma take_bit_4_and_15: "take_bit 4 (x::int) AND 15 = take_bit 4 x"
proof -
  have "take_bit 4 x AND mask 4 = take_bit 4 x"
    by (simp add: take_bit_eq_mask and.assoc)
  then show ?thesis
    by (simp add: mask_eq_exp_minus_1)
qed

section \<open>Facts about interrupt dispatch\<close>

lemma truthy_checkInterruptBitSet:
  assumes "n \<in> {0, 1, 2, 4}"
  shows "truthy (checkInterruptBitSet (int n) v) \<longleftrightarrow> bit v n"
proof -
  have "truthy (checkInterruptBitSet (int n) v) \<longleftrightarrow> toInt32 v AND 2 ^ n \<noteq> 0"
    using assms by (auto simp add: checkInterruptBitSet_def js_and_def and.commute toInt32_def)
  also have "\<dots> \<longleftrightarrow> bit (toInt32 v) n"
    by (simp add: and_exp_eq_0_iff_not_bit)
  also have "\<dots> \<longleftrightarrow> bit v n"
    using assms by (auto simp add: toInt32_def bit_signed_take_bit_iff)
  finally show ?thesis .
qed

lemma not_truthy_checkInterruptBitSet_3: "\<not> truthy (checkInterruptBitSet 3 v)"
  by (simp add: checkInterruptBitSet_def)

text \<open>Servicing an interrupt clears the halt flag and leaves a number in 0xFF0F.\<close>

lemma runInterrupt_unhalts:
  assumes "memory (mmu s) 0xFF0F = Num x"
  shows "\<exists>s' y. runInterrupt i s = Some s' \<and> \<not> halted s' \<and> memory (mmu s') 0xFF0F = Num y"
proof -
  let ?s1 = "s\<lparr>halted := False, interruptsEnabled := False\<rparr>"
  have r: "mmu_read 0xFF0F ?s1 = Some (x, ?s1)"
    using assms by (simp add: mmu_read_IF)
  define v where "v = (if i = 0 then js_xor x 1 else if i = 1 then js_xor x 2
                        else if i = 2 then js_xor x 4 else if i = 4 then js_xor x 16 else x)"
  define s3 where "s3 = mmu_write 0xFF0F v ?s1"
  define s4 where "s4 = pushToStack (js_shr (PC (registers s3)) 8) s3"
  define s5 where "s5 = pushToStack (js_and (PC (registers s4)) 0xFF) s4"
  have "memory (mmu s3) 0xFF0F = Num v" "\<not> halted s3"
    by (simp_all add: s3_def mmu_write_def write_mmu.simps)
  then obtain y4 where "memory (mmu s4) 0xFF0F = Num y4" "\<not> halted s4"
    unfolding s4_def using memory_IF_pushToStack halted_pushToStack by blast
  then obtain y5 where s5: "memory (mmu s5) 0xFF0F = Num y5" "\<not> halted s5"
    unfolding s5_def using memory_IF_pushToStack halted_pushToStack by blast
  have "runInterrupt i s =
          Some (if i = 0 then s5\<lparr>registers := (registers s5)\<lparr>PC := 0x40\<rparr>\<rparr>
                else if i = 1 then s5\<lparr>registers := (registers s5)\<lparr>PC := 0x48\<rparr>\<rparr>
                else if i = 2 then s5\<lparr>registers := (registers s5)\<lparr>PC := 0x50\<rparr>\<rparr>
                else if i = 4 then s5\<lparr>registers := (registers s5)\<lparr>PC := 0x60\<rparr>\<rparr>
                else s5)"
    by (simp add: runInterrupt_def r Let_def s5_def s4_def s3_def v_def)
  with s5 show ?thesis
    by auto
qed

text \<open>The loop never sets the halt flag, and clears it as soon as one of the remaining
  bits is both requested and enabled.\<close>

lemma doInterruptsLoop_unhalts:
  assumes "memory (mmu s) 0xFF0F = Num x"
  shows "\<exists>s' y. doInterruptsLoop i rq en s = Some s' \<and> memory (mmu s') 0xFF0F = Num y \<and>
           (halted s' \<longrightarrow> halted s) \<and>
           ((\<exists>j. i \<le> j \<and> j < 5 \<and> truthy (checkInterruptBitSet j rq) \<and>
                 truthy (checkInterruptBitSet j en)) \<longrightarrow> \<not> halted s')"
  using assms
proof (induction i rq en s arbitrary: x rule: doInterruptsLoop.induct)
  case (1 i rq en s)
  show ?case
  proof (cases "i < 5")
    case False
    with 1(2) show ?thesis
      by (subst doInterruptsLoop.simps) auto
  next
    case True
    show ?thesis
    proof (cases "truthy (checkInterruptBitSet i rq) \<and> truthy (checkInterruptBitSet i en)")
      case serviced: True
      from runInterrupt_unhalts [OF 1(2)] obtain s1 y1 where
        s1: "runInterrupt i s = Some s1" "\<not> halted s1" "memory (mmu s1) 0xFF0F = Num y1"
        by blast
      have eq: "(if truthy (checkInterruptBitSet i rq) then
                   (if truthy (checkInterruptBitSet i en) then runInterrupt i s else Some s)
                 else Some s) = Some s1"
        using serviced s1(1) by simp
      from "1.IH" [OF True eq s1(3)] obtain s' y where
        "doInterruptsLoop (i + 1) rq en s1 = Some s'" "memory (mmu s') 0xFF0F = Num y"
        "halted s' \<longrightarrow> halted s1"
        by auto
      with s1 eq True show ?thesis
        by (subst doInterruptsLoop.simps) auto
    next
      case skipped: False
      have eq: "(if truthy (checkInterruptBitSet i rq) then
                   (if truthy (checkInterruptBitSet i en) then runInterrupt i s else Some s)
                 else Some s) = Some s"
        using skipped by auto
      from "1.IH" [OF True eq 1(2)] obtain s' y where
        s': "doInterruptsLoop (i + 1) rq en s = Some s'" "memory (mmu s') 0xFF0F = Num y"
        "halted s' \<longrightarrow> halted s"
        "(\<exists>j. i + 1 \<le> j \<and> j < 5 \<and> truthy (checkInterruptBitSet j rq) \<and>
                 truthy (checkInterruptBitSet j en)) \<longrightarrow> \<not> halted s'"
        by auto
      have "\<exists>j. i + 1 \<le> j \<and> j < 5 \<and> truthy (checkInterruptBitSet j rq) \<and>
                 truthy (checkInterruptBitSet j en)"
        if "\<exists>j. i \<le> j \<and> j < 5 \<and> truthy (checkInterruptBitSet j rq) \<and>
                 truthy (checkInterruptBitSet j en)"
      proof -
        from that obtain j where j: "i \<le> j" "j < 5" "truthy (checkInterruptBitSet j rq)"
          "truthy (checkInterruptBitSet j en)"
          by blast
        with skipped have "j \<noteq> i"
          by auto
        with j show ?thesis
          by (intro exI [of _ j]) auto
      qed
      with s' eq True show ?thesis
        by (subst doInterruptsLoop.simps) auto
    qed
  qed
qed

text \<open>With no bit both requested and enabled, the loop changes nothing.\<close>

lemma doInterruptsLoop_idle:
  assumes "\<And>j. i \<le> j \<Longrightarrow> j < 5 \<Longrightarrow>
             \<not> (truthy (checkInterruptBitSet j rq) \<and> truthy (checkInterruptBitSet j en))"
  shows "doInterruptsLoop i rq en s = Some s"
  using assms
proof (induction i rq en s rule: doInterruptsLoop.induct)
  case (1 i rq en s)
  show ?case
  proof (cases "i < 5")
    case False
    then show ?thesis
      by (subst doInterruptsLoop.simps) simp
  next
    case True
    have eq: "(if truthy (checkInterruptBitSet i rq) then
                 (if truthy (checkInterruptBitSet i en) then runInterrupt i s else Some s)
               else Some s) = Some s"
      using "1.prems" [of i] True by auto
    have "doInterruptsLoop (i + 1) rq en s = Some s"
      using "1.IH" [OF True eq] "1.prems" by auto
    with eq True show ?thesis
      by (subst doInterruptsLoop.simps) simp
  qed
qed

text \<open>Servicing an interrupt switches IME off, and so does the loop as soon as one
  of the remaining bits is both requested and enabled.\<close>

lemma interruptsEnabled_pushToStack:
  "interruptsEnabled (pushToStack v s) = interruptsEnabled s"
  by (simp add: pushToStack_def mmu_write_def Let_def)

lemma runInterrupt_disables:
  assumes "runInterrupt i s = Some s'"
  shows "\<not> interruptsEnabled s'"
proof -
  let ?s1 = "s\<lparr>halted := False, interruptsEnabled := False\<rparr>"
  from assms obtain x s2 where r: "mmu_read 0xFF0F ?s1 = Some (x, s2)"
    by (auto simp add: runInterrupt_def Let_def split: bind_splits)
  then have "s2 = ?s1"
    by (rule mmu_read_state)
  with assms r show ?thesis
    by (auto simp add: runInterrupt_def Let_def interruptsEnabled_pushToStack mmu_write_def
          split: if_splits)
qed

lemma doInterruptsLoop_disables:
  assumes "doInterruptsLoop i rq en s = Some s'"
    and "\<exists>j. i \<le> j \<and> j < 5 \<and> truthy (checkInterruptBitSet j rq) \<and>
              truthy (checkInterruptBitSet j en)"
  shows "\<not> interruptsEnabled s'"
  using assms
proof (induction i rq en s rule: doInterruptsLoop.induct)
  case (1 i rq en s)
  from "1.prems"(2) have lt: "i < 5"
    by auto
  show ?case
  proof (cases "truthy (checkInterruptBitSet i rq) \<and> truthy (checkInterruptBitSet i en)")
    case serviced: True
    with "1.prems"(1) lt obtain s1 where
      s1: "runInterrupt i s = Some s1" "doInterruptsLoop (i + 1) rq en s1 = Some s'"
      by (subst (asm) doInterruptsLoop.simps) (auto split: bind_splits)
    from s1(1) have off: "\<not> interruptsEnabled s1"
      by (rule runInterrupt_disables)
    show ?thesis
    proof (cases "\<exists>j. i + 1 \<le> j \<and> j < 5 \<and> truthy (checkInterruptBitSet j rq) \<and>
              truthy (checkInterruptBitSet j en)")
      case True
      have eq: "(if truthy (checkInterruptBitSet i rq) then
                   (if truthy (checkInterruptBitSet i en) then runInterrupt i s else Some s)
                 else Some s) = Some s1"
        using serviced s1(1) by simp
      from "1.IH" [OF lt eq s1(2) True] show ?thesis .
    next
      case False
      then have "doInterruptsLoop (i + 1) rq en s1 = Some s1"
        by (intro doInterruptsLoop_idle) auto
      with s1(2) off show ?thesis
        by simp
    qed
  next
    case skipped: False
    have eq: "(if truthy (checkInterruptBitSet i rq) then
                 (if truthy (checkInterruptBitSet i en) then runInterrupt i s else Some s)
               else Some s) = Some s"
      using skipped by auto
    with "1.prems"(1) lt have next_loop: "doInterruptsLoop (i + 1) rq en s = Some s'"
      by (subst (asm) doInterruptsLoop.simps) simp
    from "1.prems"(2) obtain j where j: "i \<le> j" "j < 5" "truthy (checkInterruptBitSet j rq)"
      "truthy (checkInterruptBitSet j en)"
      by blast
    with skipped have "j \<noteq> i"
      by auto
    with j have "\<exists>j. i + 1 \<le> j \<and> j < 5 \<and> truthy (checkInterruptBitSet j rq) \<and>
              truthy (checkInterruptBitSet j en)"
      by (intro exI [of _ j]) auto
    from "1.IH" [OF lt eq next_loop this] show ?thesis .
  qed
qed

text \<open>When exactly one of the bits 0, 1, 2, 4 is both requested and enabled, the loop
  is one call of \<open>runInterrupt\<close>.\<close>

lemma doInterruptsLoop_single:
  assumes n: "n \<in> {0, 1, 2, 4}" and "bit rq n" "bit en n"
    and others: "\<forall>k \<in> {0, 1, 2, 4}. k \<noteq> n \<longrightarrow> \<not> (bit rq k \<and> bit en k)"
  shows "doInterruptsLoop 0 rq en s = runInterrupt (int n) s"
proof -
  have t: "truthy (checkInterruptBitSet (int k) rq) \<and> truthy (checkInterruptBitSet (int k) en)
             \<longleftrightarrow> k = n" if "k \<in> {0, 1, 2, 4}" for k
    using that assms by (auto simp only: truthy_checkInterruptBitSet [OF that])
  have t0: "truthy (checkInterruptBitSet 0 rq) \<and> truthy (checkInterruptBitSet 0 en) \<longleftrightarrow> n = 0"
    using t [of 0] by auto
  have t1: "truthy (checkInterruptBitSet 1 rq) \<and> truthy (checkInterruptBitSet 1 en) \<longleftrightarrow> n = 1"
    using t [of 1] by auto
  have t2: "truthy (checkInterruptBitSet 2 rq) \<and> truthy (checkInterruptBitSet 2 en) \<longleftrightarrow> n = 2"
    using t [of 2] by auto
  have t4: "truthy (checkInterruptBitSet 4 rq) \<and> truthy (checkInterruptBitSet 4 en) \<longleftrightarrow> n = 4"
    using t [of 4] by auto
  have t3: "\<not> truthy (checkInterruptBitSet 3 v)" for v
    by (rule not_truthy_checkInterruptBitSet_3)
  have l5: "doInterruptsLoop 5 rq en u = Some u" for u
    by (subst doInterruptsLoop.simps) simp
  have step: "doInterruptsLoop i rq en u =
     Option.bind (if truthy (checkInterruptBitSet i rq) \<and> truthy (checkInterruptBitSet i en)
                  then runInterrupt i u else Some u) (doInterruptsLoop (i + 1) rq en)"
    if "i < 5" for i u
    using that by (subst doInterruptsLoop.simps) simp
  have l4: "doInterruptsLoop 4 rq en u = (if n = 4 then runInterrupt 4 u else Some u)" for u
    using step [of 4 u] t4 l5 by (auto simp add: bind_eq_None_conv intro: option.expand split: bind_splits)
  have l3: "doInterruptsLoop 3 rq en u = (if n = 4 then runInterrupt 4 u else Some u)" for u
    using step [of 3 u] t3 l4 by simp
  have l2: "doInterruptsLoop 2 rq en u =
     (if n = 2 then runInterrupt 2 u else if n = 4 then runInterrupt 4 u else Some u)" for u
    using step [of 2 u] t2 l3 by (cases "runInterrupt 2 u") auto
  have l1: "doInterruptsLoop 1 rq en u =
     (if n = 1 then runInterrupt 1 u else if n = 2 then runInterrupt 2 u
      else if n = 4 then runInterrupt 4 u else Some u)" for u
    using step [of 1 u] t1 l2 by (cases "runInterrupt 1 u") auto
  have l0: "doInterruptsLoop 0 rq en u =
     (if n = 0 then runInterrupt 0 u else if n = 1 then runInterrupt 1 u
      else if n = 2 then runInterrupt 2 u else if n = 4 then runInterrupt 4 u else Some u)" for u
    using step [of 0 u] t0 l1 by (cases "runInterrupt 0 u") auto
  from n l0 [of s] show ?thesis
    by auto
qed

lemma below_5_cases: "0 \<le> j \<Longrightarrow> j < 5 \<Longrightarrow> j \<in> {0, 1, 2, 3, 4::int}"
  by auto

lemma withInterrupts_state:
  "withInterrupts rq en s =
     s\<lparr>mmu := (mmu s)\<lparr>memory := (memory (mmu s))(0xFF0F := Num rq, 0xFFFF := Num en)\<rparr>\<rparr>"
proof -
  have "plainRam 0xFF0F" "plainRam 0xFFFF"
    by (simp_all add: plainRam_def)
  then show ?thesis
    by (simp add: withInterrupts_def mmu_write_def write_mmu_plainRam)
qed

text \<open>Servicing one interrupt with the stack in plain RAM, in closed form.\<close>

lemma runInterrupt_plainRam:
  assumes "memory (mmu s) 0xFF0F = Num x"
    and "plainRam (SP (registers s) - 1)" and "plainRam (SP (registers s) - 2)"
  shows "runInterrupt i s =
     Some (s\<lparr>halted := False, interruptsEnabled := False,
              mmu := (mmu s)\<lparr>memory := (memory (mmu s))
                 (0xFF0F := Num (if i = 0 then js_xor x 1 else if i = 1 then js_xor x 2
                                 else if i = 2 then js_xor x 4 else if i = 4 then js_xor x 16
                                 else x),
                  SP (registers s) - 1 := Num (js_shr (PC (registers s)) 8),
                  SP (registers s) - 2 := Num (js_and (PC (registers s)) 0xFF))\<rparr>,
              registers := (registers s)\<lparr>SP := SP (registers s) - 2,
                 PC := (if i = 0 then 0x40 else if i = 1 then 0x48 else if i = 2 then 0x50
                        else if i = 4 then 0x60 else PC (registers s))\<rparr>\<rparr>)"
  using assms
  by (simp add: runInterrupt_def mmu_read_def read_def mmu_write_def
        write_mmu_plainRam [OF plainRam_stack(5)] pushToStack_plainRam Let_def)

lemma pendingBoth_state:
  "pendingBoth = (reset (cartridge_with []))
      \<lparr>mmu := (mmu (reset (cartridge_with [])))
         \<lparr>memory := (memory (mmu (reset (cartridge_with []))))(0xFF0F := Num 3, 0xFFFF := Num 3)\<rparr>\<rparr>"
proof -
  have "plainRam 0xFF0F" "plainRam 0xFFFF"
    by (simp_all add: plainRam_def)
  then show ?thesis
    by (simp add: pendingBoth_def withInterrupts_def mmu_write_def write_mmu_plainRam)
qed

section \<open>Facts about the flag register in the complete model\<close>

lemma lowNibbleOf_val_or:
  assumes "lowNibbleOf x = Some n" and "take_bit 4 m = 0"
  shows "lowNibbleOf (val_or x (Num m)) = Some n"
proof -
  from assms(1) obtain f where f: "x = Num f" "n = take_bit 4 f"
    by (cases x) auto
  have "take_bit 4 (toInt32 m) = 0"
    using assms(2) by (simp add: take_bit_4_toInt32)
  with f show ?thesis
    by (simp add: val_or_def js_or_def take_bit_4_toInt32 take_bit_or)
qed

lemma lowNibbleOf_val_and_not:
  assumes "lowNibbleOf x = Some n" and "take_bit 4 m = 0"
  shows "lowNibbleOf (val_and x (val_not (Num m))) = Some n"
proof -
  from assms(1) obtain f where f: "x = Num f" "n = take_bit 4 f"
    by (cases x) auto
  have "take_bit 4 (NOT (toInt32 (toInt32 m))) = take_bit 4 (NOT (0::int))"
    using assms(2) by (metis take_bit_not_take_bit take_bit_4_toInt32)
  then have "take_bit 4 (NOT (toInt32 (toInt32 m))) = 15"
    by (simp add: mask_eq_exp_minus_1)
  with f show ?thesis
    by (simp add: val_and_def val_not_def js_and_def js_not_def take_bit_4_toInt32 take_bit_and
          take_bit_4_and_15)
qed

lemma flag_bit_shift:
  "b \<in> {4, 5, 6, 7} \<Longrightarrow> \<exists>m. val_shl (Num 1) (Num b) = Num m \<and> take_bit 4 m = 0"
  by (auto simp add: val_shl_def js_shl_def toInt32_def)

text \<open>\<open>setFlagBit\<close> on one of the four flag bits keeps bits 0..3 of F.\<close>

lemma nibble_setFlagBit:
  assumes "b \<in> {4, 5, 6, 7}" and "flagLowNibble_js s = Some n"
  shows "flagLowNibble_js (setFlagBit_js (Num b) v s) = Some n"
proof -
  from flag_bit_shift [OF assms(1)] obtain m where
    m: "val_shl (Num 1) (Num b) = Num m" "take_bit 4 m = 0"
    by blast
  with assms(2) show ?thesis
    by (simp add: setFlagBit_js_def flagLowNibble_js_def lowNibbleOf_val_or
          lowNibbleOf_val_and_not)
qed

text \<open>
  Rules that follow a method statement by statement. A \<open>let\<close> that binds a state hands
  the property on to the body; a \<open>let\<close> that binds a value says nothing about it.
\<close>

lemma nibble_outcome:
  "flagLowNibble_js s = n \<Longrightarrow> flagLowNibble_js (outcome_state (Returns c s)) = n"
  "flagLowNibble_js s = n \<Longrightarrow> flagLowNibble_js (outcome_state (Throws s)) = n"
  by simp_all

lemma nibble_outcome_let:
  fixes a :: gameboy_js and v :: jsval and p :: "jsval \<times> jsval"
    and r :: "jsval \<times> gameboy_js" and q :: "int \<times> gameboy_js"
  shows "flagLowNibble_js a = n \<Longrightarrow>
      (\<And>x. flagLowNibble_js x = n \<Longrightarrow> flagLowNibble_js (outcome_state (f x)) = n) \<Longrightarrow>
      flagLowNibble_js (outcome_state (Let a f)) = n"
    and "(\<And>x. flagLowNibble_js (outcome_state (g x)) = n) \<Longrightarrow>
      flagLowNibble_js (outcome_state (Let v g)) = n"
    and "(\<And>x. flagLowNibble_js (outcome_state (h x)) = n) \<Longrightarrow>
      flagLowNibble_js (outcome_state (Let p h)) = n"
    and "flagLowNibble_js (snd r) = n \<Longrightarrow>
      (\<And>t x. flagLowNibble_js x = n \<Longrightarrow> flagLowNibble_js (outcome_state (k t x)) = n) \<Longrightarrow>
      flagLowNibble_js (outcome_state (Let r (case_prod k))) = n"
    and "flagLowNibble_js (snd q) = n \<Longrightarrow>
      (\<And>t x. flagLowNibble_js x = n \<Longrightarrow> flagLowNibble_js (outcome_state (l t x)) = n) \<Longrightarrow>
      flagLowNibble_js (outcome_state (Let q (case_prod l))) = n"
  by (simp_all add: split_beta)

lemma nibble_state_let:
  fixes a :: gameboy_js and v :: jsval and p :: "jsval \<times> jsval"
    and r :: "jsval \<times> gameboy_js"
  shows "flagLowNibble_js a = n \<Longrightarrow>
      (\<And>x. flagLowNibble_js x = n \<Longrightarrow> flagLowNibble_js (f x) = n) \<Longrightarrow>
      flagLowNibble_js (Let a f) = n"
    and "(\<And>x. flagLowNibble_js (g x) = n) \<Longrightarrow> flagLowNibble_js (Let v g) = n"
    and "(\<And>x. flagLowNibble_js (h x) = n) \<Longrightarrow> flagLowNibble_js (Let p h) = n"
    and "flagLowNibble_js (snd r) = n \<Longrightarrow>
      (\<And>t x. flagLowNibble_js x = n \<Longrightarrow> flagLowNibble_js (k t x) = n) \<Longrightarrow>
      flagLowNibble_js (Let r (case_prod k)) = n"
  by (simp_all add: split_beta)

lemma nibble_pair_let:
  fixes a :: gameboy_js and v :: jsval and p :: "jsval \<times> jsval"
    and r :: "jsval \<times> gameboy_js"
  shows "flagLowNibble_js a = n \<Longrightarrow>
      (\<And>x. flagLowNibble_js x = n \<Longrightarrow> flagLowNibble_js (snd (f x)) = n) \<Longrightarrow>
      flagLowNibble_js (snd (Let a f)) = n"
    and "(\<And>x. flagLowNibble_js (snd (g x)) = n) \<Longrightarrow> flagLowNibble_js (snd (Let v g)) = n"
    and "(\<And>x. flagLowNibble_js (snd (h x)) = n) \<Longrightarrow> flagLowNibble_js (snd (Let p h)) = n"
    and "flagLowNibble_js (snd r) = n \<Longrightarrow>
      (\<And>t x. flagLowNibble_js x = n \<Longrightarrow> flagLowNibble_js (snd (k t x)) = n) \<Longrightarrow>
      flagLowNibble_js (snd (Let r (case_prod k))) = n"
  by (simp_all add: split_beta)

lemma nibble_if:
  "flagLowNibble_js (outcome_state a) = n \<Longrightarrow> flagLowNibble_js (outcome_state b) = n \<Longrightarrow>
   flagLowNibble_js (outcome_state (if c then a else b)) = n"
  "flagLowNibble_js s1 = n \<Longrightarrow> flagLowNibble_js s2 = n \<Longrightarrow>
   flagLowNibble_js (if c then s1 else s2) = n"
  "flagLowNibble_js (snd p1) = n \<Longrightarrow> flagLowNibble_js (snd p2) = n \<Longrightarrow>
   flagLowNibble_js (snd (if c then p1 else p2)) = n"
  by simp_all

lemma nibble_pair: "flagLowNibble_js s = n \<Longrightarrow> flagLowNibble_js (snd (c, s)) = n"
  by simp

text \<open>Assignments to the registers other than F, and to the other fields.\<close>

lemma nibble_register_write:
  "flagLowNibble_js s = n \<Longrightarrow> flagLowNibble_js (s\<lparr>registers_js := (registers_js s)\<lparr>A_js := v\<rparr>\<rparr>) = n"
  "flagLowNibble_js s = n \<Longrightarrow> flagLowNibble_js (s\<lparr>registers_js := (registers_js s)\<lparr>B_js := v\<rparr>\<rparr>) = n"
  "flagLowNibble_js s = n \<Longrightarrow> flagLowNibble_js (s\<lparr>registers_js := (registers_js s)\<lparr>C_js := v\<rparr>\<rparr>) = n"
  "flagLowNibble_js s = n \<Longrightarrow> flagLowNibble_js (s\<lparr>registers_js := (registers_js s)\<lparr>D_js := v\<rparr>\<rparr>) = n"
  "flagLowNibble_js s = n \<Longrightarrow> flagLowNibble_js (s\<lparr>registers_js := (registers_js s)\<lparr>E_js := v\<rparr>\<rparr>) = n"
  "flagLowNibble_js s = n \<Longrightarrow> flagLowNibble_js (s\<lparr>registers_js := (registers_js s)\<lparr>H_js := v\<rparr>\<rparr>) = n"
  "flagLowNibble_js s = n \<Longrightarrow> flagLowNibble_js (s\<lparr>registers_js := (registers_js s)\<lparr>L_js := v\<rparr>\<rparr>) = n"
  "flagLowNibble_js s = n \<Longrightarrow> flagLowNibble_js (s\<lparr>registers_js := (registers_js s)\<lparr>PC_js := v\<rparr>\<rparr>) = n"
  "flagLowNibble_js s = n \<Longrightarrow> flagLowNibble_js (s\<lparr>registers_js := (registers_js s)\<lparr>SP_js := v\<rparr>\<rparr>) = n"
  by (simp_all add: flagLowNibble_js_def)

lemma nibble_field_write:
  "flagLowNibble_js s = n \<Longrightarrow> flagLowNibble_js (s\<lparr>halted_js := b\<rparr>) = n"
  "flagLowNibble_js s = n \<Longrightarrow> flagLowNibble_js (s\<lparr>interruptsEnabled_js := b\<rparr>) = n"
  "flagLowNibble_js s = n \<Longrightarrow> flagLowNibble_js (s\<lparr>toDisableInterrupts_js := i\<rparr>) = n"
  "flagLowNibble_js s = n \<Longrightarrow> flagLowNibble_js (s\<lparr>toEnableInterrupts_js := i\<rparr>) = n"
  "flagLowNibble_js s = n \<Longrightarrow> flagLowNibble_js (s\<lparr>valueHi_js := v\<rparr>) = n"
  "flagLowNibble_js s = n \<Longrightarrow> flagLowNibble_js (s\<lparr>valueLo_js := v\<rparr>) = n"
  by (simp_all add: flagLowNibble_js_def)

text \<open>The four assignments to F in the case of DAA.\<close>

lemma nibble_flag_masks:
  "flagLowNibble_js s = Some n \<Longrightarrow>
   flagLowNibble_js (s\<lparr>registers_js := (registers_js s)
      \<lparr>F_js := val_or (F_js (registers_js s)) (Num 0x10)\<rparr>\<rparr>) = Some n"
  "flagLowNibble_js s = Some n \<Longrightarrow>
   flagLowNibble_js (s\<lparr>registers_js := (registers_js s)
      \<lparr>F_js := val_and (F_js (registers_js s)) (val_not (Num 0x10))\<rparr>\<rparr>) = Some n"
  "flagLowNibble_js s = Some n \<Longrightarrow>
   flagLowNibble_js (s\<lparr>registers_js := (registers_js s)
      \<lparr>F_js := val_or (F_js (registers_js s)) (Num 0x80)\<rparr>\<rparr>) = Some n"
  "flagLowNibble_js s = Some n \<Longrightarrow>
   flagLowNibble_js (s\<lparr>registers_js := (registers_js s)
      \<lparr>F_js := val_and (F_js (registers_js s)) (val_not (Num 0x80))\<rparr>\<rparr>) = Some n"
  by (simp_all add: flagLowNibble_js_def lowNibbleOf_val_or lowNibbleOf_val_and_not)

lemma nibble_setFlagBit_call:
  "flagLowNibble_js s = Some n \<Longrightarrow> flagLowNibble_js (setFlagBit_js (Num ZERO_BIT) b s) = Some n"
  "flagLowNibble_js s = Some n \<Longrightarrow> flagLowNibble_js (setFlagBit_js (Num SUBTRACT_BIT) b s) = Some n"
  "flagLowNibble_js s = Some n \<Longrightarrow> flagLowNibble_js (setFlagBit_js (Num HALF_CARRY_BIT) b s) = Some n"
  "flagLowNibble_js s = Some n \<Longrightarrow> flagLowNibble_js (setFlagBit_js (Num CARRY_BIT) b s) = Some n"
  by (simp_all add: nibble_setFlagBit)

lemma snd_read_val: "snd (read_val a m) = m"
  by (cases a) (simp_all add: read_val_def snd_read)

lemma mmu_read_js_state: "snd (mmu_read_js a s) = s"
  by (simp add: mmu_read_js_def split_beta snd_read_val)

lemma nibble_mmu_call:
  "flagLowNibble_js s = n \<Longrightarrow> flagLowNibble_js (snd (mmu_read_js a s)) = n"
  "flagLowNibble_js s = n \<Longrightarrow> flagLowNibble_js (mmu_write_js a d s) = n"
  by (simp_all add: mmu_read_js_state) (simp add: mmu_write_js_def flagLowNibble_js_def)

lemmas nibble_basic = nibble_outcome nibble_outcome_let nibble_state_let nibble_pair_let
  nibble_if nibble_pair nibble_register_write nibble_field_write nibble_flag_masks
  nibble_setFlagBit_call nibble_mmu_call

lemma nibble_stack_call:
  "flagLowNibble_js s = Some n \<Longrightarrow> flagLowNibble_js (pushToStack_js d s) = Some n"
  "flagLowNibble_js s = Some n \<Longrightarrow> flagLowNibble_js (snd (popFromStack_js s)) = Some n"
  unfolding pushToStack_js_def popFromStack_js_def
  by ((rule nibble_basic | assumption)+)

lemma nibble_arith_call:
  "flagLowNibble_js s = Some n \<Longrightarrow> flagLowNibble_js (snd (inc8Bit_js x s)) = Some n"
  "flagLowNibble_js s = Some n \<Longrightarrow> flagLowNibble_js (snd (dec8Bit_js x s)) = Some n"
  "flagLowNibble_js s = Some n \<Longrightarrow> flagLowNibble_js (snd (add8Bit_js x y c s)) = Some n"
  "flagLowNibble_js s = Some n \<Longrightarrow> flagLowNibble_js (snd (sub8Bit_js x y c s)) = Some n"
  "flagLowNibble_js s = Some n \<Longrightarrow> flagLowNibble_js (snd (andRegisters_js x y s)) = Some n"
  "flagLowNibble_js s = Some n \<Longrightarrow> flagLowNibble_js (snd (xorRegisters_js x y s)) = Some n"
  "flagLowNibble_js s = Some n \<Longrightarrow> flagLowNibble_js (snd (orRegisters_js x y s)) = Some n"
  unfolding inc8Bit_js_def dec8Bit_js_def add8Bit_js_def sub8Bit_js_def andRegisters_js_def
    xorRegisters_js_def orRegisters_js_def
  by ((rule nibble_basic | assumption)+)

lemma nibble_rotate_call:
  "flagLowNibble_js s = Some n \<Longrightarrow> flagLowNibble_js (snd (doRlc_js x s)) = Some n"
  "flagLowNibble_js s = Some n \<Longrightarrow> flagLowNibble_js (snd (doRrc_js x s)) = Some n"
  "flagLowNibble_js s = Some n \<Longrightarrow> flagLowNibble_js (snd (doRl_js x s)) = Some n"
  "flagLowNibble_js s = Some n \<Longrightarrow> flagLowNibble_js (snd (doRr_js x s)) = Some n"
  "flagLowNibble_js s = Some n \<Longrightarrow> flagLowNibble_js (snd (doSla_js x s)) = Some n"
  "flagLowNibble_js s = Some n \<Longrightarrow> flagLowNibble_js (snd (doSra_js x s)) = Some n"
  "flagLowNibble_js s = Some n \<Longrightarrow> flagLowNibble_js (snd (doSwap_js x s)) = Some n"
  "flagLowNibble_js s = Some n \<Longrightarrow> flagLowNibble_js (snd (doSrl_js x s)) = Some n"
  "flagLowNibble_js s = Some n \<Longrightarrow> flagLowNibble_js (testBit_js bitno x s) = Some n"
  unfolding doRlc_js_def doRrc_js_def doRl_js_def doRr_js_def doSla_js_def doSra_js_def
    doSwap_js_def doSrl_js_def testBit_js_def
  by ((rule nibble_basic | assumption)+)

lemmas nibble_rules = nibble_basic nibble_stack_call nibble_arith_call nibble_rotate_call

text \<open>Every case of the prefix table keeps bits 0..3 of F.\<close>

lemma nibble_executePrefixOperation:
  "flagLowNibble_js s = Some n \<Longrightarrow>
   flagLowNibble_js (snd (executePrefixOperation_js opcode s)) = Some n"
  unfolding executePrefixOperation_js_def
  by ((rule nibble_rules | assumption)+)

text \<open>So does every case of the primary table other than POP AF.\<close>

lemma if_else_cong:
  "b = c \<Longrightarrow> y = v \<Longrightarrow> (if b then x else y) = (if c then x else v)"
  by simp

lemma nibble_executeOperation:
  assumes "opcode \<noteq> Num 0xF1" and "flagLowNibble_js s = Some n"
  shows "flagLowNibble_js (outcome_state (executeOperation_js opcode s)) = Some n"
  unfolding executeOperation_js_def
  using assms
  apply (simp only: if_False cong: if_else_cong)
  apply ((rule nibble_rules nibble_executePrefixOperation | assumption)+)
  done

lemma mmu_read_js_eq: "mmu_read_js a s = (fst (read_val a (mmu_js s)), s)"
  using snd_read_val [of a "mmu_js s"] by (simp add: mmu_read_js_def split_beta)

text \<open>The tail of \<open>executeOpcode\<close>, which counts DI and EI down, leaves the registers.\<close>

lemma executeOpcode_js_cases:
  obtains (halted) s' where "halted_js s" "executeOpcode_js s = Returns 4 s'"
      "registers_js s' = registers_js s"
    | (returns) c s1 s' where "\<not> halted_js s"
      "executeOperation_js (fst (read_val (PC_js (registers_js s)) (mmu_js s))) s = Returns c s1"
      "executeOpcode_js s = Returns c s'"
      "registers_js s' = (registers_js s1)\<lparr>PC_js := val_plus (PC_js (registers_js s1)) (Num 1)\<rparr>"
    | (throws) s1 where "\<not> halted_js s"
      "executeOperation_js (fst (read_val (PC_js (registers_js s)) (mmu_js s))) s = Throws s1"
      "executeOpcode_js s = Throws s1"
proof (cases "halted_js s")
  case True
  then have "\<exists>s'. executeOpcode_js s = Returns 4 s' \<and> registers_js s' = registers_js s"
    by (simp add: executeOpcode_js_def Let_def)
  with True halted show ?thesis
    by blast
next
  case False
  show ?thesis
  proof (cases "executeOperation_js (fst (read_val (PC_js (registers_js s)) (mmu_js s))) s")
    case (Returns c s1)
    with False have "\<exists>s'. executeOpcode_js s = Returns c s' \<and>
      registers_js s' = (registers_js s1)\<lparr>PC_js := val_plus (PC_js (registers_js s1)) (Num 1)\<rparr>"
      by (simp add: executeOpcode_js_def mmu_read_js_eq Let_def)
    with False Returns returns show ?thesis
      by blast
  next
    case (Throws s1)
    with False have "executeOpcode_js s = Throws s1"
      by (simp add: executeOpcode_js_def mmu_read_js_eq)
    with False Throws throws show ?thesis
      by blast
  qed
qed

text \<open>A CPU step that is not POP AF keeps bits 0..3 of F.\<close>

lemma nibble_executeOpcode:
  assumes "\<not> executesPopAF_js s" and "flagLowNibble_js s = Some n"
  shows "flagLowNibble_js (outcome_state (executeOpcode_js s)) = Some n"
proof (cases s rule: executeOpcode_js_cases)
  case (halted s')
  with assms(2) show ?thesis
    by (simp add: flagLowNibble_js_def)
next
  case (returns c s1 s')
  from returns(1) assms(1) have "fst (read_val (PC_js (registers_js s)) (mmu_js s)) \<noteq> Num 0xF1"
    by (simp add: executesPopAF_js_def)
  from nibble_executeOperation [OF this assms(2)] returns(2)
  have "flagLowNibble_js s1 = Some n"
    by simp
  with returns(3,4) show ?thesis
    by (simp add: flagLowNibble_js_def)
next
  case (throws s1)
  from throws(1) assms(1) have "fst (read_val (PC_js (registers_js s)) (mmu_js s)) \<noteq> Num 0xF1"
    by (simp add: executesPopAF_js_def)
  from nibble_executeOperation [OF this assms(2)] throws(2,3) show ?thesis
    by simp
qed

text \<open>POP AF, in closed form: F is the value at the stack location, A the one above.\<close>

lemma executeOperation_js_POP_AF:
  "executeOperation_js (Num 0xF1) s =
     Returns 12 (s\<lparr>registers_js := (registers_js s)
        \<lparr>F_js := fst (read_val (SP_js (registers_js s)) (mmu_js s)),
         A_js := fst (read_val (val_plus (SP_js (registers_js s)) (Num 1)) (mmu_js s)),
         SP_js := val_plus (val_plus (SP_js (registers_js s)) (Num 1)) (Num 1)\<rparr>\<rparr>)"
  by (simp add: executeOperation_js_def popFromStack_js_def mmu_read_js_eq Let_def)

lemma executeOpcode_js_POP_AF:
  assumes "executesPopAF_js s"
  shows "F_js (registers_js (outcome_state (executeOpcode_js s))) = stackTop_js s"
proof (cases s rule: executeOpcode_js_cases)
  case (halted s')
  with assms show ?thesis
    by (simp add: executesPopAF_js_def)
next
  case (returns c s1 s')
  with assms show ?thesis
    by (auto simp add: executesPopAF_js_def executeOperation_js_POP_AF stackTop_js_def)
next
  case (throws s1)
  with assms show ?thesis
    by (simp add: executesPopAF_js_def executeOperation_js_POP_AF)
qed

lemma flagLowNibble_reset_js: "flagLowNibble_js (reset_js cart) = Some 0"
  by (simp add: reset_js_def loadProgram_js_def initialize_js_def new_Gameboy_js_def
        flagLowNibble_js_def)

lemma reachable_js_nibble:
  assumes "s \<in> reachable_js cart"
  shows "flagLowNibble_js s = Some 0"
  using assms
proof induction
  case start
  show ?case
    by (rule flagLowNibble_reset_js)
next
  case (step s)
  show ?case
  proof (cases "executesPopAF_js s")
    case True
    with step(2) have "lowNibbleOf (stackTop_js s) = Some 0"
      by simp
    with executeOpcode_js_POP_AF [OF True] show ?thesis
      by (simp add: flagLowNibble_js_def)
  next
    case False
    from nibble_executeOpcode [OF False step.IH] show ?thesis .
  qed
qed

section \<open>Running the complete model\<close>

lemma reset_js_registers:
  "registers_js (reset_js c) = \<lparr>A_js = Num 0x01, B_js = Num 0x00, C_js = Num 0x13,
      D_js = Num 0x00, E_js = Num 0xD8, F_js = Num 0xB0, H_js = Num 0x01, L_js = Num 0x4D,
      PC_js = Num 0x100, SP_js = Num 0xFFFE\<rparr>"
  by (simp add: reset_js_def loadProgram_js_def initialize_js_def new_Gameboy_js_def)

lemma reset_js_fields:
  "halted_js (reset_js c) = False" "toDisableInterrupts_js (reset_js c) = - 1"
  "toEnableInterrupts_js (reset_js c) = - 1" "debug_js (reset_js c) = 0"
  by (simp_all add: reset_js_def loadProgram_js_def initialize_js_def new_Gameboy_js_def)

lemma reset_js_mmu: "mmu_js (reset_js c) = mmu (reset c)"
  by (simp add: reset_js_def loadProgram_js_def initialize_js_def new_Gameboy_js_def
        reset_def loadProgram_def initialize_def new_Gameboy_def)

lemma read_val_rom:
  "0 \<le> a \<Longrightarrow> a < 0x4000 \<Longrightarrow> memory m a = v \<Longrightarrow> read_val (Num a) m = (v, m)"
  by (auto simp add: read_val_def read_def)

lemma cart_bytes_js:
  "cartridgeByte swapCart 0x100 = Num 0x3E" "cartridgeByte swapCart 0x101 = Num 0x0F"
  "cartridgeByte swapCart 0x102 = Num 0xCB" "cartridgeByte swapCart 0x103 = Num 0x37"
  by (simp_all add: swapCart_def cartridgeByte_def cartridge_with_def)

text \<open>A CPU step of a running CPU with no DI or EI pending.\<close>

lemma executeOpcode_js_running:
  assumes "\<not> halted_js s" and "fst (read_val (PC_js (registers_js s)) (mmu_js s)) = op"
    and "executeOperation_js op s = Returns c s1"
    and "toDisableInterrupts_js s1 = - 1" and "toEnableInterrupts_js s1 = - 1"
  shows "executeOpcode_js s =
    Returns c (s1\<lparr>registers_js := (registers_js s1)\<lparr>PC_js := val_plus (PC_js (registers_js s1)) (Num 1)\<rparr>,
                 debug_js := debug_js s1 + 1\<rparr>)"
  using assms by (simp add: executeOpcode_js_def mmu_read_js_eq Let_def)

text \<open>LD BC,d16 and PUSH BC on \<open>popAFCart\<close>, step by step.\<close>

lemma popAFCart_two_steps: "steps_js 2 (reset_js popAFCart) = aboutToPopAF_js"
proof -
  let ?s0 = "reset_js popAFCart"
  let ?m0 = "mmu (reset popAFCart)"
  have rom: "read_val (Num 0x100) ?m0 = (Num 0x01, ?m0)" "read_val (Num 0x101) ?m0 = (Num 0x12, ?m0)"
    "read_val (Num 0x102) ?m0 = (Num 0xFF, ?m0)" "read_val (Num 0x103) ?m0 = (Num 0xC5, ?m0)"
    by (simp_all add: read_val_rom reset_memory_rom cart_bytes)
  \<comment> \<open>LD BC,d16\<close>
  define s1 where "s1 = ?s0\<lparr>registers_js := (registers_js ?s0)
      \<lparr>PC_js := Num 0x103, B_js := Num 0x12, C_js := Num 0xFF\<rparr>, debug_js := 1\<rparr>"
  have op1: "executeOperation_js (Num 0x01) ?s0 =
      Returns 12 (?s0\<lparr>registers_js := (registers_js ?s0)
        \<lparr>PC_js := Num 0x102, B_js := Num 0x12, C_js := Num 0xFF\<rparr>\<rparr>)"
    by (simp add: executeOperation_js_def Let_def mmu_read_js_eq reset_js_registers reset_js_mmu
          rom val_plus_def)
  have e1: "executeOpcode_js ?s0 = Returns 12 s1"
    using executeOpcode_js_running [OF _ _ op1]
    by (simp add: reset_js_fields reset_js_registers reset_js_mmu rom s1_def val_plus_def)
  \<comment> \<open>PUSH BC\<close>
  have op2: "executeOperation_js (Num 0xC5) s1 =
      Returns 16 (s1\<lparr>registers_js := (registers_js s1)\<lparr>SP_js := Num 0xFFFC\<rparr>,
        mmu_js := ?m0\<lparr>memory := (memory ?m0)(0xFFFD := Num 0x12, 0xFFFC := Num 0xFF)\<rparr>\<rparr>)"
    by (simp add: executeOperation_js_def Let_def pushToStack_js_def mmu_write_js_def
          write_val_def write_mmu_plainRam plainRam_stack s1_def reset_js_registers
          reset_js_mmu val_minus_def)
  have e2: "executeOpcode_js s1 = Returns 16 aboutToPopAF_js"
    using executeOpcode_js_running [OF _ _ op2]
    by (simp add: reset_js_fields reset_js_registers reset_js_mmu rom s1_def aboutToPopAF_js_def
          val_plus_def)
  show ?thesis
    by (simp add: numeral_2_eq_2 e1 e2)
qed

lemma aboutToPopAF_js_facts:
  "executesPopAF_js aboutToPopAF_js" "stackTop_js aboutToPopAF_js = Num 0xFF"
proof -
  have "read_val (Num 0x104) (mmu_js aboutToPopAF_js) = (Num 0xF1, mmu_js aboutToPopAF_js)"
    by (rule read_val_rom) (simp_all add: aboutToPopAF_js_def reset_memory_rom cart_bytes)
  then show "executesPopAF_js aboutToPopAF_js"
    by (simp add: executesPopAF_js_def) (simp add: aboutToPopAF_js_def reset_js_fields reset_js_registers)
  show "stackTop_js aboutToPopAF_js = Num 0xFF"
    by (simp add: stackTop_js_def aboutToPopAF_js_def reset_js_registers read_val_def
          read_plainRam plainRam_stack)
qed

text \<open>LD A,d8 on \<open>swapCart\<close>: the step and what the next one fetches.\<close>

lemma swapCart_first_step:
  "\<not> executesPopAF_js (reset_js swapCart)"
  "\<not> executesPopAF_js (outcome_state (executeOpcode_js (reset_js swapCart)))"
proof -
  let ?s0 = "reset_js swapCart"
  let ?m0 = "mmu (reset swapCart)"
  have rom: "read_val (Num 0x100) ?m0 = (Num 0x3E, ?m0)" "read_val (Num 0x101) ?m0 = (Num 0x0F, ?m0)"
    "read_val (Num 0x102) ?m0 = (Num 0xCB, ?m0)"
    by (simp_all add: read_val_rom reset_memory_rom cart_bytes_js)
  show "\<not> executesPopAF_js ?s0"
    by (simp add: executesPopAF_js_def reset_js_registers reset_js_mmu rom)
  have op1: "executeOperation_js (Num 0x3E) ?s0 =
      Returns 8 (?s0\<lparr>registers_js := (registers_js ?s0)\<lparr>PC_js := Num 0x101, A_js := Num 0x0F\<rparr>\<rparr>)"
    by (simp add: executeOperation_js_def Let_def mmu_read_js_eq reset_js_registers reset_js_mmu
          rom val_plus_def)
  have "executeOpcode_js ?s0 =
      Returns 8 (?s0\<lparr>registers_js := (registers_js ?s0)\<lparr>PC_js := Num 0x102, A_js := Num 0x0F\<rparr>,
                  debug_js := 1\<rparr>)"
    using executeOpcode_js_running [OF _ _ op1]
    by (simp add: reset_js_fields reset_js_registers reset_js_mmu rom val_plus_def)
  then show "\<not> executesPopAF_js (outcome_state (executeOpcode_js ?s0))"
    by (simp add: executesPopAF_js_def reset_js_registers reset_js_mmu rom)
qed

section \<open>The claims\<close>

text \<open>
  C1. Claim: whenever IME is set and IF \<open>&\<close> IE has one of the bits 0, 1, 2, 4, the
  interrupt controller services exactly one interrupt, the one of highest priority, and
  no other pending interrupt in the same step.

  The loop of \<open>doInterrupts\<close> has no exit after \<open>runInterrupt\<close> and does not look
  at IME again: with V-Blank and LCD both requested and enabled, PC = 0x0100 and
  SP = 0xFFFE, one call services both. It pushes 0x0100 and jumps to 0x40, then pushes
  0x0040 and jumps to 0x48; both request bits are cleared and SP has dropped by four.
\<close>

theorem doInterrupts_services_two_in_one_call:
  "map_option dispatchView (doInterrupts pendingBoth) =
     Some (0x48, 0xFFFA, False, Num 0, [Num 0x40, Num 0x00, Num 0x00, Num 0x01])"
proof -
  let ?s = pendingBoth
  have s: "interruptsEnabled ?s" "mmu_read 0xFF0F ?s = Some (3, ?s)"
    "mmu_read 0xFFFF ?s = Some (3, ?s)" "SP (registers ?s) = 0xFFFE" "PC (registers ?s) = 0x100"
    "memory (mmu ?s) 0xFF0F = Num 3"
    by (simp_all add: pendingBoth_state mmu_read_def read_def reset_fields reset_registers)
  have ram: "plainRam 0xFFFD" "plainRam 0xFFFC" "plainRam 0xFFFB" "plainRam 0xFFFA"
    by (simp_all add: plainRam_def)
  have bits: "truthy (checkInterruptBitSet 0 3)" "truthy (checkInterruptBitSet 1 3)"
    "\<not> truthy (checkInterruptBitSet 2 3)" "\<not> truthy (checkInterruptBitSet 3 3)"
    "\<not> truthy (checkInterruptBitSet 4 3)"
    by (simp_all add: checkInterruptBitSet_def js_ops)
  obtain s1 where s1: "runInterrupt 0 ?s = Some s1"
    "memory (mmu s1) 0xFF0F = Num 2" "SP (registers s1) = 0xFFFC" "PC (registers s1) = 0x40"
    "memory (mmu s1) 0xFFFD = Num 0x01" "memory (mmu s1) 0xFFFC = Num 0x00"
    using s ram by (simp add: runInterrupt_plainRam js_ops)
  obtain s2 where s2: "runInterrupt 1 s1 = Some s2"
    "dispatchView s2 = (0x48, 0xFFFA, False, Num 0, [Num 0x40, Num 0x00, Num 0x00, Num 0x01])"
    using s1 ram by (simp add: runInterrupt_plainRam dispatchView_def js_ops)
  have "doInterruptsLoop 0 3 3 ?s = Some s2"
    using bits s1(1) s2(1) by (simp add: doInterruptsLoop.simps)
  then have "doInterrupts ?s = Some s2"
    using s by (simp add: doInterrupts_def)
  with s2(2) show ?thesis
    by simp
qed

text \<open>
  C2. Claim: the timer subtracts each step's cycles from a remainder that persists
  across steps, so that TIMA advances once per elapsed period even when the period is
  made up of several small steps.

  \<open>updateTimers\<close> begins with \<open>setClockFrequency\<close>, which puts the whole period
  back into \<open>timerCounter\<close> on every call. With TAC = 5 (period 16) two steps of 8
  cycles leave TIMA at 0 and the remainder at 8; only a single step of 16 cycles or
  more advances TIMA.
\<close>

theorem updateTimers_forgets_remainder:
  "map_option timerView (updateTimers 8 timerFast \<bind> updateTimers 8) = Some (Num 0, 8) \<and>
   map_option timerView (updateTimers 16 timerFast) = Some (Num 1, 16)"
  by (simp add: timerFast_def timerView_def updateTimers_def setClockFrequency_def
        getClockFrequency_def isClockEnabled_def incrementDividerRegister_def
        requestInterrupt_def cpu_defs reset_defs js_ops)

text \<open>
  C3. Claim: ADD A,B with A = 0xFF and B = 0x01 leaves A = 0x00 and sets Z, H and C.

  \<open>add8Bit\<close> wraps a sum above 0xFF by subtracting 0xFF, not 0x100: the step leaves
  A = 0x01, and Z is not set (F = 0x30: H and C only, from F = 0x00 before).
\<close>

theorem add_0xFF_0x01_gives_0x01:
  "map_option (registers \<circ> snd) (executeOpcode addOverflow) =
     Some \<lparr>A = 0x01, B = 0x01, C = 0x13, D = 0x00, E = 0xD8, F = 0x30, H = 0x01, L = 0x4D,
           PC = 0x101, SP = 0xFFFE\<rparr>"
  by (simp add: addOverflow_def addCart_def cpu_defs reset_defs js_ops)

text \<open>
  C4. Claim: after every 8-bit ADD, SUB, INC or DEC, from any prior flags, Z is set
  if and only if the result is zero.

  The four helpers set Z when the result is zero and never clear it. From reset
  (A = 0x01, B = 0x00, F = 0xB0, so Z is set) ADD A,B gives A = 0x01 and leaves
  F = 0xB0: Z is still set although the result is not zero.
\<close>

theorem add_keeps_stale_zero_flag:
  "map_option (registers \<circ> snd) (executeOpcode (reset addCart)) =
     Some \<lparr>A = 0x01, B = 0x00, C = 0x13, D = 0x00, E = 0xD8, F = 0xB0, H = 0x01, L = 0x4D,
           PC = 0x101, SP = 0xFFFE\<rparr>"
  by (simp add: addCart_def cpu_defs reset_defs js_ops)

text \<open>
  C5. Claim: after HALT each CPU step returns 4 cycles without fetching, and the halt
  flag is cleared as soon as IE \<open>&\<close> IF is nonzero, whether or not IME is set; with
  IME clear execution then continues at PC.

  The halt flag is cleared in \<open>runInterrupt\<close> only, and \<open>doInterrupts\<close> does nothing
  while IME is clear. HALT executed with IME clear, V-Blank requested and enabled
  (IF = IE = 1): the CPU is halted, and from then on neither the interrupt dispatch nor
  a CPU step changes anything; the CPU stays halted.
\<close>

theorem halt_with_IME_clear_counterexample:
  "executeOpcode aboutToHalt = Some (4, haltedNoIME) \<and> halted haltedNoIME \<and>
   \<not> interruptsEnabled haltedNoIME \<and>
   memory (mmu haltedNoIME) INTERRUPT_REQUEST_ADDR = Num 1 \<and>
   memory (mmu haltedNoIME) INTERRUPT_ENABLED_ADDR = Num 1 \<and>
   doInterrupts haltedNoIME = Some haltedNoIME \<and>
   executeOpcode haltedNoIME = Some (4, haltedNoIME)"
proof -
  have byte: "cartridgeByte (cartridge_with [(0x100, 0x76)]) 0x100 = Num 0x76"
    by (simp add: cartridgeByte_def cartridge_with_def)
  have "executeOpcode aboutToHalt = Some (4, haltedNoIME)"
    by (simp add: aboutToHalt_def haltedNoIME_def withInterrupts_state executeOpcode_def
          executeOperation_def mmu_read_def read_def reset_registers reset_fields
          reset_memory_rom byte Let_def)
  moreover have "halted haltedNoIME" "\<not> interruptsEnabled haltedNoIME"
    "memory (mmu haltedNoIME) 0xFF0F = Num 1" "memory (mmu haltedNoIME) 0xFFFF = Num 1"
    by (simp_all add: aboutToHalt_def haltedNoIME_def withInterrupts_state)
  moreover have "doInterrupts haltedNoIME = Some haltedNoIME"
    by (simp add: doInterrupts_def aboutToHalt_def haltedNoIME_def)
  moreover have "executeOpcode haltedNoIME = Some (4, haltedNoIME)"
    by (simp add: aboutToHalt_def haltedNoIME_def withInterrupts_state executeOpcode_def
          reset_fields Let_def)
  ultimately show ?thesis
    by simp
qed

text \<open>
  C5, amended: while the halt flag is set, each CPU step returns 4 cycles without
  fetching and leaves the registers, the memory and the halt flag as they are. The halt
  flag is cleared only by \<open>doInterrupts\<close>, and only with IME set: with IME clear, or
  with no bit among 0, 1, 2, 4 set in both IF and IE, \<open>doInterrupts\<close> changes nothing
  and the CPU stays halted. With IME set, IF positive and a bit \<open>n\<close> among 0, 1, 2, 4
  set in both IF and IE, \<open>doInterrupts\<close> returns with the halt flag and IME both
  cleared. When \<open>n\<close> is the only such bit and the two bytes below SP are plain RAM,
  the state it returns is the given one with the halt flag and IME cleared, IF replaced
  by its exclusive or with \<open>2 ^ n\<close> (which clears bit \<open>n\<close>), \<open>PC >> 8\<close> stored at
  SP - 1 and \<open>PC & 0xFF\<close> at SP - 2, SP lowered by 2, and PC set to the vector of
  \<open>n\<close> (0x40, 0x48, 0x50, 0x60 for 0, 1, 2, 4); nothing else changes.
\<close>

theorem halt_resume_amended:
  "(halted s \<longrightarrow>
      (\<exists>s'. executeOpcode s = Some (4, s') \<and> halted s' \<and> registers s' = registers s \<and>
         mmu s' = mmu s)) \<and>
   (\<not> interruptsEnabled s \<longrightarrow> doInterrupts s = Some s) \<and>
   (interruptsEnabled s \<and> memory (mmu s) INTERRUPT_REQUEST_ADDR = Num rq \<and>
    memory (mmu s) INTERRUPT_ENABLED_ADDR = Num en \<and>
    (\<forall>n \<in> {0, 1, 2, 4}. \<not> (bit rq n \<and> bit en n)) \<longrightarrow> doInterrupts s = Some s) \<and>
   (interruptsEnabled s \<and> memory (mmu s) INTERRUPT_REQUEST_ADDR = Num rq \<and>
    memory (mmu s) INTERRUPT_ENABLED_ADDR = Num en \<and> 0 < rq \<and>
    n \<in> {0, 1, 2, 4} \<and> bit rq n \<and> bit en n \<longrightarrow>
      (\<exists>s'. doInterrupts s = Some s' \<and> \<not> halted s' \<and> \<not> interruptsEnabled s')) \<and>
   (interruptsEnabled s \<and> memory (mmu s) INTERRUPT_REQUEST_ADDR = Num rq \<and>
    memory (mmu s) INTERRUPT_ENABLED_ADDR = Num en \<and> 0 < rq \<and>
    n \<in> {0, 1, 2, 4} \<and> bit rq n \<and> bit en n \<and>
    (\<forall>k \<in> {0, 1, 2, 4}. k \<noteq> n \<longrightarrow> \<not> (bit rq k \<and> bit en k)) \<and>
    plainRam (SP (registers s) - 1) \<and> plainRam (SP (registers s) - 2) \<longrightarrow>
      doInterrupts s =
        Some (s\<lparr>halted := False, interruptsEnabled := False,
                 mmu := (mmu s)\<lparr>memory := (memory (mmu s))
                    (INTERRUPT_REQUEST_ADDR := Num (js_xor rq (2 ^ n)),
                     SP (registers s) - 1 := Num (js_shr (PC (registers s)) 8),
                     SP (registers s) - 2 := Num (js_and (PC (registers s)) 0xFF))\<rparr>,
                 registers := (registers s)\<lparr>SP := SP (registers s) - 2,
                    PC := (if n = 0 then 0x40 else if n = 1 then 0x48
                           else if n = 2 then 0x50 else 0x60)\<rparr>\<rparr>))"
proof (intro conjI impI)
  assume "halted s"
  then show "\<exists>s'. executeOpcode s = Some (4, s') \<and> halted s' \<and> registers s' = registers s \<and>
         mmu s' = mmu s"
    by (rule executeOpcode_halted)
next
  assume "\<not> interruptsEnabled s"
  then show "doInterrupts s = Some s"
    by (simp add: doInterrupts_def)
next
  assume a: "interruptsEnabled s \<and> memory (mmu s) INTERRUPT_REQUEST_ADDR = Num rq \<and>
    memory (mmu s) INTERRUPT_ENABLED_ADDR = Num en \<and>
    (\<forall>n \<in> {0, 1, 2, 4}. \<not> (bit rq n \<and> bit en n))"
  have idle: "\<not> (truthy (checkInterruptBitSet j rq) \<and> truthy (checkInterruptBitSet j en))"
    if "0 \<le> j" "j < 5" for j
  proof -
    from that consider "j = int 0" | "j = int 1" | "j = int 2" | "j = 3" | "j = int 4"
      using below_5_cases [of j] by auto
    then show ?thesis
    proof cases
      case 4
      then show ?thesis
        by (simp add: not_truthy_checkInterruptBitSet_3)
    qed (use a in \<open>simp_all only: truthy_checkInterruptBitSet [of _ rq]
           truthy_checkInterruptBitSet [of _ en] insertI1 insertI2, auto\<close>)
  qed
  have "doInterruptsLoop 0 rq en s = Some s"
    by (rule doInterruptsLoop_idle) (use idle in auto)
  with a show "doInterrupts s = Some s"
    by (simp add: doInterrupts_def mmu_read_IF mmu_read_IE)
next
  assume a: "interruptsEnabled s \<and> memory (mmu s) INTERRUPT_REQUEST_ADDR = Num rq \<and>
    memory (mmu s) INTERRUPT_ENABLED_ADDR = Num en \<and> 0 < rq \<and>
    n \<in> {0, 1, 2, 4} \<and> bit rq n \<and> bit en n"
  then have n: "n \<in> {0, 1, 2, 4}" and "bit rq n" "bit en n"
    by simp_all
  then have t: "truthy (checkInterruptBitSet (int n) rq)" "truthy (checkInterruptBitSet (int n) en)"
    by (simp_all only: truthy_checkInterruptBitSet [OF n])
  from n have "0 \<le> int n \<and> int n < 5"
    by auto
  with t have pending: "\<exists>j. 0 \<le> j \<and> j < 5 \<and> truthy (checkInterruptBitSet j rq) \<and>
                 truthy (checkInterruptBitSet j en)"
    by blast
  with doInterruptsLoop_unhalts [of s rq 0 rq en] a
  obtain s' where s': "doInterruptsLoop 0 rq en s = Some s'" "\<not> halted s'"
    by auto
  from doInterruptsLoop_disables [OF s'(1) pending] have "\<not> interruptsEnabled s'" .
  with a s' show "\<exists>s'. doInterrupts s = Some s' \<and> \<not> halted s' \<and> \<not> interruptsEnabled s'"
    by (simp add: doInterrupts_def mmu_read_IF mmu_read_IE)
next
  assume a: "interruptsEnabled s \<and> memory (mmu s) INTERRUPT_REQUEST_ADDR = Num rq \<and>
    memory (mmu s) INTERRUPT_ENABLED_ADDR = Num en \<and> 0 < rq \<and>
    n \<in> {0, 1, 2, 4} \<and> bit rq n \<and> bit en n \<and>
    (\<forall>k \<in> {0, 1, 2, 4}. k \<noteq> n \<longrightarrow> \<not> (bit rq k \<and> bit en k)) \<and>
    plainRam (SP (registers s) - 1) \<and> plainRam (SP (registers s) - 2)"
  then have n: "n \<in> {0, 1, 2, 4}" and b: "bit rq n" "bit en n"
    and others: "\<forall>k \<in> {0, 1, 2, 4}. k \<noteq> n \<longrightarrow> \<not> (bit rq k \<and> bit en k)"
    and rq: "memory (mmu s) 0xFF0F = Num rq"
    and stack: "plainRam (SP (registers s) - 1)" "plainRam (SP (registers s) - 2)"
    by simp_all
  have "doInterrupts s = runInterrupt (int n) s"
    using a doInterruptsLoop_single [OF n b others, of s]
    by (simp add: doInterrupts_def mmu_read_IF mmu_read_IE)
  also have "\<dots> = Some (s\<lparr>halted := False, interruptsEnabled := False,
                 mmu := (mmu s)\<lparr>memory := (memory (mmu s))
                    (INTERRUPT_REQUEST_ADDR := Num (js_xor rq (2 ^ n)),
                     SP (registers s) - 1 := Num (js_shr (PC (registers s)) 8),
                     SP (registers s) - 2 := Num (js_and (PC (registers s)) 0xFF))\<rparr>,
                 registers := (registers s)\<lparr>SP := SP (registers s) - 2,
                    PC := (if n = 0 then 0x40 else if n = 1 then 0x48
                           else if n = 2 then 0x50 else 0x60)\<rparr>\<rparr>)"
    using n by (auto simp add: runInterrupt_plainRam [OF rq stack])
  finally show "doInterrupts s =
        Some (s\<lparr>halted := False, interruptsEnabled := False,
                 mmu := (mmu s)\<lparr>memory := (memory (mmu s))
                    (INTERRUPT_REQUEST_ADDR := Num (js_xor rq (2 ^ n)),
                     SP (registers s) - 1 := Num (js_shr (PC (registers s)) 8),
                     SP (registers s) - 2 := Num (js_and (PC (registers s)) 0xFF))\<rparr>,
                 registers := (registers s)\<lparr>SP := SP (registers s) - 2,
                    PC := (if n = 0 then 0x40 else if n = 1 then 0x48
                           else if n = 2 then 0x50 else 0x60)\<rparr>\<rparr>)" .
qed

theorem halt_resume_amended_witness:
  "(\<exists>s'. executeOpcode haltedNoIME = Some (4, s') \<and> halted s' \<and>
      registers s' = registers haltedNoIME \<and> mmu s' = mmu haltedNoIME) \<and>
   doInterrupts haltedNoIME = Some haltedNoIME \<and>
   doInterrupts haltedSerialOnly = Some haltedSerialOnly \<and>
   (\<exists>s'. doInterrupts haltedWithIME = Some s' \<and> \<not> halted s' \<and> \<not> interruptsEnabled s') \<and>
   doInterrupts haltedWithIME =
     Some (haltedWithIME\<lparr>halted := False, interruptsEnabled := False,
        mmu := (mmu haltedWithIME)\<lparr>memory := (memory (mmu haltedWithIME))
           (0xFF0F := Num 0, 0xFFFD := Num 0x01, 0xFFFC := Num 0x01)\<rparr>,
        registers := (registers haltedWithIME)\<lparr>SP := 0xFFFC, PC := 0x40\<rparr>\<rparr>)"
proof -
  have a: "halted haltedNoIME" "\<not> interruptsEnabled haltedNoIME"
    by (simp_all add: haltedNoIME_def aboutToHalt_def)
  have b: "interruptsEnabled haltedSerialOnly \<and>
    memory (mmu haltedSerialOnly) INTERRUPT_REQUEST_ADDR = Num 8 \<and>
    memory (mmu haltedSerialOnly) INTERRUPT_ENABLED_ADDR = Num 8 \<and>
    (\<forall>n \<in> {0, 1, 2, 4}. \<not> (bit (8::int) n \<and> bit (8::int) n))"
    by (simp add: haltedSerialOnly_def withInterrupts_state reset_fields bit_iff_odd)
  have regs: "SP (registers haltedWithIME) = 0xFFFE" "PC (registers haltedWithIME) = 0x101"
    by (simp_all add: haltedWithIME_def haltedNoIME_def aboutToHalt_def withInterrupts_state
          reset_registers)
  have c: "interruptsEnabled haltedWithIME \<and>
    memory (mmu haltedWithIME) INTERRUPT_REQUEST_ADDR = Num 1 \<and>
    memory (mmu haltedWithIME) INTERRUPT_ENABLED_ADDR = Num 1 \<and> 0 < (1::int) \<and>
    (0::nat) \<in> {0, 1, 2, 4} \<and> bit (1::int) 0 \<and> bit (1::int) 0"
    by (simp add: haltedWithIME_def haltedNoIME_def aboutToHalt_def withInterrupts_state
          bit_iff_odd)
  have d: "interruptsEnabled haltedWithIME \<and>
    memory (mmu haltedWithIME) INTERRUPT_REQUEST_ADDR = Num 1 \<and>
    memory (mmu haltedWithIME) INTERRUPT_ENABLED_ADDR = Num 1 \<and> 0 < (1::int) \<and>
    (0::nat) \<in> {0, 1, 2, 4} \<and> bit (1::int) 0 \<and> bit (1::int) 0 \<and>
    (\<forall>k \<in> {0, 1, 2, 4}. k \<noteq> (0::nat) \<longrightarrow> \<not> (bit (1::int) k \<and> bit (1::int) k)) \<and>
    plainRam (SP (registers haltedWithIME) - 1) \<and> plainRam (SP (registers haltedWithIME) - 2)"
    using c by (simp add: regs plainRam_stack bit_iff_odd)
  have "\<exists>s'. executeOpcode haltedNoIME = Some (4, s') \<and> halted s' \<and>
      registers s' = registers haltedNoIME \<and> mmu s' = mmu haltedNoIME"
    by (rule halt_resume_amended [THEN conjunct1, THEN mp, OF a(1)])
  moreover have "doInterrupts haltedNoIME = Some haltedNoIME"
    by (rule halt_resume_amended [THEN conjunct2, THEN conjunct1, THEN mp, OF a(2)])
  moreover have "doInterrupts haltedSerialOnly = Some haltedSerialOnly"
    by (rule halt_resume_amended [THEN conjunct2, THEN conjunct2, THEN conjunct1, THEN mp, OF b])
  moreover have "\<exists>s'. doInterrupts haltedWithIME = Some s' \<and> \<not> halted s' \<and>
      \<not> interruptsEnabled s'"
    by (rule halt_resume_amended [THEN conjunct2, THEN conjunct2, THEN conjunct2,
          THEN conjunct1, THEN mp, OF c])
  moreover have "doInterrupts haltedWithIME =
     Some (haltedWithIME\<lparr>halted := False, interruptsEnabled := False,
        mmu := (mmu haltedWithIME)\<lparr>memory := (memory (mmu haltedWithIME))
           (0xFF0F := Num 0, 0xFFFD := Num 0x01, 0xFFFC := Num 0x01)\<rparr>,
        registers := (registers haltedWithIME)\<lparr>SP := 0xFFFC, PC := 0x40\<rparr>\<rparr>)"
    using halt_resume_amended [THEN conjunct2, THEN conjunct2, THEN conjunct2,
          THEN conjunct2, THEN mp, OF d]
    by (simp add: regs js_ops)
  ultimately show ?thesis
    by (intro conjI)
qed

text \<open>
  C6. Claim: from the reset state with cartridge bytes 0xC3, 0x50, 0x01 at 0x0100
  (JP a16), one CPU step leaves PC = 0x0150.

  Every 16-bit immediate operand in the opcode table is read high byte first
  (\<open>addressHi\<close> is the first operand byte), JP a16 included: the step leaves
  PC = 0x5001, not 0x0150.
\<close>

theorem jp_a16_step_counterexample:
  "map_option (PC \<circ> registers \<circ> snd) (executeOpcode (reset jpCart)) = Some 0x5001 \<and>
   map_option (PC \<circ> registers \<circ> snd) (executeOpcode (reset jpCart)) \<noteq> Some 0x0150"
  by (simp add: jpCart_def cpu_defs reset_defs js_ops)

text \<open>
  C6, amended: from the reset state with cartridge bytes 0xC3, 0x50, 0x01 at 0x0100,
  one CPU step returns 12 cycles and leaves PC = 0x5001, the first operand byte being
  taken as the high byte of the target.
\<close>

theorem jp_a16_step_amended:
  assumes "cartridgeByte cart 0x100 = Num 0xC3"
    and "cartridgeByte cart 0x101 = Num 0x50"
    and "cartridgeByte cart 0x102 = Num 0x01"
  shows "map_option (\<lambda>(c, s). (c, PC (registers s))) (executeOpcode (reset cart)) = Some (12, 0x5001)"
  using assms
  by (simp add: executeOpcode_def executeOperation_def mmu_read_def read_def Let_def
        reset_def loadProgram_def initialize_def setCartridgeData_def new_Gameboy_def js_ops)

theorem jp_a16_step_amended_witness:
  "cartridgeByte jpCart 0x100 = Num 0xC3 \<and> cartridgeByte jpCart 0x101 = Num 0x50 \<and>
   cartridgeByte jpCart 0x102 = Num 0x01 \<and>
   map_option (\<lambda>(c, s). (c, PC (registers s))) (executeOpcode (reset jpCart)) = Some (12, 0x5001)"
proof -
  have b: "cartridgeByte jpCart 0x100 = Num 0xC3" "cartridgeByte jpCart 0x101 = Num 0x50"
    "cartridgeByte jpCart 0x102 = Num 0x01"
    by (simp_all add: jpCart_def cartridgeByte_def cartridge_with_def)
  from jp_a16_step_amended [OF b] b show ?thesis
    by simp
qed

text \<open>
  C7. Claim: in every state reachable from reset by any sequence of instructions the
  low nibble of F is zero, in particular after POP AF with an arbitrary byte at the
  stack location.

  POP AF assigns the popped value to F without masking it. From reset, LD BC,d16 with
  the operand bytes 0x12, 0xFF, then PUSH BC, then POP AF leave F = 0xFF.
\<close>

theorem flag_low_nibble_counterexample:
  "registers_js (steps_js 3 (reset_js popAFCart)) =
     \<lparr>A_js = Num 0x12, B_js = Num 0x12, C_js = Num 0xFF, D_js = Num 0x00, E_js = Num 0xD8,
      F_js = Num 0xFF, H_js = Num 0x01, L_js = Num 0x4D, PC_js = Num 0x105, SP_js = Num 0xFFFE\<rparr> \<and>
   flagLowNibble_js (steps_js 3 (reset_js popAFCart)) = Some 0xF"
proof -
  have top: "read_val (Num 0xFFFC) (mmu_js aboutToPopAF_js) = (Num 0xFF, mmu_js aboutToPopAF_js)"
    "read_val (Num 0xFFFD) (mmu_js aboutToPopAF_js) = (Num 0x12, mmu_js aboutToPopAF_js)"
    by (simp_all add: read_val_def read_plainRam plainRam_stack aboutToPopAF_js_def)
  have fetch: "fst (read_val (PC_js (registers_js aboutToPopAF_js)) (mmu_js aboutToPopAF_js)) = Num 0xF1"
    using aboutToPopAF_js_facts(1) by (simp add: executesPopAF_js_def)
  have "steps_js 3 (reset_js popAFCart) = outcome_state (executeOpcode_js aboutToPopAF_js)"
    using popAFCart_two_steps by (simp add: numeral_3_eq_3 numeral_2_eq_2)
  moreover have "registers_js (outcome_state (executeOpcode_js aboutToPopAF_js)) =
     \<lparr>A_js = Num 0x12, B_js = Num 0x12, C_js = Num 0xFF, D_js = Num 0x00, E_js = Num 0xD8,
      F_js = Num 0xFF, H_js = Num 0x01, L_js = Num 0x4D, PC_js = Num 0x105, SP_js = Num 0xFFFE\<rparr>"
    using executeOpcode_js_running [OF _ fetch executeOperation_js_POP_AF] top
    by (simp add: aboutToPopAF_js_def reset_js_fields reset_js_registers val_plus_def)
  ultimately show ?thesis
    by (simp add: flagLowNibble_js_def)
qed

text \<open>
  C7, amended: in every state that CPU steps reach from reset, where POP AF is executed
  only with a number whose bits 0..3 are zero at the stack location, F is a number
  whose bits 0..3 are zero; every CPU step other than POP AF, over both opcode tables
  in full, leaves bits 0..3 of F as they are. POP AF assigns the value at the stack
  location to F unmasked, so after POP AF bits 0..3 of F are those of that value.
\<close>

theorem flag_low_nibble_amended:
  "(\<forall>s \<in> reachable_js cart. flagLowNibble_js s = Some 0) \<and>
   (\<forall>s n. \<not> executesPopAF_js s \<and> flagLowNibble_js s = Some n \<longrightarrow>
      flagLowNibble_js (outcome_state (executeOpcode_js s)) = Some n) \<and>
   (\<forall>s. executesPopAF_js s \<longrightarrow>
      F_js (registers_js (outcome_state (executeOpcode_js s))) = stackTop_js s)"
  using reachable_js_nibble nibble_executeOpcode executeOpcode_js_POP_AF by blast

theorem flag_low_nibble_amended_witness:
  "flagLowNibble_js (steps_js 2 (reset_js swapCart)) = Some 0 \<and>
   flagLowNibble_js (outcome_state (executeOpcode_js (reset_js swapCart))) = Some 0 \<and>
   F_js (registers_js (outcome_state (executeOpcode_js aboutToPopAF_js))) = Num 0xFF"
proof -
  let ?s0 = "reset_js swapCart"
  let ?s1 = "outcome_state (executeOpcode_js ?s0)"
  let ?s2 = "outcome_state (executeOpcode_js ?s1)"
  have "?s0 \<in> reachable_js swapCart"
    by (rule reachable_js.start)
  then have "?s1 \<in> reachable_js swapCart"
    by (rule reachable_js.step) (simp add: swapCart_first_step)
  then have "?s2 \<in> reachable_js swapCart"
    by (rule reachable_js.step) (simp add: swapCart_first_step)
  then have r: "steps_js 2 ?s0 \<in> reachable_js swapCart"
    by (simp add: numeral_2_eq_2)
  have a: "\<not> executesPopAF_js ?s0 \<and> flagLowNibble_js ?s0 = Some 0"
    by (simp add: swapCart_first_step flagLowNibble_js_def reset_js_registers)
  have "flagLowNibble_js (steps_js 2 ?s0) = Some 0"
    by (rule flag_low_nibble_amended [THEN conjunct1, THEN bspec, OF r])
  moreover have "flagLowNibble_js ?s1 = Some 0"
    by (rule flag_low_nibble_amended [THEN conjunct2, THEN conjunct1, THEN spec, THEN spec,
          THEN mp, OF a])
  moreover have "F_js (registers_js (outcome_state (executeOpcode_js aboutToPopAF_js))) = Num 0xFF"
    using flag_low_nibble_amended [THEN conjunct2, THEN conjunct2, THEN spec, THEN mp,
          OF aboutToPopAF_js_facts(1)]
    by (simp add: aboutToPopAF_js_facts(2))
  ultimately show ?thesis
    by (intro conjI)
qed

text \<open>
  C8. Claim: a write to any address from 0xFEA0 to 0xFEFF, both ends included, is
  dropped.

  The guard of \<open>write\<close> is \<open>address >= 0xFEA0 && address < 0xFEFF\<close>: the last
  address of the unusable region falls through to the final branch and is stored.
\<close>

theorem write_0xFEFF_is_stored:
  "memory (mmu (reset (cartridge_with []))) 0xFEFF = Num 0 \<and>
   memory (write_mmu 0xFEFF (Num 0x12) (mmu (reset (cartridge_with [])))) 0xFEFF = Num 0x12"
  by (simp add: write_mmu.simps reset_defs)

text \<open>
  C9. For each register pair BC, DE, HL and AF, and every state of a running CPU in
  which SP - 1 and SP - 2 are plain RAM (high RAM in particular, by
  \<open>plainRam_high_RAM\<close>): if the CPU fetches
  PUSH of the pair, the step is taken, and if it then fetches POP of the same pair,
  that step is taken too and leaves every register, SP included, as it was before the
  PUSH, with PC two further.
\<close>

theorem push_pop_restores_registers:
  assumes "\<not> halted s"
    and "plainRam (SP (registers s) - 1)" and "plainRam (SP (registers s) - 2)"
    and "(push, pop) \<in> {(0xC5, 0xC1), (0xD5, 0xD1), (0xE5, 0xE1), (0xF5, 0xF1)}"
    and "fetched s = Num push"
  shows "\<exists>c1 s1. executeOpcode s = Some (c1, s1) \<and>
           (fetched s1 = Num pop \<longrightarrow>
              (\<exists>c2 s2. executeOpcode s1 = Some (c2, s2) \<and>
                 registers s2 = (registers s)\<lparr>PC := PC (registers s) + 2\<rparr>))"
proof -
  consider (BC) "push = 0xC5" "pop = 0xC1" | (DE) "push = 0xD5" "pop = 0xD1"
    | (HL) "push = 0xE5" "pop = 0xE1" | (AF) "push = 0xF5" "pop = 0xF1"
    using assms(4) by auto
  then show ?thesis
  proof cases
    case BC
    show ?thesis
      unfolding BC
      by (rule push_pop_pair [OF assms(1-3) assms(5) [unfolded BC],
            where setpair = "\<lambda>hi lo r. r\<lparr>C := lo, B := hi\<rparr>"
              and hi = "B (registers s)" and lo = "C (registers s)"])
         (simp_all add: executeOperation_def popFromStack_plainRam registers_pushToStack)
  next
    case DE
    show ?thesis
      unfolding DE
      by (rule push_pop_pair [OF assms(1-3) assms(5) [unfolded DE],
            where setpair = "\<lambda>hi lo r. r\<lparr>E := lo, D := hi\<rparr>"
              and hi = "D (registers s)" and lo = "E (registers s)"])
         (simp_all add: executeOperation_def popFromStack_plainRam registers_pushToStack)
  next
    case HL
    show ?thesis
      unfolding HL
      by (rule push_pop_pair [OF assms(1-3) assms(5) [unfolded HL],
            where setpair = "\<lambda>hi lo r. r\<lparr>L := lo, H := hi\<rparr>"
              and hi = "H (registers s)" and lo = "L (registers s)"])
         (simp_all add: executeOperation_def popFromStack_plainRam registers_pushToStack)
  next
    case AF
    show ?thesis
      unfolding AF
      by (rule push_pop_pair [OF assms(1-3) assms(5) [unfolded AF],
            where setpair = "\<lambda>hi lo r. r\<lparr>F := lo, A := hi\<rparr>"
              and hi = "A (registers s)" and lo = "F (registers s)"])
         (simp_all add: executeOperation_def popFromStack_plainRam registers_pushToStack)
  qed
qed


theorem push_pop_restores_registers_witness:
  "\<not> halted (reset pushPopCart) \<and> plainRam (SP (registers (reset pushPopCart)) - 1) \<and>
   plainRam (SP (registers (reset pushPopCart)) - 2) \<and> fetched (reset pushPopCart) = Num 0xC5 \<and>
   (\<exists>c1 s1 c2 s2. executeOpcode (reset pushPopCart) = Some (c1, s1) \<and> fetched s1 = Num 0xC1 \<and>
      executeOpcode s1 = Some (c2, s2) \<and>
      registers s2 = (registers (reset pushPopCart))\<lparr>PC := 0x102\<rparr> \<and>
      B (registers s2) = 0x00 \<and> C (registers s2) = 0x13 \<and> SP (registers s2) = 0xFFFE)"
proof -
  let ?s = "reset pushPopCart"
  have h: "\<not> halted ?s" "plainRam (SP (registers ?s) - 1)" "plainRam (SP (registers ?s) - 2)"
    "fetched ?s = Num 0xC5"
    by (simp_all add: pushPopCart_def plainRam_def fetched_def read_def reset_defs)
  have pair: "(0xC5, 0xC1) \<in> {(0xC5, 0xC1), (0xD5, 0xD1), (0xE5, 0xE1), (0xF5, 0xF1::int)}"
    by simp
  from push_pop_restores_registers [OF h(1-3) pair h(4)]
  obtain c1 s1 where s1: "executeOpcode ?s = Some (c1, s1)"
    and restored: "fetched s1 = Num 0xC1 \<longrightarrow>
      (\<exists>c2 s2. executeOpcode s1 = Some (c2, s2) \<and>
         registers s2 = (registers ?s)\<lparr>PC := PC (registers ?s) + 2\<rparr>)"
    by blast
  have "executeOpcode ?s = Some (c, t) \<Longrightarrow> fetched t = Num 0xC1" for c t
    by (auto simp add: pushPopCart_def fetched_def cpu_defs reset_defs js_ops)
  with s1 have "fetched s1 = Num 0xC1"
    by blast
  with restored obtain c2 s2 where s2: "executeOpcode s1 = Some (c2, s2)"
    "registers s2 = (registers ?s)\<lparr>PC := PC (registers ?s) + 2\<rparr>"
    by blast
  have r: "registers ?s = \<lparr>A = 0x01, B = 0x00, C = 0x13, D = 0x00, E = 0xD8, F = 0xB0,
             H = 0x01, L = 0x4D, PC = 0x100, SP = 0xFFFE\<rparr>"
    by (simp add: reset_def loadProgram_def initialize_def new_Gameboy_def)
  from s2(2) have "registers s2 = (registers ?s)\<lparr>PC := 0x102\<rparr>"
    "B (registers s2) = 0x00" "C (registers s2) = 0x13" "SP (registers s2) = 0xFFFE"
    by (simp_all add: r)
  with h s1 \<open>fetched s1 = Num 0xC1\<close> s2(1) show ?thesis
    by blast
qed

text \<open>
  C10. \<open>read\<close> is free of side effects: for every address it returns the MMU it was
  given (backing array, cartridge, bank selection, external RAM and joypad shadow
  included), and so does \<open>getJoypadState\<close>; reading the same address again returns
  the same value.
\<close>

theorem read_has_no_side_effect:
  "snd (read address m) = m \<and> snd (getJoypadState m) = m \<and>
   fst (read address (snd (read address m))) = fst (read address m)"
  by (simp add: read_def getJoypadState_def Let_def)

end
